theory Spec2Isabelle
  imports Main "HOL-Library.Word"
begin

section \<open>Wire types\<close>

text \<open>
  The overlay of hcnet-core: \<^verbatim>\<open>Peer.cpp\<close>, \<^verbatim>\<open>Peer.h\<close> and
  \<^verbatim>\<open>FlowControlCapacity.cpp\<close>. Machine integers are words of their width, time points and
  durations of the virtual clock are integers counting nanoseconds, and the XDR payloads that
  the modelled functions never inspect are byte strings.
\<close>

type_synonym uint32 = "32 word"
type_synonym uint64 = "64 word"
type_synonym uint256 = "256 word"
type_synonym Hash = uint256
type_synonym NodeID = uint256
type_synonym HmacSha256Key = uint256
type_synonym HmacSha256Mac = uint256
type_synonym xdr_body = "8 word list"
type_synonym time_point = int
type_synonym duration = int

definition seconds :: "int \<Rightarrow> duration" where
  "seconds n = n * 1000000000"

definition milliseconds :: "int \<Rightarrow> duration" where
  "milliseconds n = n * 1000000"

datatype MessageType =
    ERROR_MSG | HELLO | AUTH | DONT_HAVE | GET_PEERS | PEERS | GET_TX_SET | TX_SET
  | GENERALIZED_TX_SET | TRANSACTION | GET_SCP_QUORUMSET | SCP_QUORUMSET | SCP_MESSAGE
  | GET_SCP_STATE | SURVEY_REQUEST | SURVEY_RESPONSE | SEND_MORE | SEND_MORE_EXTENDED
  | FLOOD_ADVERT | FLOOD_DEMAND

datatype ErrorCode = ERR_MISC | ERR_DATA | ERR_CONF | ERR_AUTH | ERR_LOAD

record AuthCert =
  pubkey :: uint256
  expiration :: uint64
  sig :: xdr_body

record Hello =
  ledgerVersion :: uint32
  overlayMinVersion :: uint32
  overlayVersion :: uint32
  versionStr :: string
  networkID :: Hash
  listeningPort :: int
  peerID :: NodeID
  cert :: AuthCert
  nonce :: uint256

datatype PeerBareAddress = EmptyAddress | IPv4Address string nat

text \<open>The union \<^verbatim>\<open>HcnetMessage\<close>, one constructor for each message type.\<close>

datatype HcnetMessage =
    MError ErrorCode string
  | MHello Hello
  | MAuth int
  | MDontHave MessageType uint256
  | MGetPeers
  | MPeers "PeerBareAddress list"
  | MGetTxSet uint256
  | MTxSet xdr_body
  | MGeneralizedTxSet xdr_body
  | MTransaction xdr_body
  | MGetSCPQuorumSet uint256
  | MSCPQuorumSet xdr_body
  | MSCPMessage xdr_body
  | MGetSCPState uint32
  | MSurveyRequest xdr_body
  | MSurveyResponse xdr_body
  | MSendMore uint32
  | MSendMoreExtended uint32 uint32
  | MFloodAdvert "Hash list"
  | MFloodDemand "Hash list"

fun msg_type :: "HcnetMessage \<Rightarrow> MessageType" where
  "msg_type (MError c s) = ERROR_MSG"
| "msg_type (MHello h) = HELLO"
| "msg_type (MAuth f) = AUTH"
| "msg_type (MDontHave t h) = DONT_HAVE"
| "msg_type MGetPeers = GET_PEERS"
| "msg_type (MPeers ps) = PEERS"
| "msg_type (MGetTxSet h) = GET_TX_SET"
| "msg_type (MTxSet b) = TX_SET"
| "msg_type (MGeneralizedTxSet b) = GENERALIZED_TX_SET"
| "msg_type (MTransaction b) = TRANSACTION"
| "msg_type (MGetSCPQuorumSet h) = GET_SCP_QUORUMSET"
| "msg_type (MSCPQuorumSet b) = SCP_QUORUMSET"
| "msg_type (MSCPMessage b) = SCP_MESSAGE"
| "msg_type (MGetSCPState n) = GET_SCP_STATE"
| "msg_type (MSurveyRequest b) = SURVEY_REQUEST"
| "msg_type (MSurveyResponse b) = SURVEY_RESPONSE"
| "msg_type (MSendMore n) = SEND_MORE"
| "msg_type (MSendMoreExtended n b) = SEND_MORE_EXTENDED"
| "msg_type (MFloodAdvert hs) = FLOOD_ADVERT"
| "msg_type (MFloodDemand hs) = FLOOD_DEMAND"

text \<open>\<^verbatim>\<open>AuthenticatedMessage\<close> (its arm \<^verbatim>\<open>v0\<close>): sequence, message, MAC.\<close>

record AuthenticatedMessage =
  am_sequence :: uint64
  am_message :: HcnetMessage
  am_mac :: HmacSha256Mac

section \<open>Peer.h: enumerations\<close>

datatype PeerState = CONNECTING | CONNECTED | GOT_HELLO | GOT_AUTH | CLOSING

text \<open>The enumerators' values, for the comparison \<^verbatim>\<open>mState >= GOT_HELLO\<close>.\<close>

fun state_rank :: "PeerState \<Rightarrow> nat" where
  "state_rank CONNECTING = 0"
| "state_rank CONNECTED = 1"
| "state_rank GOT_HELLO = 2"
| "state_rank GOT_AUTH = 3"
| "state_rank CLOSING = 4"

datatype PeerRole = REMOTE_CALLED_US | WE_CALLED_REMOTE

datatype DropMode = FLUSH_WRITE_QUEUE | IGNORE_WRITE_QUEUE

datatype DropDirection = REMOTE_DROPPED_US | WE_DROPPED_REMOTE

datatype ActionType = NORMAL_ACTION | DROPPABLE_ACTION

text \<open>
  \<^verbatim>\<open>releaseAssert\<close> aborts the process and the constructor of the capacity tracker throws; both
  are results of the model.
\<close>

datatype error = ReleaseAssert | RuntimeError string

definition ADVERT_CACHE_SIZE :: nat where
  "ADVERT_CACHE_SIZE = 50000"

definition PEER_SEND_MODE_IDLE_TIMEOUT :: duration where
  "PEER_SEND_MODE_IDLE_TIMEOUT = seconds 60"

definition FIRST_VERSION_SUPPORTING_FLOW_CONTROL_IN_BYTES :: uint32 where
  "FIRST_VERSION_SUPPORTING_FLOW_CONTROL_IN_BYTES = 28"

definition RECURRENT_TIMER_PERIOD :: duration where
  "RECURRENT_TIMER_PERIOD = seconds 5"

section \<open>The application and its collaborators\<close>

text \<open>
  \<^verbatim>\<open>Config\<close>, the clock, the scheduler, the herder, the ban manager, the overlay manager, the
  peer authentication and the crypto and XDR helpers are not among the sources. What the
  modelled functions read from them is a field of this record, so every theorem holds for all
  of them. The integer fields of \<^verbatim>\<open>Config\<close> have the type of the expression that reads them.
\<close>

record App =
  clock_now :: time_point
  OVERLAY_PROTOCOL_VERSION :: uint32
  OVERLAY_PROTOCOL_MIN_VERSION :: uint32
  LEDGER_PROTOCOL_VERSION :: uint32
  VERSION_STR :: string
  PEER_PORT :: nat
  NODE_SEED_publicKey :: NodeID
  ENABLE_FLOW_CONTROL_BYTES :: bool
  PEER_TIMEOUT :: int
  PEER_AUTHENTICATION_TIMEOUT :: int
  PEER_STRAGGLER_TIMEOUT :: int
  PEER_FLOOD_READING_CAPACITY :: uint64
  PEER_READING_CAPACITY :: uint64
  FLOOD_ADVERT_PERIOD_MS :: int
  flowControlBytesTotal :: uint64
  app_networkID :: Hash
  isShuttingDown :: bool
  currentSchedulerActionType :: ActionType
  isSynced :: bool
  getTx :: "Hash \<Rightarrow> xdr_body option"
  isBannedTx :: "Hash \<Rightarrow> bool"
  getMinLedgerSeqToAskPeers :: uint32
  isBanned :: "NodeID \<Rightarrow> bool"
  verifyRemoteAuthCert :: "NodeID \<Rightarrow> AuthCert \<Rightarrow> bool"
  getSendingMacKey :: "uint256 \<Rightarrow> uint256 \<Rightarrow> uint256 \<Rightarrow> PeerRole \<Rightarrow> HmacSha256Key"
  getReceivingMacKey :: "uint256 \<Rightarrow> uint256 \<Rightarrow> uint256 \<Rightarrow> PeerRole \<Rightarrow> HmacSha256Key"
  getAuthCert :: AuthCert
  hmacSha256 :: "HmacSha256Key \<Rightarrow> uint64 \<times> HcnetMessage \<Rightarrow> HmacSha256Mac"
  hmacSha256Verify :: "HmacSha256Mac \<Rightarrow> HmacSha256Key \<Rightarrow> uint64 \<times> HcnetMessage \<Rightarrow> bool"
  xdr_size :: "HcnetMessage \<Rightarrow> uint64"
  acceptAuthenticatedPeer :: bool
  authenticatedPeers :: "(NodeID \<times> nat) list"
  pendingPeers :: "(nat \<times> NodeID) list"
  getPeersToSend :: "nat \<Rightarrow> PeerBareAddress \<Rightarrow> PeerBareAddress list"
  getMaxAdvertSize :: nat
  TX_ADVERT_VECTOR_MAX_SIZE :: nat
  peers_max_size :: nat
  AUTH_MSG_FLAG_FLOW_CONTROL_BYTES_REQUESTED :: int
  pingIDfromTimePoint :: "time_point \<Rightarrow> Hash"
  toShortString :: "NodeID \<Rightarrow> string"

section \<open>FlowControlCapacity.cpp\<close>

record ReadingCapacity =
  mFloodCapacity :: uint64
  mTotalCapacity :: "uint64 option"

datatype CapacityAxis = MessageAxis | ByteAxis

text \<open>
  One object of \<^verbatim>\<open>FlowControlMessageCapacity\<close> or \<^verbatim>\<open>FlowControlByteCapacity\<close>; the axis
  selects the overriding member functions. \<^verbatim>\<open>mCapacityLimits\<close> is the member of the byte
  capacity; the message capacity reads its limits from the configuration.
\<close>

record FlowControlCapacity =
  axis :: CapacityAxis
  mCapacity :: ReadingCapacity
  mCapacityLimits :: ReadingCapacity
  mOutboundCapacity :: uint64

definition isFloodMessage :: "HcnetMessage \<Rightarrow> bool" where
  \<comment> \<open>Modelled from the spec: \<^verbatim>\<open>OverlayManager::isFloodMessage\<close> is not among the sources; the
      glossary names the flood class: transactions, adverts, demands, SCP messages.\<close>
  "isFloodMessage msg =
     (msg_type msg = TRANSACTION \<or> msg_type msg = SCP_MESSAGE \<or>
      msg_type msg = FLOOD_ADVERT \<or> msg_type msg = FLOOD_DEMAND)"

definition getMsgResourceCount :: "App \<Rightarrow> FlowControlCapacity \<Rightarrow> HcnetMessage \<Rightarrow> uint64" where
  "getMsgResourceCount app c msg =
     (case axis c of MessageAxis \<Rightarrow> 1 | ByteAxis \<Rightarrow> xdr_size app msg)"

definition getCapacityLimits :: "App \<Rightarrow> FlowControlCapacity \<Rightarrow> ReadingCapacity" where
  "getCapacityLimits app c =
     (case axis c of
        MessageAxis \<Rightarrow>
          \<lparr>mFloodCapacity = PEER_FLOOD_READING_CAPACITY app,
           mTotalCapacity = Some (PEER_READING_CAPACITY app)\<rparr>
      | ByteAxis \<Rightarrow> mCapacityLimits c)"

definition FlowControlMessageCapacity :: "App \<Rightarrow> FlowControlCapacity" where
  "FlowControlMessageCapacity app =
     \<lparr>axis = MessageAxis,
      mCapacity = \<lparr>mFloodCapacity = PEER_FLOOD_READING_CAPACITY app,
                   mTotalCapacity = Some (PEER_READING_CAPACITY app)\<rparr>,
      mCapacityLimits = \<lparr>mFloodCapacity = PEER_FLOOD_READING_CAPACITY app,
                         mTotalCapacity = Some (PEER_READING_CAPACITY app)\<rparr>,
      mOutboundCapacity = 0\<rparr>"

definition FlowControlByteCapacity :: "App \<Rightarrow> FlowControlCapacity" where
  "FlowControlByteCapacity app =
     \<lparr>axis = ByteAxis,
      mCapacity = \<lparr>mFloodCapacity = flowControlBytesTotal app, mTotalCapacity = None\<rparr>,
      mCapacityLimits = \<lparr>mFloodCapacity = flowControlBytesTotal app, mTotalCapacity = None\<rparr>,
      mOutboundCapacity = 0\<rparr>"

text \<open>\<^verbatim>\<open>checkCapacityInvariants\<close>: true when none of its assertions fails.\<close>

definition checkCapacityInvariants :: "App \<Rightarrow> FlowControlCapacity \<Rightarrow> bool" where
  "checkCapacityInvariants app c =
     (mFloodCapacity (getCapacityLimits app c) \<ge> mFloodCapacity (mCapacity c) \<and>
      (case mTotalCapacity (getCapacityLimits app c) of
         Some lim \<Rightarrow>
           (case mTotalCapacity (mCapacity c) of Some t \<Rightarrow> lim \<ge> t | None \<Rightarrow> False)
       | None \<Rightarrow> mTotalCapacity (mCapacity c) = None))"

definition lockLocalCapacity ::
  "App \<Rightarrow> HcnetMessage \<Rightarrow> FlowControlCapacity \<Rightarrow> error + (bool \<times> FlowControlCapacity)" where
  "lockLocalCapacity app msg c =
     (if \<not> checkCapacityInvariants app c then Inl ReleaseAssert
      else
        let msgResources = getMsgResourceCount app c msg in
        case (case mTotalCapacity (mCapacity c) of
                None \<Rightarrow> Inr c
              | Some t \<Rightarrow>
                  if \<not> (t \<ge> msgResources) then Inl ReleaseAssert
                  else Inr (c\<lparr>mCapacity := (mCapacity c)\<lparr>mTotalCapacity := Some (t - msgResources)\<rparr>\<rparr>)) of
          Inl e \<Rightarrow> Inl e
        | Inr c1 \<Rightarrow>
            if isFloodMessage msg then
              if mFloodCapacity (mCapacity c1) < msgResources then Inr (False, c1)
              else Inr (True,
                c1\<lparr>mCapacity := (mCapacity c1)\<lparr>mFloodCapacity :=
                      mFloodCapacity (mCapacity c1) - msgResources\<rparr>\<rparr>)
            else Inr (True, c1))"

text \<open>\<^verbatim>\<open>releaseLocalCapacity\<close> returns the flood capacity it released.\<close>

definition releaseLocalCapacity ::
  "App \<Rightarrow> HcnetMessage \<Rightarrow> FlowControlCapacity \<Rightarrow> error + (uint64 \<times> FlowControlCapacity)" where
  "releaseLocalCapacity app msg c =
     (let resourcesFreed = getMsgResourceCount app c msg;
          c1 = (case mTotalCapacity (mCapacity c) of
                  None \<Rightarrow> c
                | Some t \<Rightarrow> c\<lparr>mCapacity := (mCapacity c)\<lparr>mTotalCapacity := Some (t + resourcesFreed)\<rparr>\<rparr>);
          (released, c2) =
            (if isFloodMessage msg then
               (resourcesFreed,
                c1\<lparr>mCapacity := (mCapacity c1)\<lparr>mFloodCapacity :=
                      mFloodCapacity (mCapacity c1) + resourcesFreed\<rparr>\<rparr>)
             else (0, c1))
      in if checkCapacityInvariants app c2 then Inr (released, c2) else Inl ReleaseAssert)"

definition hasOutboundCapacity :: "App \<Rightarrow> FlowControlCapacity \<Rightarrow> HcnetMessage \<Rightarrow> bool" where
  "hasOutboundCapacity app c msg = (mOutboundCapacity c \<ge> getMsgResourceCount app c msg)"

text \<open>\<^verbatim>\<open>canRead\<close> of either class; the assertion on the total capacity is an error.\<close>

definition capacity_canRead :: "FlowControlCapacity \<Rightarrow> error + bool" where
  "capacity_canRead c =
     (case axis c of
        MessageAxis \<Rightarrow>
          (case mTotalCapacity (mCapacity c) of None \<Rightarrow> Inl ReleaseAssert | Some t \<Rightarrow> Inr (t > 0))
      | ByteAxis \<Rightarrow>
          (case mTotalCapacity (mCapacity c) of None \<Rightarrow> Inr True | Some t \<Rightarrow> Inl ReleaseAssert))"

text \<open>The assertions of \<^verbatim>\<open>lockLocalCapacity\<close>: true when none of them fails.\<close>

definition lockLocalCapacity_asserts :: "App \<Rightarrow> HcnetMessage \<Rightarrow> FlowControlCapacity \<Rightarrow> bool" where
  "lockLocalCapacity_asserts app msg c =
     (checkCapacityInvariants app c \<and>
      (case mTotalCapacity (mCapacity c) of
         None \<Rightarrow> True
       | Some t \<Rightarrow> t \<ge> getMsgResourceCount app c msg))"

section \<open>FlowControl\<close>

text \<open>
  \<^verbatim>\<open>FlowControl.cpp\<close> is not among the sources. The record holds the capacity objects of the
  two axes and the time stamp that \<^verbatim>\<open>getOutboundCapacityTimestamp\<close> returns. What the
  controller does with a flood message once it has taken it (queueing it behind the peer's
  credit, and the SEND_MORE grants it issues as capacity returns) is outside this model.
\<close>

record FlowControl =
  mFlowControlCapacity :: FlowControlCapacity
  mFlowControlBytesCapacity :: "FlowControlCapacity option"
  mNoOutboundCapacity :: "time_point option"

definition FlowControl_new :: "App \<Rightarrow> FlowControl" where
  \<comment> \<open>Modelled from the spec: the constructor of \<^verbatim>\<open>FlowControl\<close> is missing; the message axis
      is always on, with the initial inbound grant and the total read budget of the
      configuration; the byte axis is off until AUTH.\<close>
  "FlowControl_new app =
     \<lparr>mFlowControlCapacity = FlowControlMessageCapacity app,
      mFlowControlBytesCapacity = None,
      mNoOutboundCapacity = None\<rparr>"

definition getOutboundCapacityTimestamp :: "FlowControl \<Rightarrow> time_point option" where
  \<comment> \<open>Modelled from the spec: \<^verbatim>\<open>FlowControl::getOutboundCapacityTimestamp\<close> is missing; it
      reports the timestamp that the liveness check of the recurring timer compares with its
      threshold, or nothing when no such timestamp is recorded.\<close>
  "getOutboundCapacityTimestamp fc = mNoOutboundCapacity fc"

definition FlowControl_beginMessageProcessing ::
  "App \<Rightarrow> HcnetMessage \<Rightarrow> FlowControl \<Rightarrow> error + (bool \<times> FlowControl)" where
  \<comment> \<open>Modelled from the spec: \<^verbatim>\<open>FlowControl::beginMessageProcessing\<close> is missing; a received
      message consumes local capacity on every enabled axis, the message axis first, and
      processing may begin only if each axis had the capacity.\<close>
  "FlowControl_beginMessageProcessing app msg fc =
     (case lockLocalCapacity app msg (mFlowControlCapacity fc) of
        Inl e \<Rightarrow> Inl e
      | Inr (ok, c) \<Rightarrow>
          let fc1 = fc\<lparr>mFlowControlCapacity := c\<rparr> in
          if \<not> ok then Inr (False, fc1)
          else
            (case mFlowControlBytesCapacity fc1 of
               None \<Rightarrow> Inr (True, fc1)
             | Some b \<Rightarrow>
                 (case lockLocalCapacity app msg b of
                    Inl e \<Rightarrow> Inl e
                  | Inr (okb, b1) \<Rightarrow> Inr (okb, fc1\<lparr>mFlowControlBytesCapacity := Some b1\<rparr>))))"

definition FlowControl_endMessageProcessing ::
  "App \<Rightarrow> HcnetMessage \<Rightarrow> FlowControl \<Rightarrow> error + FlowControl" where
  \<comment> \<open>Modelled from the spec: \<^verbatim>\<open>FlowControl::endMessageProcessing\<close> is missing; after the
      consumer has finished, the capacity is returned on every enabled axis.\<close>
  "FlowControl_endMessageProcessing app msg fc =
     (case releaseLocalCapacity app msg (mFlowControlCapacity fc) of
        Inl e \<Rightarrow> Inl e
      | Inr (released, c) \<Rightarrow>
          let fc1 = fc\<lparr>mFlowControlCapacity := c\<rparr> in
          (case mFlowControlBytesCapacity fc1 of
             None \<Rightarrow> Inr fc1
           | Some b \<Rightarrow>
               (case releaseLocalCapacity app msg b of
                  Inl e \<Rightarrow> Inl e
                | Inr (releasedBytes, b1) \<Rightarrow> Inr (fc1\<lparr>mFlowControlBytesCapacity := Some b1\<rparr>))))"

definition FlowControl_canRead :: "FlowControl \<Rightarrow> error + bool" where
  \<comment> \<open>Modelled from the spec: \<^verbatim>\<open>FlowControl::canRead\<close> is missing; reading is possible while
      every enabled axis can read.\<close>
  "FlowControl_canRead fc =
     (case capacity_canRead (mFlowControlCapacity fc) of
        Inl e \<Rightarrow> Inl e
      | Inr r \<Rightarrow>
          (case mFlowControlBytesCapacity fc of
             None \<Rightarrow> Inr r
           | Some b \<Rightarrow>
               (case capacity_canRead b of Inl e \<Rightarrow> Inl e | Inr rb \<Rightarrow> Inr (r \<and> rb))))"

definition FlowControl_start :: "App \<Rightarrow> bool \<Rightarrow> FlowControl \<Rightarrow> HcnetMessage \<times> FlowControl" where
  \<comment> \<open>Modelled from the spec: \<^verbatim>\<open>FlowControl::start\<close> is missing; the byte axis is created when
      the flag is set, and the initial credit grant goes out first: SEND_MORE with the
      configured flood reading capacity, or SEND_MORE_EXTENDED with the byte allowance too.
      The grant is returned for the caller's send callback.\<close>
  "FlowControl_start app enableFCBytes fc =
     (if enableFCBytes then
        (MSendMoreExtended (ucast (PEER_FLOOD_READING_CAPACITY app)) (ucast (flowControlBytesTotal app)),
         fc\<lparr>mFlowControlCapacity := FlowControlMessageCapacity app,
            mFlowControlBytesCapacity := Some (FlowControlByteCapacity app),
            mNoOutboundCapacity := Some (clock_now app)\<rparr>)
      else
        (MSendMore (ucast (PEER_FLOOD_READING_CAPACITY app)),
         fc\<lparr>mFlowControlCapacity := FlowControlMessageCapacity app,
            mNoOutboundCapacity := Some (clock_now app)\<rparr>))"

text \<open>
  The two capacity objects are of the right classes: the message capacity tracks a total, the
  byte capacity has no total in its limits.
\<close>

definition flowControl_wellformed :: "FlowControl \<Rightarrow> bool" where
  "flowControl_wellformed fc =
     (axis (mFlowControlCapacity fc) = MessageAxis \<and>
      (case mFlowControlBytesCapacity fc of
         None \<Rightarrow> True
       | Some b \<Rightarrow> axis b = ByteAxis \<and> mTotalCapacity (mCapacityLimits b) = None))"

section \<open>RandomEvictionCache\<close>

text \<open>
  \<^verbatim>\<open>util/RandomEvictionCache.h\<close> is not among the sources. The entries are kept in insertion
  order; the random choice of the entry to evict is the argument \<open>rnd\<close>.
\<close>

record ('k, 'v) RandomEvictionCache =
  mMaxSize :: nat
  mValueMap :: "('k \<times> 'v) list"

definition cache_new :: "nat \<Rightarrow> ('k, 'v) RandomEvictionCache" where
  \<comment> \<open>Modelled from the spec: the constructor of the bounded mapping, empty, with its bound.\<close>
  "cache_new n = \<lparr>mMaxSize = n, mValueMap = []\<rparr>"

definition cache_size :: "('k, 'v) RandomEvictionCache \<Rightarrow> nat" where
  "cache_size c = length (mValueMap c)"

definition cache_exists :: "'k \<Rightarrow> ('k, 'v) RandomEvictionCache \<Rightarrow> bool" where
  \<comment> \<open>Modelled from the spec: \<^verbatim>\<open>exists\<close> is missing; the lookup of a key.\<close>
  "cache_exists k c = (map_of (mValueMap c) k \<noteq> None)"

definition evictOne :: "nat \<Rightarrow> ('k \<times> 'v) list \<Rightarrow> ('k \<times> 'v) list" where
  "evictOne rnd xs = (if xs = [] then [] else take (rnd mod length xs) xs @ drop (Suc (rnd mod length xs)) xs)"

definition cache_put :: "'k \<Rightarrow> 'v \<Rightarrow> nat \<Rightarrow> ('k, 'v) RandomEvictionCache \<Rightarrow> ('k, 'v) RandomEvictionCache" where
  \<comment> \<open>Modelled from the spec: \<^verbatim>\<open>put\<close> is missing; a bounded mapping with randomized eviction:
      a known key gets the new value, a new key is inserted after a randomly chosen entry has
      been evicted from a full cache.\<close>
  "cache_put k v rnd c =
     (if map_of (mValueMap c) k \<noteq> None then
        c\<lparr>mValueMap := map (\<lambda>(k', v'). if k' = k then (k', v) else (k', v')) (mValueMap c)\<rparr>
      else
        c\<lparr>mValueMap :=
            (if length (mValueMap c) \<ge> mMaxSize c then evictOne rnd (mValueMap c) else mValueMap c)
            @ [(k, v)]\<rparr>)"

definition cache_erase_if :: "('v \<Rightarrow> bool) \<Rightarrow> ('k, 'v) RandomEvictionCache \<Rightarrow> ('k, 'v) RandomEvictionCache" where
  \<comment> \<open>Modelled from the spec: \<^verbatim>\<open>erase_if\<close> is missing; it prunes the entries whose value
      satisfies the predicate.\<close>
  "cache_erase_if f c = c\<lparr>mValueMap := filter (\<lambda>(k, v). \<not> f v) (mValueMap c)\<rparr>"

section \<open>Peer\<close>

text \<open>
  What a peer does to the world outside the class is recorded, in order: a message the
  load-shedding rule of \<^verbatim>\<open>sendMessage\<close> dropped, a flood message the flow controller took, an
  authenticated message handed to the transport (the pure virtual
  \<^verbatim>\<open>sendMessage(xdr::msg_ptr&&)\<close>), a call of the pure virtual \<^verbatim>\<open>drop\<close>, a task posted to the
  main thread, a read scheduled, an update of the peer manager, and the dispatch of a received
  message to a handler that is not modelled.
\<close>

datatype PeerType = INBOUND | OUTBOUND | PREFERRED

datatype event =
    EvShed HcnetMessage
  | EvFlow HcnetMessage
  | EvWire AuthenticatedMessage
  | EvDrop string DropDirection DropMode
  | EvPostSend HcnetMessage string
  | EvPostRecv HcnetMessage string ActionType
  | EvScheduleRead
  | EvUpdateType PeerBareAddress PeerType
  | EvBackOffReset PeerBareAddress
  | EvHandler HcnetMessage

record PeerMetrics =
  mMessageDrop :: uint64
  mMessagesFulfilled :: uint64
  mBannedMessageUnfulfilled :: uint64
  mUnknownMessageUnfulfilled :: uint64

text \<open>
  The members of \<^verbatim>\<open>Peer\<close> that the modelled functions use. \<open>self_id\<close> is the identity of the
  object (the code compares addresses of members), \<open>virt_getIP\<close> and
  \<open>virt_sendQueueIsOverloaded\<close> are what the virtual functions of the subclass return, and
  \<open>isPreferred\<close> is the overlay manager's answer for this peer. A timer is the time point at
  which it is set to expire, if it is armed.
\<close>

record Peer =
  self_id :: nat
  virt_getIP :: string
  virt_sendQueueIsOverloaded :: bool
  isPreferred :: bool
  mRole :: PeerRole
  mState :: PeerState
  mPeerID :: NodeID
  mSendNonce :: uint256
  mRecvNonce :: uint256
  mFlowControl :: FlowControl
  mIsPeerThrottled :: bool
  mSendMacKey :: HmacSha256Key
  mRecvMacKey :: HmacSha256Key
  mSendMacSeq :: uint64
  mRecvMacSeq :: uint64
  mRemoteVersion :: string
  mRemoteOverlayMinVersion :: uint32
  mRemoteOverlayVersion :: uint32
  mAddress :: PeerBareAddress
  mCreationTime :: time_point
  mRecurringTimer :: "time_point option"
  mDelayedExecutionTimer :: "time_point option"
  mLastRead :: time_point
  mLastWrite :: time_point
  mEnqueueTimeOfLastWrite :: time_point
  mPingSentTime :: "time_point option"
  mLastPing :: duration
  mPeerMetrics :: PeerMetrics
  mTxHashesToAdvertise :: "Hash list"
  mAdvertTimer :: "time_point option"
  mAdvertHistory :: "(Hash, uint32) RandomEvictionCache"
  mShuttingDown :: bool
  events :: "event list"

text \<open>
  The constructor. The send nonce is drawn at random: it is an argument, as are the identity
  of the object and the answers of the subclass.
\<close>

definition Peer_new :: "App \<Rightarrow> PeerRole \<Rightarrow> uint256 \<Rightarrow> nat \<Rightarrow> string \<Rightarrow> bool \<Rightarrow> bool \<Rightarrow> Peer" where
  "Peer_new app role randomNonce ident ip overloaded preferred =
     \<lparr>self_id = ident,
      virt_getIP = ip,
      virt_sendQueueIsOverloaded = overloaded,
      isPreferred = preferred,
      mRole = role,
      mState = (if role = WE_CALLED_REMOTE then CONNECTING else CONNECTED),
      mPeerID = 0,
      mSendNonce = randomNonce,
      mRecvNonce = 0,
      mFlowControl = FlowControl_new app,
      mIsPeerThrottled = False,
      mSendMacKey = 0,
      mRecvMacKey = 0,
      mSendMacSeq = 0,
      mRecvMacSeq = 0,
      mRemoteVersion = [],
      mRemoteOverlayMinVersion = 0,
      mRemoteOverlayVersion = 0,
      mAddress = EmptyAddress,
      mCreationTime = clock_now app,
      mRecurringTimer = None,
      mDelayedExecutionTimer = None,
      mLastRead = clock_now app,
      mLastWrite = clock_now app,
      mEnqueueTimeOfLastWrite = clock_now app,
      mPingSentTime = None,
      mLastPing = seconds (24 * 3600),
      mPeerMetrics = \<lparr>mMessageDrop = 0, mMessagesFulfilled = 0,
                      mBannedMessageUnfulfilled = 0, mUnknownMessageUnfulfilled = 0\<rparr>,
      mTxHashesToAdvertise = [],
      mAdvertTimer = None,
      mAdvertHistory = cache_new ADVERT_CACHE_SIZE,
      mShuttingDown = False,
      events = []\<rparr>"

definition peerKnowsHash :: "Peer \<Rightarrow> Hash \<Rightarrow> bool" where
  "peerKnowsHash p h = cache_exists h (mAdvertHistory p)"

definition rememberHash :: "Peer \<Rightarrow> Hash \<Rightarrow> uint32 \<Rightarrow> nat \<Rightarrow> Peer" where
  "rememberHash p h ledgerSeq rnd = p\<lparr>mAdvertHistory := cache_put h ledgerSeq rnd (mAdvertHistory p)\<rparr>"

definition clearBelow :: "Peer \<Rightarrow> uint32 \<Rightarrow> Peer" where
  "clearBelow p ledgerSeq = p\<lparr>mAdvertHistory := cache_erase_if (\<lambda>seq. seq < ledgerSeq) (mAdvertHistory p)\<rparr>"

text \<open>The uses of the advert history, for runs of them from a new peer.\<close>

datatype advert_op = Remember Hash uint32 nat | ClearBelow uint32

fun apply_advert_op :: "Peer \<Rightarrow> advert_op \<Rightarrow> Peer" where
  "apply_advert_op p (Remember h s rnd) = rememberHash p h s rnd"
| "apply_advert_op p (ClearBelow s) = clearBelow p s"

definition isAuthenticated :: "Peer \<Rightarrow> bool" where
  "isAuthenticated p = (mState p = GOT_AUTH)"

definition isConnected :: "Peer \<Rightarrow> bool" where
  "isConnected p = (mState p \<noteq> CONNECTING \<and> mState p \<noteq> CLOSING)"

definition shouldAbort :: "App \<Rightarrow> Peer \<Rightarrow> bool" where
  "shouldAbort app p = (mState p = CLOSING \<or> isShuttingDown app)"

definition shutdown :: "Peer \<Rightarrow> Peer" where
  "shutdown p =
     (if mShuttingDown p then p
      else p\<lparr>mShuttingDown := True, mRecurringTimer := None, mAdvertTimer := None,
             mDelayedExecutionTimer := None\<rparr>)"

definition dropPeer :: "Peer \<Rightarrow> string \<Rightarrow> DropDirection \<Rightarrow> DropMode \<Rightarrow> Peer" where
  \<comment> \<open>Modelled from the spec: \<^verbatim>\<open>Peer::drop\<close> is pure virtual and no subclass is among the sources;
      drop takes a reason, a direction and a mode, is idempotent, moves the state to CLOSING
      and cancels all timers.\<close>
  "dropPeer p reason dropDirection dropMode =
     (if mState p = CLOSING then p
      else (shutdown p)\<lparr>mState := CLOSING,
                         events := events p @ [EvDrop reason dropDirection dropMode]\<rparr>)"

subsection \<open>Sending\<close>

definition sendAuthenticatedMessage :: "App \<Rightarrow> Peer \<Rightarrow> HcnetMessage \<Rightarrow> Peer" where
  "sendAuthenticatedMessage app p msg =
     (let amsg = \<lparr>am_sequence = 0, am_message = msg, am_mac = 0\<rparr> in
      if msg_type msg \<noteq> HELLO \<and> msg_type msg \<noteq> ERROR_MSG then
        p\<lparr>mSendMacSeq := mSendMacSeq p + 1,
          events := events p @
            [EvWire (amsg\<lparr>am_sequence := mSendMacSeq p,
                           am_mac := hmacSha256 app (mSendMacKey p) (mSendMacSeq p, msg)\<rparr>)]\<rparr>
      else p\<lparr>events := events p @ [EvWire amsg]\<rparr>)"

definition FlowControl_maybeSendMessage :: "HcnetMessage \<Rightarrow> bool" where
  \<comment> \<open>Modelled from the spec: \<^verbatim>\<open>FlowControl::maybeSendMessage\<close> is missing; the controller takes
      a flood-class outgoing message and releases it against the peer's credit, and a
      non-flood message bypasses credit.\<close>
  "FlowControl_maybeSendMessage msg = isFloodMessage msg"

definition sendMessage :: "App \<Rightarrow> Peer \<Rightarrow> HcnetMessage \<Rightarrow> Peer" where
  "sendMessage app p msg =
     (if currentSchedulerActionType app = DROPPABLE_ACTION \<and> virt_sendQueueIsOverloaded p then
        p\<lparr>mPeerMetrics := (mPeerMetrics p)\<lparr>mMessageDrop := mMessageDrop (mPeerMetrics p) + 1\<rparr>,
          events := events p @ [EvShed msg]\<rparr>
      else if FlowControl_maybeSendMessage msg then p\<lparr>events := events p @ [EvFlow msg]\<rparr>
      else sendAuthenticatedMessage app p msg)"

text \<open>
  The messages that went into \<^verbatim>\<open>sendMessage\<close>, in order, read off the record of effects: each
  call ends in exactly one of the three effects. (A grant of the flow controller goes to the
  transport through its send callback and is counted as well.)
\<close>

fun sent_message :: "event \<Rightarrow> HcnetMessage list" where
  "sent_message (EvShed m) = [m]"
| "sent_message (EvFlow m) = [m]"
| "sent_message (EvWire am) = [am_message am]"
| "sent_message (EvDrop r d m) = []"
| "sent_message (EvPostSend m n) = []"
| "sent_message (EvPostRecv m c t) = []"
| "sent_message EvScheduleRead = []"
| "sent_message (EvUpdateType a t) = []"
| "sent_message (EvBackOffReset a) = []"
| "sent_message (EvHandler m) = []"

definition sent_messages :: "event list \<Rightarrow> HcnetMessage list" where
  "sent_messages evs = concat (map sent_message evs)"

definition sendHello :: "App \<Rightarrow> Peer \<Rightarrow> Peer" where
  "sendHello app p =
     sendMessage app p
       (MHello \<lparr>ledgerVersion = LEDGER_PROTOCOL_VERSION app,
                overlayMinVersion = OVERLAY_PROTOCOL_MIN_VERSION app,
                overlayVersion = OVERLAY_PROTOCOL_VERSION app,
                versionStr = VERSION_STR app,
                networkID = app_networkID app,
                listeningPort = int (PEER_PORT app),
                peerID = NODE_SEED_publicKey app,
                cert = getAuthCert app,
                nonce = mSendNonce p\<rparr>)"

definition sendAuth :: "App \<Rightarrow> Peer \<Rightarrow> Peer" where
  "sendAuth app p =
     sendMessage app p
       (MAuth (if ENABLE_FLOW_CONTROL_BYTES app then AUTH_MSG_FLAG_FLOW_CONTROL_BYTES_REQUESTED app else 0))"

definition sendDontHave :: "App \<Rightarrow> Peer \<Rightarrow> MessageType \<Rightarrow> uint256 \<Rightarrow> Peer" where
  "sendDontHave app p t itemID = sendMessage app p (MDontHave t itemID)"

definition sendGetQuorumSet :: "App \<Rightarrow> Peer \<Rightarrow> uint256 \<Rightarrow> Peer" where
  "sendGetQuorumSet app p setID = sendMessage app p (MGetSCPQuorumSet setID)"

definition sendGetScpState :: "App \<Rightarrow> Peer \<Rightarrow> uint32 \<Rightarrow> Peer" where
  "sendGetScpState app p ledgerSeq = sendMessage app p (MGetSCPState ledgerSeq)"

definition sendPeers :: "App \<Rightarrow> Peer \<Rightarrow> error + Peer" where
  "sendPeers app p =
     (let maxPeerCount = min 50 (peers_max_size app);
          peers = getPeersToSend app maxPeerCount (mAddress p)
      in if \<not> (length peers \<le> maxPeerCount) then Inl ReleaseAssert
         else if peers \<noteq> [] then Inr (sendMessage app p (MPeers peers))
         else Inr p)"

definition sendError :: "App \<Rightarrow> Peer \<Rightarrow> ErrorCode \<Rightarrow> string \<Rightarrow> Peer" where
  "sendError app p err message = sendMessage app p (MError err message)"

definition sendErrorAndDrop :: "App \<Rightarrow> Peer \<Rightarrow> ErrorCode \<Rightarrow> string \<Rightarrow> DropMode \<Rightarrow> Peer" where
  "sendErrorAndDrop app p err message dropMode =
     dropPeer (sendError app p err message) message WE_DROPPED_REMOTE dropMode"

definition pingPeer :: "App \<Rightarrow> Peer \<Rightarrow> Peer" where
  "pingPeer app p =
     (if isAuthenticated p \<and> mPingSentTime p = None then
        sendGetQuorumSet app (p\<lparr>mPingSentTime := Some (clock_now app)\<rparr>)
          (pingIDfromTimePoint app (clock_now app))
      else p)"

subsection \<open>Capacity tracking of a message being processed\<close>

definition canRead :: "Peer \<Rightarrow> error + bool" where
  "canRead p = FlowControl_canRead (mFlowControl p)"

definition beginMessageProcessing :: "App \<Rightarrow> Peer \<Rightarrow> HcnetMessage \<Rightarrow> error + Peer" where
  "beginMessageProcessing app p msg =
     (case FlowControl_beginMessageProcessing app msg (mFlowControl p) of
        Inl e \<Rightarrow> Inl e
      | Inr (success, fc) \<Rightarrow>
          if \<not> success then
            Inr (dropPeer (p\<lparr>mFlowControl := fc\<rparr>) ''unexpected flood message, peer at capacity''
                   WE_DROPPED_REMOTE IGNORE_WRITE_QUEUE)
          else Inr (p\<lparr>mFlowControl := fc\<rparr>))"

definition endMessageProcessing :: "App \<Rightarrow> Peer \<Rightarrow> HcnetMessage \<Rightarrow> error + Peer" where
  "endMessageProcessing app p msg =
     (if shouldAbort app p then Inr p
      else
        case FlowControl_endMessageProcessing app msg (mFlowControl p) of
          Inl e \<Rightarrow> Inl e
        | Inr fc \<Rightarrow>
            (case canRead (p\<lparr>mFlowControl := fc\<rparr>) of
               Inl e \<Rightarrow> Inl e
             | Inr r \<Rightarrow>
                 if \<not> r then Inl ReleaseAssert
                 else if mIsPeerThrottled p then
                   Inr (p\<lparr>mFlowControl := fc, mIsPeerThrottled := False,
                          events := events p @ [EvScheduleRead]\<rparr>)
                 else Inr (p\<lparr>mFlowControl := fc\<rparr>)))"

text \<open>
  \<^verbatim>\<open>MsgCapacityTracker\<close> holds a weak pointer: the peer it finds, if the peer still exists.
\<close>

definition MsgCapacityTracker_ctor :: "App \<Rightarrow> Peer option \<Rightarrow> HcnetMessage \<Rightarrow> error + Peer" where
  "MsgCapacityTracker_ctor app weakPeer msg =
     (case weakPeer of
        None \<Rightarrow> Inl (RuntimeError ''Invalid peer'')
      | Some self \<Rightarrow> beginMessageProcessing app self msg)"

definition MsgCapacityTracker_dtor :: "App \<Rightarrow> Peer option \<Rightarrow> HcnetMessage \<Rightarrow> error + Peer option" where
  "MsgCapacityTracker_dtor app weakPeer msg =
     (case weakPeer of
        None \<Rightarrow> Inr None
      | Some self \<Rightarrow>
          (case endMessageProcessing app self msg of Inl e \<Rightarrow> Inl e | Inr p \<Rightarrow> Inr (Some p)))"

subsection \<open>The handshake\<close>

definition updatePeerRecordAfterEcho :: "Peer \<Rightarrow> error + Peer" where
  "updatePeerRecordAfterEcho p =
     (if mAddress p = EmptyAddress then Inl ReleaseAssert
      else
        let t = (if isPreferred p then PREFERRED
                 else if mRole p = WE_CALLED_REMOTE then OUTBOUND else INBOUND)
        in Inr (p\<lparr>events := events p @ [EvUpdateType (mAddress p) t]\<rparr>))"

definition updatePeerRecordAfterAuthentication :: "Peer \<Rightarrow> error + Peer" where
  "updatePeerRecordAfterAuthentication p =
     (if mAddress p = EmptyAddress then Inl ReleaseAssert
      else if mRole p = WE_CALLED_REMOTE then
        Inr (p\<lparr>events := events p @ [EvBackOffReset (mAddress p)]\<rparr>)
      else Inr p)"

text \<open>
  \<^verbatim>\<open>recvHello\<close>, in three parts: the assignments that record the remote identity and derive
  the keys, the checks that follow the reply, and the function itself.
\<close>

definition recvHello_record :: "App \<Rightarrow> Peer \<Rightarrow> Hello \<Rightarrow> Peer" where
  "recvHello_record app p elo =
     p\<lparr>mRemoteOverlayMinVersion := overlayMinVersion elo,
       mRemoteOverlayVersion := overlayVersion elo,
       mRemoteVersion := versionStr elo,
       mPeerID := peerID elo,
       mRecvNonce := nonce elo,
       mSendMacSeq := 0,
       mRecvMacSeq := 0,
       mSendMacKey := getSendingMacKey app (pubkey (cert elo)) (mSendNonce p) (nonce elo) (mRole p),
       mRecvMacKey := getReceivingMacKey app (pubkey (cert elo)) (mSendNonce p) (nonce elo) (mRole p),
       mState := GOT_HELLO\<rparr>"

definition recvHello_checks :: "App \<Rightarrow> Peer \<Rightarrow> Hello \<Rightarrow> string \<Rightarrow> DropMode \<Rightarrow> error + Peer" where
  "recvHello_checks app p elo ip dropMode =
     (if mRemoteOverlayMinVersion p > mRemoteOverlayVersion p \<or>
         mRemoteOverlayVersion p < OVERLAY_PROTOCOL_MIN_VERSION app \<or>
         mRemoteOverlayMinVersion p > OVERLAY_PROTOCOL_VERSION app then
        Inr (sendErrorAndDrop app p ERR_CONF ''wrong protocol version'' dropMode)
      else if peerID elo = NODE_SEED_publicKey app then
        Inr (sendErrorAndDrop app p ERR_CONF ''connecting to self'' dropMode)
      else if networkID elo \<noteq> app_networkID app then
        Inr (sendErrorAndDrop app p ERR_CONF ''wrong network passphrase'' dropMode)
      else if listeningPort elo \<le> 0 \<or> listeningPort elo > 65535 \<or> ip = [] then
        Inr (sendErrorAndDrop app p ERR_CONF ''bad address'' IGNORE_WRITE_QUEUE)
      else
        (case updatePeerRecordAfterEcho p of
           Inl e \<Rightarrow> Inl e
         | Inr p4 \<Rightarrow>
             if (case map_of (authenticatedPeers app) (mPeerID p4) of
                   None \<Rightarrow> False
                 | Some other \<Rightarrow> other \<noteq> self_id p4) then
               Inr (sendErrorAndDrop app p4 ERR_CONF
                      (''already-connected peer: '' @ toShortString app (mPeerID p4)) dropMode)
             else if list_ex (\<lambda>(other, otherID). other \<noteq> self_id p4 \<and> otherID = mPeerID p4)
                       (pendingPeers app) then
               Inr (sendErrorAndDrop app p4 ERR_CONF
                      (''already-connected peer: '' @ toShortString app (mPeerID p4)) dropMode)
             else if mRole p4 = WE_CALLED_REMOTE then Inr (sendAuth app p4)
             else Inr p4))"

definition recvHello :: "App \<Rightarrow> Peer \<Rightarrow> Hello \<Rightarrow> error + Peer" where
  "recvHello app p elo =
     (if state_rank (mState p) \<ge> state_rank GOT_HELLO then
        Inr (dropPeer p ''received unexpected HELLO'' WE_DROPPED_REMOTE IGNORE_WRITE_QUEUE)
      else if \<not> verifyRemoteAuthCert app (peerID elo) (cert elo) then
        Inr (dropPeer p ''failed to verify auth cert'' WE_DROPPED_REMOTE IGNORE_WRITE_QUEUE)
      else if isBanned app (peerID elo) then
        Inr (dropPeer p ''node is banned'' WE_DROPPED_REMOTE IGNORE_WRITE_QUEUE)
      else
        let p1 = recvHello_record app p elo;
            ip = virt_getIP p1
        in
        if ip = [] then
          Inr (dropPeer p1 ''failed to determine remote address'' WE_DROPPED_REMOTE IGNORE_WRITE_QUEUE)
        else
          let p2 = p1\<lparr>mAddress := IPv4Address ip (nat (listeningPort elo mod 65536))\<rparr>
          in if mRole p2 = REMOTE_CALLED_US then
               recvHello_checks app (sendHello app p2) elo ip FLUSH_WRITE_QUEUE
             else recvHello_checks app p2 elo ip IGNORE_WRITE_QUEUE)"

text \<open>
  \<^verbatim>\<open>recvAuth\<close> reads only the flags of its message. Its last part, from the send callback to
  the request for the SCP state, is a function of its own.
\<close>

definition recvAuth_startFlowControl :: "App \<Rightarrow> Peer \<Rightarrow> int \<Rightarrow> Peer" where
  "recvAuth_startFlowControl app p flags =
     (let enableBytes =
            (OVERLAY_PROTOCOL_VERSION app \<ge> FIRST_VERSION_SUPPORTING_FLOW_CONTROL_IN_BYTES \<and>
             mRemoteOverlayVersion p \<ge> FIRST_VERSION_SUPPORTING_FLOW_CONTROL_IN_BYTES);
          bothWantBytes =
            (enableBytes \<and> flags = AUTH_MSG_FLAG_FLOW_CONTROL_BYTES_REQUESTED app \<and>
             ENABLE_FLOW_CONTROL_BYTES app);
          started = FlowControl_start app bothWantBytes (mFlowControl p);
          p4 = sendAuthenticatedMessage app (p\<lparr>mFlowControl := snd started\<rparr>) (fst started)
      in sendGetScpState app p4 (getMinLedgerSeqToAskPeers app))"

definition recvAuth :: "App \<Rightarrow> Peer \<Rightarrow> int \<Rightarrow> error + Peer" where
  "recvAuth app p flags =
     (if mState p \<noteq> GOT_HELLO then
        Inr (sendErrorAndDrop app p ERR_MISC ''out-of-order AUTH message'' IGNORE_WRITE_QUEUE)
      else if isAuthenticated p then
        Inr (sendErrorAndDrop app p ERR_MISC ''out-of-order AUTH message'' IGNORE_WRITE_QUEUE)
      else
        case (if mRole p = REMOTE_CALLED_US then sendPeers app (sendAuth app (p\<lparr>mState := GOT_AUTH\<rparr>))
              else Inr (p\<lparr>mState := GOT_AUTH\<rparr>)) of
          Inl e \<Rightarrow> Inl e
        | Inr p2 \<Rightarrow>
            (case updatePeerRecordAfterAuthentication p2 of
               Inl e \<Rightarrow> Inl e
             | Inr p3 \<Rightarrow>
                 if \<not> acceptAuthenticatedPeer app then
                   Inr (sendErrorAndDrop app p3 ERR_LOAD ''peer rejected'' FLUSH_WRITE_QUEUE)
                 else Inr (recvAuth_startFlowControl app p3 flags)))"

subsection \<open>Receiving\<close>

definition isalnum :: "char \<Rightarrow> bool" where
  "isalnum c =
     (let n = (of_char c :: nat)
      in (48 \<le> n \<and> n \<le> 57) \<or> (65 \<le> n \<and> n \<le> 90) \<or> (97 \<le> n \<and> n \<le> 122))"

definition errorCodeStr :: "ErrorCode \<Rightarrow> string" where
  "errorCodeStr c =
     (case c of ERR_MISC \<Rightarrow> ''ERR_MISC'' | ERR_DATA \<Rightarrow> ''ERR_DATA'' | ERR_CONF \<Rightarrow> ''ERR_CONF''
      | ERR_AUTH \<Rightarrow> ''ERR_AUTH'' | ERR_LOAD \<Rightarrow> ''ERR_LOAD'')"

definition recvError :: "Peer \<Rightarrow> ErrorCode \<Rightarrow> string \<Rightarrow> Peer" where
  "recvError p code msgtext =
     dropPeer p
       (errorCodeStr code @ '' ('' @
        map (\<lambda>c. if isalnum c \<or> c = CHR '' '' then c else CHR ''*'') msgtext @ '')'')
       REMOTE_DROPPED_US IGNORE_WRITE_QUEUE"

definition messageTypeName :: "MessageType \<Rightarrow> string" where
  "messageTypeName t =
     (case t of
        ERROR_MSG \<Rightarrow> ''ERROR_MSG'' | HELLO \<Rightarrow> ''HELLO'' | AUTH \<Rightarrow> ''AUTH''
      | DONT_HAVE \<Rightarrow> ''DONT_HAVE'' | GET_PEERS \<Rightarrow> ''GET_PEERS'' | PEERS \<Rightarrow> ''PEERS''
      | GET_TX_SET \<Rightarrow> ''GET_TX_SET'' | TX_SET \<Rightarrow> ''TX_SET''
      | GENERALIZED_TX_SET \<Rightarrow> ''GENERALIZED_TX_SET'' | TRANSACTION \<Rightarrow> ''TRANSACTION''
      | GET_SCP_QUORUMSET \<Rightarrow> ''GET_SCP_QUORUMSET'' | SCP_QUORUMSET \<Rightarrow> ''SCP_QUORUMSET''
      | SCP_MESSAGE \<Rightarrow> ''SCP_MESSAGE'' | GET_SCP_STATE \<Rightarrow> ''GET_SCP_STATE''
      | SURVEY_REQUEST \<Rightarrow> ''SURVEY_REQUEST'' | SURVEY_RESPONSE \<Rightarrow> ''SURVEY_RESPONSE''
      | SEND_MORE \<Rightarrow> ''SEND_MORE'' | SEND_MORE_EXTENDED \<Rightarrow> ''SEND_MORE_EXTENDED''
      | FLOOD_ADVERT \<Rightarrow> ''FLOOD_ADVERT'' | FLOOD_DEMAND \<Rightarrow> ''FLOOD_DEMAND'')"

text \<open>
  \<^verbatim>\<open>recvRawMessage\<close>. The handlers of the handshake and of ERROR_MSG and GET_PEERS are modelled;
  the handlers of the other types call into the herder, the overlay manager, the survey
  manager and the flow controller, and the dispatch to them is recorded as an effect.
\<close>

definition recvRawMessage :: "App \<Rightarrow> Peer \<Rightarrow> HcnetMessage \<Rightarrow> error + Peer" where
  "recvRawMessage app p msg =
     (if shouldAbort app p then Inr p
      else if \<not> isAuthenticated p \<and> msg_type msg \<noteq> HELLO \<and> msg_type msg \<noteq> AUTH \<and>
              msg_type msg \<noteq> ERROR_MSG then
        Inr (dropPeer p (''received '' @ messageTypeName (msg_type msg) @ '' before completed handshake'')
               WE_DROPPED_REMOTE IGNORE_WRITE_QUEUE)
      else
        case msg of
          MError code msgtext \<Rightarrow> Inr (recvError p code msgtext)
        | MHello elo \<Rightarrow> recvHello app p elo
        | MAuth flags \<Rightarrow> recvAuth app p flags
        | MGetPeers \<Rightarrow> sendPeers app p
        | _ \<Rightarrow> Inr (p\<lparr>events := events p @ [EvHandler msg]\<rparr>))"

text \<open>The category of a message: its name, its scheduler class, and whether it is ignored out of sync.\<close>

definition message_category :: "MessageType \<Rightarrow> string \<times> ActionType \<times> bool" where
  "message_category t =
     (if t = GET_PEERS \<or> t = PEERS \<or> t = ERROR_MSG \<or> t = SEND_MORE \<or> t = SEND_MORE_EXTENDED then
        (''CTRL'', NORMAL_ACTION, False)
      else if t = TRANSACTION \<or> t = FLOOD_ADVERT \<or> t = FLOOD_DEMAND then
        (''TX'', DROPPABLE_ACTION, True)
      else if t = GET_TX_SET \<or> t = GET_SCP_QUORUMSET \<or> t = GET_SCP_STATE then
        (''SCPQ'', DROPPABLE_ACTION, False)
      else if t = DONT_HAVE \<or> t = TX_SET \<or> t = GENERALIZED_TX_SET \<or> t = SCP_QUORUMSET \<or>
              t = SCP_MESSAGE then
        (''SCP'', NORMAL_ACTION, False)
      else (''MISC'', NORMAL_ACTION, False))"

text \<open>
  \<^verbatim>\<open>recvMessage(HcnetMessage const&)\<close>. The tracker is shared with the posted task; where the
  function returns before posting, the tracker is destroyed on return.
\<close>

definition recvMessage :: "App \<Rightarrow> Peer \<Rightarrow> HcnetMessage \<Rightarrow> error + Peer" where
  "recvMessage app p msg =
     (if shouldAbort app p then Inr p
      else if msg_type msg = HELLO \<or> msg_type msg = AUTH then recvRawMessage app p msg
      else
        case message_category (msg_type msg) of
          (cat, actionType, ignoreIfOutOfSync) \<Rightarrow>
            (case MsgCapacityTracker_ctor app (Some p) msg of
               Inl e \<Rightarrow> Inl e
             | Inr p1 \<Rightarrow>
                 if \<not> isSynced app \<and> ignoreIfOutOfSync then endMessageProcessing app p1 msg
                 else Inr (p1\<lparr>events := events p1 @ [EvPostRecv msg (cat @ '' recvMessage'') actionType]\<rparr>)))"

text \<open>\<^verbatim>\<open>recvMessage(AuthenticatedMessage const&)\<close>.\<close>

definition recvAuthenticatedMessage :: "App \<Rightarrow> Peer \<Rightarrow> AuthenticatedMessage \<Rightarrow> error + Peer" where
  "recvAuthenticatedMessage app p msg =
     (if shouldAbort app p then Inr p
      else if state_rank (mState p) \<ge> state_rank GOT_HELLO \<and> msg_type (am_message msg) \<noteq> ERROR_MSG then
        if am_sequence msg \<noteq> mRecvMacSeq p then
          Inr (sendErrorAndDrop app (p\<lparr>mRecvMacSeq := mRecvMacSeq p + 1\<rparr>) ERR_AUTH
                 ''unexpected auth sequence'' IGNORE_WRITE_QUEUE)
        else if \<not> hmacSha256Verify app (am_mac msg) (mRecvMacKey p) (am_sequence msg, am_message msg) then
          Inr (sendErrorAndDrop app (p\<lparr>mRecvMacSeq := mRecvMacSeq p + 1\<rparr>) ERR_AUTH
                 ''unexpected MAC'' IGNORE_WRITE_QUEUE)
        else recvMessage app (p\<lparr>mRecvMacSeq := mRecvMacSeq p + 1\<rparr>) (am_message msg)
      else recvMessage app p (am_message msg))"

subsection \<open>Timers\<close>

definition getIOTimeout :: "App \<Rightarrow> Peer \<Rightarrow> duration" where
  "getIOTimeout app p =
     (if isAuthenticated p then seconds (PEER_TIMEOUT app)
      else seconds (PEER_AUTHENTICATION_TIMEOUT app))"

definition startRecurrentTimer :: "App \<Rightarrow> Peer \<Rightarrow> Peer" where
  "startRecurrentTimer app p =
     (if shouldAbort app p then p
      else (pingPeer app p)\<lparr>mRecurringTimer := Some (clock_now app + RECURRENT_TIMER_PERIOD)\<rparr>)"

text \<open>The handler of the recurring timer; \<open>err\<close> is true when the wait was cancelled.\<close>

definition recurrentTimerExpired :: "App \<Rightarrow> Peer \<Rightarrow> bool \<Rightarrow> Peer" where
  "recurrentTimerExpired app p err =
     (if err then p
      else
        let now = clock_now app;
            timeout = getIOTimeout app p;
            stragglerTimeout = seconds (PEER_STRAGGLER_TIMEOUT app)
        in
        if now - mLastRead p \<ge> timeout \<and> now - mLastWrite p \<ge> timeout then
          dropPeer p ''idle timeout'' WE_DROPPED_REMOTE IGNORE_WRITE_QUEUE
        else if (case getOutboundCapacityTimestamp (mFlowControl p) of
                   None \<Rightarrow> False
                 | Some ts \<Rightarrow> now - ts \<ge> PEER_SEND_MODE_IDLE_TIMEOUT) then
          dropPeer p ''idle timeout (no new flood requests)'' WE_DROPPED_REMOTE IGNORE_WRITE_QUEUE
        else if now - mEnqueueTimeOfLastWrite p \<ge> stragglerTimeout then
          dropPeer p ''straggling (cannot keep up)'' WE_DROPPED_REMOTE IGNORE_WRITE_QUEUE
        else startRecurrentTimer app p)"

subsection \<open>Adverts and demands\<close>

definition startAdvertTimer :: "App \<Rightarrow> Peer \<Rightarrow> Peer" where
  "startAdvertTimer app p =
     (if shouldAbort app p then p
      else p\<lparr>mAdvertTimer := Some (clock_now app + milliseconds (FLOOD_ADVERT_PERIOD_MS app))\<rparr>)"

definition flushAdvert :: "Peer \<Rightarrow> Peer" where
  "flushAdvert p =
     (if length (mTxHashesToAdvertise p) > 0 then
        p\<lparr>mTxHashesToAdvertise := [],
          events := events p @ [EvPostSend (MFloodAdvert (mTxHashesToAdvertise p)) ''flushAdvert'']\<rparr>
      else p)"

text \<open>The handler that \<^verbatim>\<open>startAdvertTimer\<close> installs; \<open>err\<close> is true when the wait was cancelled.\<close>

definition advertTimerExpired :: "Peer \<Rightarrow> bool \<Rightarrow> Peer" where
  "advertTimerExpired p err = (if \<not> err then flushAdvert p else p)"

text \<open>
  The task that \<^verbatim>\<open>flushAdvert\<close> and \<^verbatim>\<open>sendTxDemand\<close> post: it sends if the peer still exists.
\<close>

definition postedSend :: "App \<Rightarrow> Peer option \<Rightarrow> HcnetMessage \<Rightarrow> Peer option" where
  "postedSend app weak msg =
     (case weak of None \<Rightarrow> None | Some strong \<Rightarrow> Some (sendMessage app strong msg))"

definition queueTxHashToAdvertise :: "App \<Rightarrow> Peer \<Rightarrow> Hash \<Rightarrow> Peer" where
  "queueTxHashToAdvertise app p txHash =
     (let p1 = (if mTxHashesToAdvertise p = [] then startAdvertTimer app p else p)
      in if length (mTxHashesToAdvertise p1) = TX_ADVERT_VECTOR_MAX_SIZE app then p1
         else
           let p2 = p1\<lparr>mTxHashesToAdvertise := mTxHashesToAdvertise p1 @ [txHash]\<rparr>
           in if length (mTxHashesToAdvertise p2) \<ge> getMaxAdvertSize app then flushAdvert p2
              else p2)"

text \<open>The loop of \<^verbatim>\<open>fulfillDemand\<close> over the demanded hashes: one step, and the loop.\<close>

definition fulfillOne :: "App \<Rightarrow> Peer \<Rightarrow> Hash \<Rightarrow> Peer" where
  "fulfillOne app p h =
     (case getTx app h of
        Some tx \<Rightarrow>
          sendMessage app
            (p\<lparr>mPeerMetrics := (mPeerMetrics p)\<lparr>mMessagesFulfilled :=
                  mMessagesFulfilled (mPeerMetrics p) + 1\<rparr>\<rparr>)
            (MTransaction tx)
      | None \<Rightarrow>
          if isBannedTx app h then
            p\<lparr>mPeerMetrics := (mPeerMetrics p)\<lparr>mBannedMessageUnfulfilled :=
                  mBannedMessageUnfulfilled (mPeerMetrics p) + 1\<rparr>\<rparr>
          else
            p\<lparr>mPeerMetrics := (mPeerMetrics p)\<lparr>mUnknownMessageUnfulfilled :=
                  mUnknownMessageUnfulfilled (mPeerMetrics p) + 1\<rparr>\<rparr>)"

fun fulfillDemand :: "App \<Rightarrow> Peer \<Rightarrow> Hash list \<Rightarrow> Peer" where
  "fulfillDemand app p [] = p"
| "fulfillDemand app p (h # hs) = fulfillDemand app (fulfillOne app p h) hs"

text \<open>The bound of the advert history, as an invariant of the peer.\<close>

definition advert_inv :: "Peer \<Rightarrow> bool" where
  "advert_inv p = (mMaxSize (mAdvertHistory p) = ADVERT_CACHE_SIZE \<and> cache_size (mAdvertHistory p) \<le> ADVERT_CACHE_SIZE)"

section \<open>A sample application and peer\<close>

text \<open>Concrete values on which the theorems below are instantiated.\<close>

definition exampleApp :: App where
  "exampleApp =
     \<lparr>clock_now = 100000000000,
      OVERLAY_PROTOCOL_VERSION = 30,
      OVERLAY_PROTOCOL_MIN_VERSION = 27,
      LEDGER_PROTOCOL_VERSION = 20,
      VERSION_STR = ''v20.0.2'',
      PEER_PORT = 11625,
      NODE_SEED_publicKey = 7,
      ENABLE_FLOW_CONTROL_BYTES = True,
      PEER_TIMEOUT = 30,
      PEER_AUTHENTICATION_TIMEOUT = 2,
      PEER_STRAGGLER_TIMEOUT = 120,
      PEER_FLOOD_READING_CAPACITY = 200,
      PEER_READING_CAPACITY = 201,
      FLOOD_ADVERT_PERIOD_MS = 100,
      flowControlBytesTotal = 300000,
      app_networkID = 99,
      isShuttingDown = False,
      currentSchedulerActionType = NORMAL_ACTION,
      isSynced = True,
      getTx = (\<lambda>h. if h = 2 then Some [1, 2, 3] else None),
      isBannedTx = (\<lambda>h. h = 3),
      getMinLedgerSeqToAskPeers = 10,
      isBanned = (\<lambda>n. n = 666),
      verifyRemoteAuthCert = (\<lambda>n c. sig c = [1]),
      getSendingMacKey = (\<lambda>k a b r. 11),
      getReceivingMacKey = (\<lambda>k a b r. 12),
      getAuthCert = \<lparr>pubkey = 5, expiration = 1000, sig = [1]\<rparr>,
      hmacSha256 = (\<lambda>k d. k + ucast (fst d)),
      hmacSha256Verify = (\<lambda>m k d. m = k + ucast (fst d)),
      xdr_size = (\<lambda>m. 120),
      acceptAuthenticatedPeer = True,
      authenticatedPeers = [],
      pendingPeers = [],
      getPeersToSend = (\<lambda>n a. []),
      getMaxAdvertSize = 3,
      TX_ADVERT_VECTOR_MAX_SIZE = 1000,
      peers_max_size = 100,
      AUTH_MSG_FLAG_FLOW_CONTROL_BYTES_REQUESTED = 200,
      pingIDfromTimePoint = (\<lambda>t. word_of_int t),
      toShortString = (\<lambda>n. ''GNODE'')\<rparr>"

definition examplePeer :: "PeerRole \<Rightarrow> Peer" where
  "examplePeer role = Peer_new exampleApp role 4242 1 ''10.0.0.7'' False False"

definition authPeer :: Peer where
  "authPeer =
     (examplePeer REMOTE_CALLED_US)\<lparr>mState := GOT_AUTH, mPeerID := 8, mRecvNonce := 77,
        mSendMacKey := 11, mRecvMacKey := 12, mSendMacSeq := 6, mRecvMacSeq := 4,
        mRemoteOverlayMinVersion := 27, mRemoteOverlayVersion := 30,
        mAddress := IPv4Address ''10.0.0.7'' 11625\<rparr>"

definition closingPeer :: Peer where
  "closingPeer = authPeer\<lparr>mState := CLOSING\<rparr>"

definition connectedPeer :: "PeerRole \<Rightarrow> Peer" where
  "connectedPeer role = (examplePeer role)\<lparr>mState := CONNECTED\<rparr>"

definition goodHello :: Hello where
  "goodHello =
     \<lparr>ledgerVersion = 20, overlayMinVersion = 27, overlayVersion = 30, versionStr = ''v20.0.2'',
      networkID = 99, listeningPort = 11625, peerID = 8,
      cert = \<lparr>pubkey = 9, expiration = 1000, sig = [1]\<rparr>, nonce = 77\<rparr>"

definition ourHello :: Hello where
  "ourHello =
     \<lparr>ledgerVersion = 20, overlayMinVersion = 27, overlayVersion = 30, versionStr = ''v20.0.2'',
      networkID = 99, listeningPort = 11625, peerID = 7,
      cert = \<lparr>pubkey = 5, expiration = 1000, sig = [1]\<rparr>, nonce = 4242\<rparr>"

definition exhaustedPeer :: Peer where
  "exhaustedPeer =
     authPeer\<lparr>mFlowControl := (mFlowControl authPeer)\<lparr>mFlowControlCapacity :=
        (FlowControlMessageCapacity exampleApp)\<lparr>mCapacity :=
           \<lparr>mFloodCapacity = 0, mTotalCapacity = Some 1\<rparr>\<rparr>\<rparr>\<rparr>"

definition bytesPeer :: Peer where
  "bytesPeer =
     authPeer\<lparr>mFlowControl := (mFlowControl authPeer)\<lparr>mFlowControlBytesCapacity :=
        Some (FlowControlByteCapacity exampleApp)\<rparr>\<rparr>"

definition helloPeer :: Peer where
  "helloPeer = authPeer\<lparr>mState := GOT_HELLO\<rparr>"

section \<open>Properties\<close>

subsection \<open>What the basic operations leave unchanged\<close>

lemma shutdown_frame [simp]:
  "mState (shutdown p) = mState p"
  "mRecvMacSeq (shutdown p) = mRecvMacSeq p"
  "mSendMacSeq (shutdown p) = mSendMacSeq p"
  "events (shutdown p) = events p"
  "mFlowControl (shutdown p) = mFlowControl p"
  "mPeerMetrics (shutdown p) = mPeerMetrics p"
  "mTxHashesToAdvertise (shutdown p) = mTxHashesToAdvertise p"
  by (simp_all add: shutdown_def)

lemma dropPeer_frame [simp]:
  "mRecvMacSeq (dropPeer p r d m) = mRecvMacSeq p"
  "mSendMacSeq (dropPeer p r d m) = mSendMacSeq p"
  "mFlowControl (dropPeer p r d m) = mFlowControl p"
  "mPeerMetrics (dropPeer p r d m) = mPeerMetrics p"
  "mTxHashesToAdvertise (dropPeer p r d m) = mTxHashesToAdvertise p"
  by (simp_all add: dropPeer_def)

lemma dropPeer_state [simp]: "mState (dropPeer p r d m) = CLOSING"
  by (simp add: dropPeer_def)

lemma dropPeer_events:
  "events (dropPeer p r d m) = (if mState p = CLOSING then events p else events p @ [EvDrop r d m])"
  by (simp add: dropPeer_def)

lemma sendAuthenticatedMessage_frame [simp]:
  "mRecvMacSeq (sendAuthenticatedMessage app p msg) = mRecvMacSeq p"
  "mState (sendAuthenticatedMessage app p msg) = mState p"
  "mFlowControl (sendAuthenticatedMessage app p msg) = mFlowControl p"
  "mTxHashesToAdvertise (sendAuthenticatedMessage app p msg) = mTxHashesToAdvertise p"
  by (simp_all add: sendAuthenticatedMessage_def Let_def)

lemma sendMessage_frame [simp]:
  "mRecvMacSeq (sendMessage app p msg) = mRecvMacSeq p"
  "mState (sendMessage app p msg) = mState p"
  "mFlowControl (sendMessage app p msg) = mFlowControl p"
  "mTxHashesToAdvertise (sendMessage app p msg) = mTxHashesToAdvertise p"
  by (simp_all add: sendMessage_def)

lemma sendMessage_unflooded_events:
  "\<not> isFloodMessage msg \<Longrightarrow> msg_type msg = HELLO \<or> msg_type msg = ERROR_MSG \<Longrightarrow>
   events (sendMessage app p msg) = events p @
     [if currentSchedulerActionType app = DROPPABLE_ACTION \<and> virt_sendQueueIsOverloaded p
      then EvShed msg else EvWire \<lparr>am_sequence = 0, am_message = msg, am_mac = 0\<rparr>]"
  by (auto simp: sendMessage_def FlowControl_maybeSendMessage_def sendAuthenticatedMessage_def Let_def)

lemma sendError_frame [simp]:
  "mRecvMacSeq (sendError app p c t) = mRecvMacSeq p"
  "mState (sendError app p c t) = mState p"
  "mFlowControl (sendError app p c t) = mFlowControl p"
  by (simp_all add: sendError_def)

lemma sendError_events:
  "events (sendError app p c t) = events p @
     [if currentSchedulerActionType app = DROPPABLE_ACTION \<and> virt_sendQueueIsOverloaded p
      then EvShed (MError c t) else EvWire \<lparr>am_sequence = 0, am_message = MError c t, am_mac = 0\<rparr>]"
  unfolding sendError_def
  by (rule sendMessage_unflooded_events) (simp_all add: isFloodMessage_def)

lemma sendErrorAndDrop_frame [simp]:
  "mRecvMacSeq (sendErrorAndDrop app p c t m) = mRecvMacSeq p"
  "mState (sendErrorAndDrop app p c t m) = CLOSING"
  "mFlowControl (sendErrorAndDrop app p c t m) = mFlowControl p"
  by (simp_all add: sendErrorAndDrop_def)

lemma sendErrorAndDrop_events:
  "mState p \<noteq> CLOSING \<Longrightarrow>
   events (sendErrorAndDrop app p c t m) = events p @
     [if currentSchedulerActionType app = DROPPABLE_ACTION \<and> virt_sendQueueIsOverloaded p
      then EvShed (MError c t) else EvWire \<lparr>am_sequence = 0, am_message = MError c t, am_mac = 0\<rparr>,
      EvDrop t WE_DROPPED_REMOTE m]"
  by (simp add: sendErrorAndDrop_def dropPeer_events sendError_events)

lemma sendPeers_frame:
  "sendPeers app p = Inr p' \<Longrightarrow> mRecvMacSeq p' = mRecvMacSeq p \<and> mState p' = mState p"
  by (auto simp: sendPeers_def Let_def split: if_splits)

lemma sendAuth_frame [simp]:
  "mRecvMacSeq (sendAuth app p) = mRecvMacSeq p"
  "mState (sendAuth app p) = mState p"
  by (simp_all add: sendAuth_def)

lemma sendHello_frame [simp]:
  "mRecvMacSeq (sendHello app p) = mRecvMacSeq p"
  "mState (sendHello app p) = mState p"
  by (simp_all add: sendHello_def)

lemma sendGetScpState_frame [simp]:
  "mRecvMacSeq (sendGetScpState app p n) = mRecvMacSeq p"
  "mState (sendGetScpState app p n) = mState p"
  by (simp_all add: sendGetScpState_def)

lemma sendHello_events:
  "events (sendHello app p) = events p @
     [if currentSchedulerActionType app = DROPPABLE_ACTION \<and> virt_sendQueueIsOverloaded p
      then EvShed (MHello \<lparr>ledgerVersion = LEDGER_PROTOCOL_VERSION app,
                overlayMinVersion = OVERLAY_PROTOCOL_MIN_VERSION app,
                overlayVersion = OVERLAY_PROTOCOL_VERSION app,
                versionStr = VERSION_STR app,
                networkID = app_networkID app,
                listeningPort = int (PEER_PORT app),
                peerID = NODE_SEED_publicKey app,
                cert = getAuthCert app,
                nonce = mSendNonce p\<rparr>)
      else EvWire \<lparr>am_sequence = 0, am_message = MHello \<lparr>ledgerVersion = LEDGER_PROTOCOL_VERSION app,
                overlayMinVersion = OVERLAY_PROTOCOL_MIN_VERSION app,
                overlayVersion = OVERLAY_PROTOCOL_VERSION app,
                versionStr = VERSION_STR app,
                networkID = app_networkID app,
                listeningPort = int (PEER_PORT app),
                peerID = NODE_SEED_publicKey app,
                cert = getAuthCert app,
                nonce = mSendNonce p\<rparr>, am_mac = 0\<rparr>]"
  unfolding sendHello_def
  by (rule sendMessage_unflooded_events) (simp_all add: isFloodMessage_def)

lemma sendMessage_overloaded [simp]:
  "virt_sendQueueIsOverloaded (sendMessage app p msg) = virt_sendQueueIsOverloaded p"
  by (simp add: sendMessage_def sendAuthenticatedMessage_def Let_def)

lemma sendHello_overloaded [simp]:
  "virt_sendQueueIsOverloaded (sendHello app p) = virt_sendQueueIsOverloaded p"
  by (simp add: sendHello_def)

lemma sendMessage_versions [simp]:
  "mRemoteOverlayMinVersion (sendMessage app p msg) = mRemoteOverlayMinVersion p"
  "mRemoteOverlayVersion (sendMessage app p msg) = mRemoteOverlayVersion p"
  "mRole (sendMessage app p msg) = mRole p"
  by (simp_all add: sendMessage_def sendAuthenticatedMessage_def Let_def)

lemma sendHello_versions [simp]:
  "mRemoteOverlayMinVersion (sendHello app p) = mRemoteOverlayMinVersion p"
  "mRemoteOverlayVersion (sendHello app p) = mRemoteOverlayVersion p"
  "mRole (sendHello app p) = mRole p"
  by (simp_all add: sendHello_def)

lemma sendMessage_sent:
  "sent_messages (events (sendMessage app p msg)) = sent_messages (events p) @ [msg]"
  by (simp add: sendMessage_def sendAuthenticatedMessage_def sent_messages_def Let_def)

subsection \<open>The advert history\<close>

lemma evictOne_length: "xs \<noteq> [] \<Longrightarrow> length (evictOne rnd xs) = length xs - 1"
proof -
  assume ne: "xs \<noteq> []"
  define i where "i = rnd mod length xs"
  have "i < length xs" using ne by (simp add: i_def)
  then have "length (take i xs @ drop (Suc i) xs) = length xs - 1" by simp
  with ne show ?thesis by (simp add: evictOne_def i_def)
qed

lemma cache_put_size:
  "0 < mMaxSize c \<Longrightarrow> cache_size c \<le> mMaxSize c \<Longrightarrow> cache_size (cache_put k v rnd c) \<le> mMaxSize c"
  by (auto simp: cache_put_def cache_size_def evictOne_length)

lemma cache_put_max [simp]: "mMaxSize (cache_put k v rnd c) = mMaxSize c"
  by (simp add: cache_put_def)

lemma cache_erase_if_max [simp]: "mMaxSize (cache_erase_if f c) = mMaxSize c"
  by (simp add: cache_erase_if_def)

lemma cache_erase_if_size: "cache_size (cache_erase_if f c) \<le> cache_size c"
  by (simp add: cache_erase_if_def cache_size_def)

lemma advert_inv_op: "advert_inv p \<Longrightarrow> advert_inv (apply_advert_op p x)"
  apply (cases x)
   apply (simp_all add: advert_inv_def rememberHash_def clearBelow_def)
  using cache_put_size[of "mAdvertHistory p"] cache_erase_if_size[of _ "mAdvertHistory p"]
   apply (auto simp: ADVERT_CACHE_SIZE_def)
  using le_trans by blast

lemma advert_inv_foldl: "advert_inv p \<Longrightarrow> advert_inv (foldl apply_advert_op p ops)"
  by (induction ops arbitrary: p) (auto simp: advert_inv_op)

lemma advert_inv_new: "advert_inv (Peer_new app role n i ip ov pr)"
  by (simp add: advert_inv_def Peer_new_def cache_new_def cache_size_def)

lemma clearBelow_entries:
  "\<forall>(h, s) \<in> set (mValueMap (mAdvertHistory (clearBelow p L))). \<not> s < L"
  by (auto simp: clearBelow_def cache_erase_if_def)

text \<open>
  C8. The advert history of a peer never holds more than 50,000 entries, whatever hashes are
  remembered and whatever is cleared, from the constructor on (a full cache evicts a randomly
  chosen entry before it inserts a new hash); and once \<^verbatim>\<open>clearBelow(L)\<close> has run, no entry
  remains whose recorded ledger sequence is below \<open>L\<close>.
\<close>

theorem advert_history_bounded:
  "cache_size (mAdvertHistory (foldl apply_advert_op (Peer_new app role n i ip ov pr) ops)) \<le> 50000 \<and>
   (\<forall>(h, s) \<in> set (mValueMap (mAdvertHistory (clearBelow p L))). \<not> s < L)"
proof
  have "advert_inv (foldl apply_advert_op (Peer_new app role n i ip ov pr) ops)"
    by (rule advert_inv_foldl) (rule advert_inv_new)
  then show "cache_size (mAdvertHistory (foldl apply_advert_op (Peer_new app role n i ip ov pr) ops)) \<le> 50000"
    by (simp add: advert_inv_def ADVERT_CACHE_SIZE_def)
next
  show "\<forall>(h, s) \<in> set (mValueMap (mAdvertHistory (clearBelow p L))). \<not> s < L"
    by (rule clearBelow_entries)
qed

theorem advert_history_bounded_witness:
  "mValueMap (mAdvertHistory (
     clearBelow (foldl apply_advert_op (examplePeer WE_CALLED_REMOTE) [Remember 1 5 0, Remember 2 9 0, Remember 1 6 0]) 7))
     = [(2, 9)] \<and>
   \<not> (9 :: uint32) < 7 \<and>
   cache_size (mAdvertHistory (foldl apply_advert_op (examplePeer WE_CALLED_REMOTE) [Remember 1 5 0, Remember 2 9 0, Remember 1 6 0])) \<le> 50000"
  using advert_history_bounded [of exampleApp WE_CALLED_REMOTE 4242 1 "''10.0.0.7''" False False
      "[Remember 1 5 0, Remember 2 9 0, Remember 1 6 0]"
      "foldl apply_advert_op (examplePeer WE_CALLED_REMOTE) [Remember 1 5 0, Remember 2 9 0, Remember 1 6 0]" 7]
  by (simp add: examplePeer_def Peer_new_def rememberHash_def clearBelow_def cache_put_def
      cache_erase_if_def cache_new_def cache_size_def ADVERT_CACHE_SIZE_def)

subsection \<open>Messages outside the MAC sequence\<close>

text \<open>
  C3. When sending, a message whose type is neither HELLO nor ERROR_MSG goes out with the send
  counter as its sequence and the MAC over the counter and the message, and the counter is
  incremented; HELLO and ERROR_MSG go out with sequence 0 and a zero MAC and leave the counter
  alone. When receiving, an ERROR_MSG is processed without any check of sequence or MAC, and
  so is the HELLO of the handshake (received before GOT_HELLO).
\<close>

theorem hello_and_error_unauthenticated:
  "mSendMacSeq (sendAuthenticatedMessage app p msg) =
     (if msg_type msg \<noteq> HELLO \<and> msg_type msg \<noteq> ERROR_MSG then mSendMacSeq p + 1 else mSendMacSeq p) \<and>
   events (sendAuthenticatedMessage app p msg) = events p @
     [EvWire (if msg_type msg \<noteq> HELLO \<and> msg_type msg \<noteq> ERROR_MSG
              then \<lparr>am_sequence = mSendMacSeq p, am_message = msg,
                    am_mac = hmacSha256 app (mSendMacKey p) (mSendMacSeq p, msg)\<rparr>
              else \<lparr>am_sequence = 0, am_message = msg, am_mac = 0\<rparr>)] \<and>
   (msg_type (am_message am) = ERROR_MSG \<longrightarrow>
      recvAuthenticatedMessage app p am = recvMessage app p (am_message am)) \<and>
   (msg_type (am_message am) = HELLO \<and> state_rank (mState p) < state_rank GOT_HELLO \<longrightarrow>
      recvAuthenticatedMessage app p am = recvMessage app p (am_message am))"
  by (simp add: sendAuthenticatedMessage_def recvAuthenticatedMessage_def recvMessage_def Let_def)

theorem hello_and_error_unauthenticated_witness:
  "mSendMacSeq (sendAuthenticatedMessage exampleApp authPeer MGetPeers) = 7 \<and>
   events (sendAuthenticatedMessage exampleApp authPeer MGetPeers) =
     [EvWire \<lparr>am_sequence = 6, am_message = MGetPeers, am_mac = 17\<rparr>] \<and>
   mSendMacSeq (sendAuthenticatedMessage exampleApp authPeer (MError ERR_LOAD ''peer rejected'')) = 6 \<and>
   events (sendAuthenticatedMessage exampleApp authPeer (MError ERR_LOAD ''peer rejected'')) =
     [EvWire \<lparr>am_sequence = 0, am_message = MError ERR_LOAD ''peer rejected'', am_mac = 0\<rparr>] \<and>
   msg_type (MError ERR_AUTH ''unexpected MAC'') = ERROR_MSG \<and>
   recvAuthenticatedMessage exampleApp authPeer
       \<lparr>am_sequence = 123, am_message = MError ERR_AUTH ''unexpected MAC'', am_mac = 456\<rparr> =
     recvMessage exampleApp authPeer (MError ERR_AUTH ''unexpected MAC'') \<and>
   state_rank (mState (connectedPeer REMOTE_CALLED_US)) < state_rank GOT_HELLO \<and>
   recvAuthenticatedMessage exampleApp (connectedPeer REMOTE_CALLED_US)
       \<lparr>am_sequence = 0, am_message = MHello goodHello, am_mac = 0\<rparr> =
     recvMessage exampleApp (connectedPeer REMOTE_CALLED_US) (MHello goodHello)"
proof -
  have f: "mSendMacSeq authPeer = 6" "mSendMacKey authPeer = 11" "events authPeer = []"
    by (simp_all add: authPeer_def examplePeer_def Peer_new_def)
  have h: "hmacSha256 exampleApp = (\<lambda>k d. k + ucast (fst d))"
    by (simp add: exampleApp_def)
  have st: "state_rank (mState (connectedPeer REMOTE_CALLED_US)) < state_rank GOT_HELLO"
    by (simp add: connectedPeer_def)
  show ?thesis
    using st
      hello_and_error_unauthenticated [of exampleApp authPeer MGetPeers
        "\<lparr>am_sequence = 123, am_message = MError ERR_AUTH ''unexpected MAC'', am_mac = 456\<rparr>"]
      hello_and_error_unauthenticated [of exampleApp authPeer "MError ERR_LOAD ''peer rejected''"
        "\<lparr>am_sequence = 123, am_message = MError ERR_AUTH ''unexpected MAC'', am_mac = 456\<rparr>"]
      hello_and_error_unauthenticated [of exampleApp "connectedPeer REMOTE_CALLED_US" MGetPeers
        "\<lparr>am_sequence = 0, am_message = MHello goodHello, am_mac = 0\<rparr>"]
    by (simp add: f h)
qed

subsection \<open>The MAC sequence of received messages\<close>

lemma updatePeerRecordAfterAuthentication_frame:
  "updatePeerRecordAfterAuthentication p = Inr p' \<Longrightarrow> mRecvMacSeq p' = mRecvMacSeq p"
  by (auto simp: updatePeerRecordAfterAuthentication_def split: if_splits)

lemma recvAuth_startFlowControl_frame [simp]:
  "mRecvMacSeq (recvAuth_startFlowControl app p flags) = mRecvMacSeq p"
  "mState (recvAuth_startFlowControl app p flags) = mState p"
  by (simp_all add: recvAuth_startFlowControl_def Let_def)

lemma recvAuth_recvMacSeq:
  "recvAuth app p flags = Inr p' \<Longrightarrow> mRecvMacSeq p' = mRecvMacSeq p"
  apply (simp add: recvAuth_def Let_def split: if_splits sum.splits)
  apply (auto dest!: sendPeers_frame updatePeerRecordAfterAuthentication_frame)
  done

lemma recvHello_late_recvMacSeq:
  assumes "state_rank (mState p) \<ge> state_rank GOT_HELLO" and "recvHello app p elo = Inr p'"
  shows "mRecvMacSeq p' = mRecvMacSeq p"
  using assms by (auto simp: recvHello_def)

lemma beginMessageProcessing_recvMacSeq:
  "beginMessageProcessing app p msg = Inr p' \<Longrightarrow> mRecvMacSeq p' = mRecvMacSeq p"
  by (auto simp: beginMessageProcessing_def split: sum.splits prod.splits if_splits)

lemma endMessageProcessing_recvMacSeq:
  "endMessageProcessing app p msg = Inr p' \<Longrightarrow> mRecvMacSeq p' = mRecvMacSeq p"
  by (auto simp: endMessageProcessing_def split: sum.splits prod.splits if_splits)

lemma recvRawMessage_recvMacSeq:
  assumes st: "state_rank (mState p) \<ge> state_rank GOT_HELLO" and r: "recvRawMessage app p msg = Inr p'"
  shows "mRecvMacSeq p' = mRecvMacSeq p"
proof (cases "shouldAbort app p \<or> (\<not> isAuthenticated p \<and> msg_type msg \<noteq> HELLO \<and> msg_type msg \<noteq> AUTH \<and>
              msg_type msg \<noteq> ERROR_MSG)")
  case True
  with r show ?thesis by (auto simp: recvRawMessage_def split: if_splits)
next
  case False
  show ?thesis
  proof (cases msg)
    case (MHello elo)
    with r False have "recvHello app p elo = Inr p'" by (simp add: recvRawMessage_def)
    with st show ?thesis by (rule recvHello_late_recvMacSeq)
  next
    case (MAuth flags)
    with r False have "recvAuth app p flags = Inr p'" by (simp add: recvRawMessage_def)
    then show ?thesis by (rule recvAuth_recvMacSeq)
  next
    case MGetPeers
    with r False have "sendPeers app p = Inr p'" by (simp add: recvRawMessage_def)
    then show ?thesis by (simp add: sendPeers_frame)
  qed (use r False in \<open>auto simp: recvRawMessage_def recvError_def\<close>)
qed

lemma recvMessage_recvMacSeq:
  assumes st: "state_rank (mState p) \<ge> state_rank GOT_HELLO" and r: "recvMessage app p msg = Inr p'"
  shows "mRecvMacSeq p' = mRecvMacSeq p"
proof (cases "shouldAbort app p")
  case True
  with r show ?thesis by (simp add: recvMessage_def)
next
  case live: False
  show ?thesis
  proof (cases "msg_type msg = HELLO \<or> msg_type msg = AUTH")
    case True
    with r live have "recvRawMessage app p msg = Inr p'" by (simp add: recvMessage_def)
    with st show ?thesis by (rule recvRawMessage_recvMacSeq)
  next
    case False
    obtain cat ty ign where c: "message_category (msg_type msg) = (cat, ty, ign)"
      by (cases "message_category (msg_type msg)") auto
    from r live False c obtain p1 where
      b: "beginMessageProcessing app p msg = Inr p1" and
      e: "(if \<not> isSynced app \<and> ign then endMessageProcessing app p1 msg
           else Inr (p1\<lparr>events := events p1 @ [EvPostRecv msg (cat @ '' recvMessage'') ty]\<rparr>)) = Inr p'"
      by (auto simp: recvMessage_def MsgCapacityTracker_ctor_def split: sum.splits)
    from b have "mRecvMacSeq p1 = mRecvMacSeq p" by (rule beginMessageProcessing_recvMacSeq)
    moreover from e have "mRecvMacSeq p' = mRecvMacSeq p1"
      by (auto split: if_splits dest: endMessageProcessing_recvMacSeq)
    ultimately show ?thesis by simp
  qed
qed

text \<open>
  C1 (as amended). For an authenticated message other than ERROR_MSG that arrives in state
  GOT_HELLO or GOT_AUTH while the session is not aborting (the connection is not CLOSING and
  the overlay manager is not shutting down): the message is handed on only if its sequence
  equals the receive counter and its MAC verifies under the receive key; on a wrong sequence,
  and on a wrong MAC, ERR_AUTH goes into the send path and the connection is dropped with
  IGNORE_WRITE_QUEUE; and whenever the function returns, the receive counter is one more than
  before. (The error message reaches the transport unless the load-shedding rule of
  \<^verbatim>\<open>sendMessage\<close> drops it.)
\<close>

theorem recv_authenticated_live:
  assumes live: "\<not> shouldAbort app p"
    and st: "state_rank (mState p) \<ge> state_rank GOT_HELLO"
    and ty: "msg_type (am_message am) \<noteq> ERROR_MSG"
  shows
    "(am_sequence am = mRecvMacSeq p \<and>
      hmacSha256Verify app (am_mac am) (mRecvMacKey p) (am_sequence am, am_message am) \<longrightarrow>
        recvAuthenticatedMessage app p am =
          recvMessage app (p\<lparr>mRecvMacSeq := mRecvMacSeq p + 1\<rparr>) (am_message am)) \<and>
     (am_sequence am \<noteq> mRecvMacSeq p \<longrightarrow>
        (\<exists>p'. recvAuthenticatedMessage app p am = Inr p' \<and> mState p' = CLOSING \<and>
              events p' = events p @
                [if currentSchedulerActionType app = DROPPABLE_ACTION \<and> virt_sendQueueIsOverloaded p
                 then EvShed (MError ERR_AUTH ''unexpected auth sequence'')
                 else EvWire \<lparr>am_sequence = 0,
                              am_message = MError ERR_AUTH ''unexpected auth sequence'', am_mac = 0\<rparr>,
                 EvDrop ''unexpected auth sequence'' WE_DROPPED_REMOTE IGNORE_WRITE_QUEUE])) \<and>
     (am_sequence am = mRecvMacSeq p \<and>
      \<not> hmacSha256Verify app (am_mac am) (mRecvMacKey p) (am_sequence am, am_message am) \<longrightarrow>
        (\<exists>p'. recvAuthenticatedMessage app p am = Inr p' \<and> mState p' = CLOSING \<and>
              events p' = events p @
                [if currentSchedulerActionType app = DROPPABLE_ACTION \<and> virt_sendQueueIsOverloaded p
                 then EvShed (MError ERR_AUTH ''unexpected MAC'')
                 else EvWire \<lparr>am_sequence = 0, am_message = MError ERR_AUTH ''unexpected MAC'', am_mac = 0\<rparr>,
                 EvDrop ''unexpected MAC'' WE_DROPPED_REMOTE IGNORE_WRITE_QUEUE])) \<and>
     (\<forall>p'. recvAuthenticatedMessage app p am = Inr p' \<longrightarrow> mRecvMacSeq p' = mRecvMacSeq p + 1)"
proof -
  from live have nc: "mState p \<noteq> CLOSING" by (simp add: shouldAbort_def)
  let ?p1 = "p\<lparr>mRecvMacSeq := mRecvMacSeq p + 1\<rparr>"
  let ?ok = "hmacSha256Verify app (am_mac am) (mRecvMacKey p) (am_sequence am, am_message am)"
  have nc1: "mState ?p1 \<noteq> CLOSING" using nc by simp
  have st1: "state_rank (mState ?p1) \<ge> state_rank GOT_HELLO" using st by simp
  have accept: "recvAuthenticatedMessage app p am = recvMessage app ?p1 (am_message am)"
    if "am_sequence am = mRecvMacSeq p" and "?ok"
    using live st ty that unfolding recvAuthenticatedMessage_def by simp
  have badseq: "recvAuthenticatedMessage app p am =
      Inr (sendErrorAndDrop app ?p1 ERR_AUTH ''unexpected auth sequence'' IGNORE_WRITE_QUEUE)"
    if "am_sequence am \<noteq> mRecvMacSeq p"
    using live st ty that unfolding recvAuthenticatedMessage_def by simp
  have badmac: "recvAuthenticatedMessage app p am =
      Inr (sendErrorAndDrop app ?p1 ERR_AUTH ''unexpected MAC'' IGNORE_WRITE_QUEUE)"
    if "am_sequence am = mRecvMacSeq p" and "\<not> ?ok"
    using live st ty that unfolding recvAuthenticatedMessage_def by simp
  have ev: "events (sendErrorAndDrop app ?p1 ERR_AUTH t IGNORE_WRITE_QUEUE) = events p @
      [if currentSchedulerActionType app = DROPPABLE_ACTION \<and> virt_sendQueueIsOverloaded p
       then EvShed (MError ERR_AUTH t)
       else EvWire \<lparr>am_sequence = 0, am_message = MError ERR_AUTH t, am_mac = 0\<rparr>,
       EvDrop t WE_DROPPED_REMOTE IGNORE_WRITE_QUEUE]" for t
    using sendErrorAndDrop_events [OF nc1, of app ERR_AUTH t IGNORE_WRITE_QUEUE] by simp
  have c2: "am_sequence am \<noteq> mRecvMacSeq p \<longrightarrow>
        (\<exists>p'. recvAuthenticatedMessage app p am = Inr p' \<and> mState p' = CLOSING \<and>
              events p' = events p @
                [if currentSchedulerActionType app = DROPPABLE_ACTION \<and> virt_sendQueueIsOverloaded p
                 then EvShed (MError ERR_AUTH ''unexpected auth sequence'')
                 else EvWire \<lparr>am_sequence = 0,
                              am_message = MError ERR_AUTH ''unexpected auth sequence'', am_mac = 0\<rparr>,
                 EvDrop ''unexpected auth sequence'' WE_DROPPED_REMOTE IGNORE_WRITE_QUEUE])"
  proof
    assume bs: "am_sequence am \<noteq> mRecvMacSeq p"
    let ?p' = "sendErrorAndDrop app ?p1 ERR_AUTH ''unexpected auth sequence'' IGNORE_WRITE_QUEUE"
    have "recvAuthenticatedMessage app p am = Inr ?p'" using bs by (rule badseq)
    moreover have "mState ?p' = CLOSING" by simp
    ultimately show "\<exists>p'. recvAuthenticatedMessage app p am = Inr p' \<and> mState p' = CLOSING \<and>
              events p' = events p @
                [if currentSchedulerActionType app = DROPPABLE_ACTION \<and> virt_sendQueueIsOverloaded p
                 then EvShed (MError ERR_AUTH ''unexpected auth sequence'')
                 else EvWire \<lparr>am_sequence = 0,
                              am_message = MError ERR_AUTH ''unexpected auth sequence'', am_mac = 0\<rparr>,
                 EvDrop ''unexpected auth sequence'' WE_DROPPED_REMOTE IGNORE_WRITE_QUEUE]"
      using ev [of "''unexpected auth sequence''"] by blast
  qed
  have c3: "am_sequence am = mRecvMacSeq p \<and> \<not> ?ok \<longrightarrow>
        (\<exists>p'. recvAuthenticatedMessage app p am = Inr p' \<and> mState p' = CLOSING \<and>
              events p' = events p @
                [if currentSchedulerActionType app = DROPPABLE_ACTION \<and> virt_sendQueueIsOverloaded p
                 then EvShed (MError ERR_AUTH ''unexpected MAC'')
                 else EvWire \<lparr>am_sequence = 0, am_message = MError ERR_AUTH ''unexpected MAC'', am_mac = 0\<rparr>,
                 EvDrop ''unexpected MAC'' WE_DROPPED_REMOTE IGNORE_WRITE_QUEUE])"
  proof
    assume bm: "am_sequence am = mRecvMacSeq p \<and> \<not> ?ok"
    let ?p' = "sendErrorAndDrop app ?p1 ERR_AUTH ''unexpected MAC'' IGNORE_WRITE_QUEUE"
    have "recvAuthenticatedMessage app p am = Inr ?p'" using bm badmac by blast
    moreover have "mState ?p' = CLOSING" by simp
    ultimately show "\<exists>p'. recvAuthenticatedMessage app p am = Inr p' \<and> mState p' = CLOSING \<and>
              events p' = events p @
                [if currentSchedulerActionType app = DROPPABLE_ACTION \<and> virt_sendQueueIsOverloaded p
                 then EvShed (MError ERR_AUTH ''unexpected MAC'')
                 else EvWire \<lparr>am_sequence = 0, am_message = MError ERR_AUTH ''unexpected MAC'', am_mac = 0\<rparr>,
                 EvDrop ''unexpected MAC'' WE_DROPPED_REMOTE IGNORE_WRITE_QUEUE]"
      using ev [of "''unexpected MAC''"] by blast
  qed
  have c4: "\<forall>p'. recvAuthenticatedMessage app p am = Inr p' \<longrightarrow> mRecvMacSeq p' = mRecvMacSeq p + 1"
  proof (intro allI impI)
    fix p' assume r: "recvAuthenticatedMessage app p am = Inr p'"
    show "mRecvMacSeq p' = mRecvMacSeq p + 1"
    proof (cases "am_sequence am \<noteq> mRecvMacSeq p")
      case True
      with badseq r show ?thesis by auto
    next
      case seq: False
      show ?thesis
      proof (cases "?ok")
        case True
        with seq accept r have "recvMessage app ?p1 (am_message am) = Inr p'" by simp
        with st1 have "mRecvMacSeq p' = mRecvMacSeq ?p1" by (rule recvMessage_recvMacSeq)
        then show ?thesis by simp
      next
        case False
        with seq badmac r show ?thesis by auto
      qed
    qed
  qed
  from accept c2 c3 c4 show ?thesis by blast
qed

text \<open>
  The claim as stated fails on a session that is aborting: a CLOSING connection, and any
  connection while the overlay manager shuts down, ignores the message, sends nothing and
  leaves the counter as it is.
\<close>

theorem recv_authenticated_counterexample:
  "state_rank (mState closingPeer) \<ge> state_rank GOT_HELLO \<and>
   am_sequence \<lparr>am_sequence = 9, am_message = MGetPeers, am_mac = 0\<rparr> \<noteq> mRecvMacSeq closingPeer \<and>
   recvAuthenticatedMessage exampleApp closingPeer \<lparr>am_sequence = 9, am_message = MGetPeers, am_mac = 0\<rparr>
     = Inr closingPeer \<and>
   mState authPeer = GOT_AUTH \<and>
   am_sequence \<lparr>am_sequence = 9, am_message = MGetPeers, am_mac = 0\<rparr> \<noteq> mRecvMacSeq authPeer \<and>
   recvAuthenticatedMessage (exampleApp\<lparr>isShuttingDown := True\<rparr>) authPeer
       \<lparr>am_sequence = 9, am_message = MGetPeers, am_mac = 0\<rparr>
     = Inr authPeer"
  by (simp add: recvAuthenticatedMessage_def shouldAbort_def closingPeer_def authPeer_def)

theorem recv_authenticated_live_witness:
  "\<not> shouldAbort exampleApp authPeer \<and>
   recvAuthenticatedMessage exampleApp authPeer \<lparr>am_sequence = 4, am_message = MGetPeers, am_mac = 16\<rparr>
     = recvMessage exampleApp (authPeer\<lparr>mRecvMacSeq := 5\<rparr>) MGetPeers \<and>
   (\<exists>p'. recvAuthenticatedMessage exampleApp authPeer \<lparr>am_sequence = 9, am_message = MGetPeers, am_mac = 21\<rparr> = Inr p' \<and>
      mState p' = CLOSING \<and> mRecvMacSeq p' = 5 \<and>
      events p' = [EvWire \<lparr>am_sequence = 0, am_message = MError ERR_AUTH ''unexpected auth sequence'', am_mac = 0\<rparr>,
                   EvDrop ''unexpected auth sequence'' WE_DROPPED_REMOTE IGNORE_WRITE_QUEUE]) \<and>
   (\<exists>p'. recvAuthenticatedMessage exampleApp authPeer \<lparr>am_sequence = 4, am_message = MGetPeers, am_mac = 17\<rparr> = Inr p' \<and>
      mState p' = CLOSING \<and> mRecvMacSeq p' = 5 \<and>
      events p' = [EvWire \<lparr>am_sequence = 0, am_message = MError ERR_AUTH ''unexpected MAC'', am_mac = 0\<rparr>,
                   EvDrop ''unexpected MAC'' WE_DROPPED_REMOTE IGNORE_WRITE_QUEUE])"
proof -
  have live: "\<not> shouldAbort exampleApp authPeer"
    by (simp add: shouldAbort_def authPeer_def exampleApp_def)
  have st: "state_rank (mState authPeer) \<ge> state_rank GOT_HELLO"
    by (simp add: authPeer_def)
  have ev: "events authPeer = []" "mRecvMacSeq authPeer = 4" "mRecvMacKey authPeer = 12"
    "virt_sendQueueIsOverloaded authPeer = False"
    by (simp_all add: authPeer_def examplePeer_def Peer_new_def)
  have vf: "hmacSha256Verify exampleApp = (\<lambda>m k d. m = k + ucast (fst d))"
    by (simp add: exampleApp_def)
  note a = recv_authenticated_live [OF live st, of "\<lparr>am_sequence = 4, am_message = MGetPeers, am_mac = 16\<rparr>"]
  note b = recv_authenticated_live [OF live st, of "\<lparr>am_sequence = 9, am_message = MGetPeers, am_mac = 21\<rparr>"]
  note c = recv_authenticated_live [OF live st, of "\<lparr>am_sequence = 4, am_message = MGetPeers, am_mac = 17\<rparr>"]
  show ?thesis
    using live a b c by (auto simp: ev vf)
qed

subsection \<open>Failures of the handshake\<close>

lemma recvHello_record_frame [simp]:
  "mState (recvHello_record app p elo) = GOT_HELLO"
  "events (recvHello_record app p elo) = events p"
  "virt_getIP (recvHello_record app p elo) = virt_getIP p"
  "virt_sendQueueIsOverloaded (recvHello_record app p elo) = virt_sendQueueIsOverloaded p"
  "mRole (recvHello_record app p elo) = mRole p"
  "mSendNonce (recvHello_record app p elo) = mSendNonce p"
  "mRemoteOverlayMinVersion (recvHello_record app p elo) = overlayMinVersion elo"
  "mRemoteOverlayVersion (recvHello_record app p elo) = overlayVersion elo"
  by (simp_all add: recvHello_record_def)

lemma recvHello_checks_conf_error:
  assumes bad: "mRemoteOverlayMinVersion p > mRemoteOverlayVersion p \<or>
          mRemoteOverlayVersion p < OVERLAY_PROTOCOL_MIN_VERSION app \<or>
          mRemoteOverlayMinVersion p > OVERLAY_PROTOCOL_VERSION app \<or>
          peerID elo = NODE_SEED_publicKey app \<or> networkID elo \<noteq> app_networkID app"
    and pick: "reason =
      (if mRemoteOverlayMinVersion p > mRemoteOverlayVersion p \<or>
          mRemoteOverlayVersion p < OVERLAY_PROTOCOL_MIN_VERSION app \<or>
          mRemoteOverlayMinVersion p > OVERLAY_PROTOCOL_VERSION app then ''wrong protocol version''
       else if peerID elo = NODE_SEED_publicKey app then ''connecting to self''
       else ''wrong network passphrase'')"
  shows "recvHello_checks app p elo ip dropMode = Inr (sendErrorAndDrop app p ERR_CONF reason dropMode)"
proof (cases "mRemoteOverlayMinVersion p > mRemoteOverlayVersion p \<or>
          mRemoteOverlayVersion p < OVERLAY_PROTOCOL_MIN_VERSION app \<or>
          mRemoteOverlayMinVersion p > OVERLAY_PROTOCOL_VERSION app")
  case True
  then show ?thesis unfolding pick recvHello_checks_def by (simp split del: if_split)
next
  case vm: False
  show ?thesis
  proof (cases "peerID elo = NODE_SEED_publicKey app")
    case True
    with vm show ?thesis unfolding pick recvHello_checks_def by (simp split del: if_split)
  next
    case False
    with vm bad have "networkID elo \<noteq> app_networkID app" by blast
    with vm False show ?thesis unfolding pick recvHello_checks_def by (simp split del: if_split)
  qed
qed

lemma recvHello_conf_error:
  assumes st: "state_rank (mState p) < state_rank GOT_HELLO"
    and ok: "verifyRemoteAuthCert app (peerID elo) (cert elo)" "\<not> isBanned app (peerID elo)"
      "virt_getIP p \<noteq> []"
    and bad: "overlayMinVersion elo > overlayVersion elo \<or>
          overlayVersion elo < OVERLAY_PROTOCOL_MIN_VERSION app \<or>
          overlayMinVersion elo > OVERLAY_PROTOCOL_VERSION app \<or>
          peerID elo = NODE_SEED_publicKey app \<or> networkID elo \<noteq> app_networkID app"
    and pick: "reason =
      (if overlayMinVersion elo > overlayVersion elo \<or>
          overlayVersion elo < OVERLAY_PROTOCOL_MIN_VERSION app \<or>
          overlayMinVersion elo > OVERLAY_PROTOCOL_VERSION app then ''wrong protocol version''
       else if peerID elo = NODE_SEED_publicKey app then ''connecting to self''
       else ''wrong network passphrase'')"
    and hello: "hello = MHello \<lparr>ledgerVersion = LEDGER_PROTOCOL_VERSION app,
                overlayMinVersion = OVERLAY_PROTOCOL_MIN_VERSION app,
                overlayVersion = OVERLAY_PROTOCOL_VERSION app,
                versionStr = VERSION_STR app,
                networkID = app_networkID app,
                listeningPort = int (PEER_PORT app),
                peerID = NODE_SEED_publicKey app,
                cert = getAuthCert app,
                nonce = mSendNonce p\<rparr>"
    and shed: "shed = (currentSchedulerActionType app = DROPPABLE_ACTION \<and> virt_sendQueueIsOverloaded p)"
  shows "\<exists>p'. recvHello app p elo = Inr p' \<and> mState p' = CLOSING \<and>
      events p' = events p @
        (if mRole p = REMOTE_CALLED_US then
           [if shed then EvShed hello else EvWire \<lparr>am_sequence = 0, am_message = hello, am_mac = 0\<rparr>]
         else []) @
        [if shed then EvShed (MError ERR_CONF reason)
         else EvWire \<lparr>am_sequence = 0, am_message = MError ERR_CONF reason, am_mac = 0\<rparr>,
         EvDrop reason WE_DROPPED_REMOTE
           (if mRole p = REMOTE_CALLED_US then FLUSH_WRITE_QUEUE else IGNORE_WRITE_QUEUE)]"
proof -
  define p2 where "p2 = (recvHello_record app p elo)\<lparr>mAddress := IPv4Address (virt_getIP p) (nat (listeningPort elo mod 65536))\<rparr>"
  have p2: "mState p2 = GOT_HELLO" "events p2 = events p" "mRole p2 = mRole p"
    "virt_sendQueueIsOverloaded p2 = virt_sendQueueIsOverloaded p" "mSendNonce p2 = mSendNonce p"
    "mRemoteOverlayMinVersion p2 = overlayMinVersion elo" "mRemoteOverlayVersion p2 = overlayVersion elo"
    by (simp_all add: p2_def)
  from st have lt: "\<not> state_rank (mState p) \<ge> state_rank GOT_HELLO" by simp
  have unfold: "recvHello app p elo =
      (if mRole p = REMOTE_CALLED_US then recvHello_checks app (sendHello app p2) elo (virt_getIP p) FLUSH_WRITE_QUEUE
       else recvHello_checks app p2 elo (virt_getIP p) IGNORE_WRITE_QUEUE)"
    using lt ok unfolding recvHello_def p2_def
    by (cases "mRole p = REMOTE_CALLED_US") (simp_all add: Let_def)
  show ?thesis
  proof (cases "mRole p = REMOTE_CALLED_US")
    case True
    let ?p3 = "sendHello app p2"
    have p3: "mState ?p3 \<noteq> CLOSING" by (simp add: p2)
    have c: "recvHello_checks app ?p3 elo (virt_getIP p) FLUSH_WRITE_QUEUE =
        Inr (sendErrorAndDrop app ?p3 ERR_CONF reason FLUSH_WRITE_QUEUE)"
      by (rule recvHello_checks_conf_error) (use bad pick in \<open>simp_all add: p2\<close>)
    have "events (sendErrorAndDrop app ?p3 ERR_CONF reason FLUSH_WRITE_QUEUE) = events p @
        [if shed then EvShed hello else EvWire \<lparr>am_sequence = 0, am_message = hello, am_mac = 0\<rparr>] @
        [if shed then EvShed (MError ERR_CONF reason)
         else EvWire \<lparr>am_sequence = 0, am_message = MError ERR_CONF reason, am_mac = 0\<rparr>,
         EvDrop reason WE_DROPPED_REMOTE FLUSH_WRITE_QUEUE]"
      unfolding sendErrorAndDrop_events [OF p3] sendHello_events hello shed
      by (simp add: p2)
    with True c unfold show ?thesis by simp
  next
    case False
    have p3: "mState p2 \<noteq> CLOSING" by (simp add: p2)
    have c: "recvHello_checks app p2 elo (virt_getIP p) IGNORE_WRITE_QUEUE =
        Inr (sendErrorAndDrop app p2 ERR_CONF reason IGNORE_WRITE_QUEUE)"
      by (rule recvHello_checks_conf_error) (use bad pick in \<open>simp_all add: p2\<close>)
    have "events (sendErrorAndDrop app p2 ERR_CONF reason IGNORE_WRITE_QUEUE) = events p @
        [if shed then EvShed (MError ERR_CONF reason)
         else EvWire \<lparr>am_sequence = 0, am_message = MError ERR_CONF reason, am_mac = 0\<rparr>,
         EvDrop reason WE_DROPPED_REMOTE IGNORE_WRITE_QUEUE]"
      unfolding sendErrorAndDrop_events [OF p3] shed
      by (simp add: p2)
    with False c unfold show ?thesis by simp
  qed
qed

lemma recvHello_rejected:
  assumes st: "state_rank (mState p) < state_rank GOT_HELLO"
    and rej: "\<not> verifyRemoteAuthCert app (peerID elo) (cert elo) \<or> isBanned app (peerID elo)"
  shows "\<exists>p'. recvHello app p elo = Inr p' \<and> mState p' = CLOSING \<and>
      events p' = events p @
        [EvDrop (if \<not> verifyRemoteAuthCert app (peerID elo) (cert elo)
                 then ''failed to verify auth cert'' else ''node is banned'')
           WE_DROPPED_REMOTE IGNORE_WRITE_QUEUE]"
proof -
  from st have lt: "\<not> state_rank (mState p) \<ge> state_rank GOT_HELLO" by simp
  from st have nc: "mState p \<noteq> CLOSING" by auto
  show ?thesis
  proof (cases "verifyRemoteAuthCert app (peerID elo) (cert elo)")
    case True
    with rej lt have "recvHello app p elo =
        Inr (dropPeer p ''node is banned'' WE_DROPPED_REMOTE IGNORE_WRITE_QUEUE)"
      unfolding recvHello_def by simp
    with True nc show ?thesis by (simp add: dropPeer_events)
  next
    case False
    with lt have "recvHello app p elo =
        Inr (dropPeer p ''failed to verify auth cert'' WE_DROPPED_REMOTE IGNORE_WRITE_QUEUE)"
      unfolding recvHello_def by simp
    with False nc show ?thesis by (simp add: dropPeer_events)
  qed
qed

text \<open>
  C2 (as amended). For a HELLO received before GOT_HELLO: if its certificate does not verify
  or its sender is banned, the connection is dropped with IGNORE_WRITE_QUEUE and nothing is
  sent. If the certificate verifies, the sender is not banned, the remote address is known,
  and the overlay versions do not overlap, or the peerID is our own, or the network differs,
  then ERR_CONF goes into the send path (with "wrong protocol version", "connecting to self"
  or "wrong network passphrase", the first that applies) and the connection is dropped: the
  responder has sent its own HELLO first and drops with FLUSH_WRITE_QUEUE, the initiator drops
  with IGNORE_WRITE_QUEUE.
\<close>

theorem recv_hello_handshake_failures:
  fixes app :: App and p :: Peer and elo :: Hello
  defines "shed \<equiv> currentSchedulerActionType app = DROPPABLE_ACTION \<and> virt_sendQueueIsOverloaded p"
    and "hello \<equiv> MHello \<lparr>ledgerVersion = LEDGER_PROTOCOL_VERSION app,
                overlayMinVersion = OVERLAY_PROTOCOL_MIN_VERSION app,
                overlayVersion = OVERLAY_PROTOCOL_VERSION app,
                versionStr = VERSION_STR app,
                networkID = app_networkID app,
                listeningPort = int (PEER_PORT app),
                peerID = NODE_SEED_publicKey app,
                cert = getAuthCert app,
                nonce = mSendNonce p\<rparr>"
    and "versionMismatch \<equiv> overlayMinVersion elo > overlayVersion elo \<or>
          overlayVersion elo < OVERLAY_PROTOCOL_MIN_VERSION app \<or>
          overlayMinVersion elo > OVERLAY_PROTOCOL_VERSION app"
    and "reason \<equiv>
      (if overlayMinVersion elo > overlayVersion elo \<or>
          overlayVersion elo < OVERLAY_PROTOCOL_MIN_VERSION app \<or>
          overlayMinVersion elo > OVERLAY_PROTOCOL_VERSION app then ''wrong protocol version''
       else if peerID elo = NODE_SEED_publicKey app then ''connecting to self''
       else ''wrong network passphrase'')"
  assumes st: "state_rank (mState p) < state_rank GOT_HELLO"
  shows
    "(\<not> verifyRemoteAuthCert app (peerID elo) (cert elo) \<or> isBanned app (peerID elo) \<longrightarrow>
        (\<exists>p'. recvHello app p elo = Inr p' \<and> mState p' = CLOSING \<and>
              events p' = events p @
                [EvDrop (if \<not> verifyRemoteAuthCert app (peerID elo) (cert elo)
                         then ''failed to verify auth cert'' else ''node is banned'')
                   WE_DROPPED_REMOTE IGNORE_WRITE_QUEUE])) \<and>
     (verifyRemoteAuthCert app (peerID elo) (cert elo) \<and> \<not> isBanned app (peerID elo) \<and>
      virt_getIP p \<noteq> [] \<and>
      (versionMismatch \<or> peerID elo = NODE_SEED_publicKey app \<or> networkID elo \<noteq> app_networkID app) \<longrightarrow>
        (\<exists>p'. recvHello app p elo = Inr p' \<and> mState p' = CLOSING \<and>
              events p' = events p @
                (if mRole p = REMOTE_CALLED_US then
                   [if shed then EvShed hello
                    else EvWire \<lparr>am_sequence = 0, am_message = hello, am_mac = 0\<rparr>]
                 else []) @
                [if shed then EvShed (MError ERR_CONF reason)
                 else EvWire \<lparr>am_sequence = 0, am_message = MError ERR_CONF reason, am_mac = 0\<rparr>,
                 EvDrop reason WE_DROPPED_REMOTE
                   (if mRole p = REMOTE_CALLED_US then FLUSH_WRITE_QUEUE else IGNORE_WRITE_QUEUE)]))"
proof (intro conjI impI)
  assume "\<not> verifyRemoteAuthCert app (peerID elo) (cert elo) \<or> isBanned app (peerID elo)"
  with st show "\<exists>p'. recvHello app p elo = Inr p' \<and> mState p' = CLOSING \<and>
              events p' = events p @
                [EvDrop (if \<not> verifyRemoteAuthCert app (peerID elo) (cert elo)
                         then ''failed to verify auth cert'' else ''node is banned'')
                   WE_DROPPED_REMOTE IGNORE_WRITE_QUEUE]"
    by (rule recvHello_rejected)
next
  assume a: "verifyRemoteAuthCert app (peerID elo) (cert elo) \<and> \<not> isBanned app (peerID elo) \<and>
      virt_getIP p \<noteq> [] \<and>
      (versionMismatch \<or> peerID elo = NODE_SEED_publicKey app \<or> networkID elo \<noteq> app_networkID app)"
  show "\<exists>p'. recvHello app p elo = Inr p' \<and> mState p' = CLOSING \<and>
              events p' = events p @
                (if mRole p = REMOTE_CALLED_US then
                   [if shed then EvShed hello
                    else EvWire \<lparr>am_sequence = 0, am_message = hello, am_mac = 0\<rparr>]
                 else []) @
                [if shed then EvShed (MError ERR_CONF reason)
                 else EvWire \<lparr>am_sequence = 0, am_message = MError ERR_CONF reason, am_mac = 0\<rparr>,
                 EvDrop reason WE_DROPPED_REMOTE
                   (if mRole p = REMOTE_CALLED_US then FLUSH_WRITE_QUEUE else IGNORE_WRITE_QUEUE)]"
  proof (rule recvHello_conf_error [OF st])
    show "overlayMinVersion elo > overlayVersion elo \<or>
          overlayVersion elo < OVERLAY_PROTOCOL_MIN_VERSION app \<or>
          overlayMinVersion elo > OVERLAY_PROTOCOL_VERSION app \<or>
          peerID elo = NODE_SEED_publicKey app \<or> networkID elo \<noteq> app_networkID app"
      using a unfolding versionMismatch_def by blast
  qed (use a in \<open>simp_all add: reason_def hello_def shed_def\<close>)
qed

text \<open>
  The claim as stated fails: a HELLO with a bad certificate, or from a banned peer, gets no
  ERR_CONF and is dropped with IGNORE_WRITE_QUEUE; and the initiator drops with
  IGNORE_WRITE_QUEUE after ERR_CONF.
\<close>

theorem recv_hello_counterexample:
  "\<not> verifyRemoteAuthCert exampleApp (peerID (goodHello\<lparr>cert := \<lparr>pubkey = 9, expiration = 1000, sig = [0]\<rparr>\<rparr>))
       (cert (goodHello\<lparr>cert := \<lparr>pubkey = 9, expiration = 1000, sig = [0]\<rparr>\<rparr>)) \<and>
   (\<exists>p'. recvHello exampleApp (connectedPeer REMOTE_CALLED_US)
            (goodHello\<lparr>cert := \<lparr>pubkey = 9, expiration = 1000, sig = [0]\<rparr>\<rparr>) = Inr p' \<and>
         events p' = [EvDrop ''failed to verify auth cert'' WE_DROPPED_REMOTE IGNORE_WRITE_QUEUE]) \<and>
   isBanned exampleApp (peerID (goodHello\<lparr>peerID := 666\<rparr>)) \<and>
   (\<exists>p'. recvHello exampleApp (connectedPeer REMOTE_CALLED_US) (goodHello\<lparr>peerID := 666\<rparr>) = Inr p' \<and>
         events p' = [EvDrop ''node is banned'' WE_DROPPED_REMOTE IGNORE_WRITE_QUEUE]) \<and>
   networkID (goodHello\<lparr>networkID := 98\<rparr>) \<noteq> app_networkID exampleApp \<and>
   (\<exists>p'. recvHello exampleApp (connectedPeer WE_CALLED_REMOTE) (goodHello\<lparr>networkID := 98\<rparr>) = Inr p' \<and>
         events p' =
           [EvWire \<lparr>am_sequence = 0, am_message = MError ERR_CONF ''wrong network passphrase'', am_mac = 0\<rparr>,
            EvDrop ''wrong network passphrase'' WE_DROPPED_REMOTE IGNORE_WRITE_QUEUE])"
proof -
  have st: "state_rank (mState (connectedPeer r)) < state_rank GOT_HELLO" for r
    by (simp add: connectedPeer_def)
  have f: "events (connectedPeer r) = []" "virt_getIP (connectedPeer r) = ''10.0.0.7''"
    "mRole (connectedPeer r) = r" "virt_sendQueueIsOverloaded (connectedPeer r) = False" for r
    by (simp_all add: connectedPeer_def examplePeer_def Peer_new_def)
  have app: "verifyRemoteAuthCert exampleApp = (\<lambda>n c. sig c = [1])" "isBanned exampleApp = (\<lambda>n. n = 666)"
    "app_networkID exampleApp = 99" "NODE_SEED_publicKey exampleApp = 7"
    "OVERLAY_PROTOCOL_VERSION exampleApp = 30" "OVERLAY_PROTOCOL_MIN_VERSION exampleApp = 27"
    by (simp_all add: exampleApp_def)
  note a = recvHello_rejected [OF st, of exampleApp "goodHello\<lparr>cert := \<lparr>pubkey = 9, expiration = 1000, sig = [0]\<rparr>\<rparr>" REMOTE_CALLED_US]
  note b = recvHello_rejected [OF st, of exampleApp "goodHello\<lparr>peerID := 666\<rparr>" REMOTE_CALLED_US]
  note c = recvHello_conf_error [OF st, of exampleApp "goodHello\<lparr>networkID := 98\<rparr>" WE_CALLED_REMOTE, OF _ _ _ _ refl refl refl]
  show ?thesis
    using a b c by (simp add: f app goodHello_def) blast
qed

theorem recv_hello_handshake_failures_witness:
  "state_rank (mState (connectedPeer REMOTE_CALLED_US)) < state_rank GOT_HELLO \<and>
   peerID ourHello = NODE_SEED_publicKey exampleApp \<and>
   (\<exists>p'. recvHello exampleApp (connectedPeer REMOTE_CALLED_US) ourHello = Inr p' \<and>
         mState p' = CLOSING \<and>
         events p' =
           [EvWire \<lparr>am_sequence = 0, am_message = MHello ourHello, am_mac = 0\<rparr>,
            EvWire \<lparr>am_sequence = 0, am_message = MError ERR_CONF ''connecting to self'', am_mac = 0\<rparr>,
            EvDrop ''connecting to self'' WE_DROPPED_REMOTE FLUSH_WRITE_QUEUE]) \<and>
   (\<exists>p'. recvHello exampleApp (connectedPeer REMOTE_CALLED_US)
            (goodHello\<lparr>cert := \<lparr>pubkey = 9, expiration = 1000, sig = [0]\<rparr>\<rparr>) = Inr p' \<and>
         mState p' = CLOSING \<and>
         events p' = [EvDrop ''failed to verify auth cert'' WE_DROPPED_REMOTE IGNORE_WRITE_QUEUE])"
proof -
  have st: "state_rank (mState (connectedPeer REMOTE_CALLED_US)) < state_rank GOT_HELLO"
    by (simp add: connectedPeer_def)
  have f: "events (connectedPeer r) = []" "virt_getIP (connectedPeer r) = ''10.0.0.7''"
    "mRole (connectedPeer r) = r" "virt_sendQueueIsOverloaded (connectedPeer r) = False"
    "mSendNonce (connectedPeer r) = 4242" for r
    by (simp_all add: connectedPeer_def examplePeer_def Peer_new_def)
  have app: "verifyRemoteAuthCert exampleApp = (\<lambda>n c. sig c = [1])" "isBanned exampleApp = (\<lambda>n. n = 666)"
    "app_networkID exampleApp = 99" "NODE_SEED_publicKey exampleApp = 7"
    "OVERLAY_PROTOCOL_VERSION exampleApp = 30" "OVERLAY_PROTOCOL_MIN_VERSION exampleApp = 27"
    "LEDGER_PROTOCOL_VERSION exampleApp = 20" "VERSION_STR exampleApp = ''v20.0.2''"
    "PEER_PORT exampleApp = 11625" "getAuthCert exampleApp = \<lparr>pubkey = 5, expiration = 1000, sig = [1]\<rparr>"
    by (simp_all add: exampleApp_def)
  note a = recv_hello_handshake_failures [OF st, of exampleApp ourHello]
  note b = recv_hello_handshake_failures [OF st, of exampleApp "goodHello\<lparr>cert := \<lparr>pubkey = 9, expiration = 1000, sig = [0]\<rparr>\<rparr>"]
  show ?thesis
    using st a b by (simp add: f app goodHello_def ourHello_def)
qed

subsection \<open>Flood messages beyond the local capacity\<close>

lemma lockLocalCapacity_returns:
  assumes "lockLocalCapacity_asserts app msg c"
  shows "\<exists>c'. lockLocalCapacity app msg c =
           Inr (\<not> (isFloodMessage msg \<and> mFloodCapacity (mCapacity c) < getMsgResourceCount app c msg), c') \<and>
         mFloodCapacity (mCapacity c') =
           (if isFloodMessage msg \<and> \<not> mFloodCapacity (mCapacity c) < getMsgResourceCount app c msg
            then mFloodCapacity (mCapacity c) - getMsgResourceCount app c msg
            else mFloodCapacity (mCapacity c)) \<and>
         mTotalCapacity (mCapacity c') =
           map_option (\<lambda>t. t - getMsgResourceCount app c msg) (mTotalCapacity (mCapacity c))"
  using assms
  by (cases "mTotalCapacity (mCapacity c)")
     (auto simp: lockLocalCapacity_asserts_def lockLocalCapacity_def Let_def)

lemma FlowControl_begin_returns:
  assumes m: "lockLocalCapacity_asserts app msg (mFlowControlCapacity fc)"
    and b: "case mFlowControlBytesCapacity fc of None \<Rightarrow> True | Some b \<Rightarrow> lockLocalCapacity_asserts app msg b"
  shows "\<exists>fc'. FlowControl_beginMessageProcessing app msg fc =
           Inr (\<not> (isFloodMessage msg \<and>
                    (mFloodCapacity (mCapacity (mFlowControlCapacity fc)) <
                       getMsgResourceCount app (mFlowControlCapacity fc) msg \<or>
                     (case mFlowControlBytesCapacity fc of
                        None \<Rightarrow> False
                      | Some b \<Rightarrow> mFloodCapacity (mCapacity b) < getMsgResourceCount app b msg))), fc') \<and>
         (\<not> (isFloodMessage msg \<and>
                    (mFloodCapacity (mCapacity (mFlowControlCapacity fc)) <
                       getMsgResourceCount app (mFlowControlCapacity fc) msg \<or>
                     (case mFlowControlBytesCapacity fc of
                        None \<Rightarrow> False
                      | Some b \<Rightarrow> mFloodCapacity (mCapacity b) < getMsgResourceCount app b msg))) \<longrightarrow>
          mFloodCapacity (mCapacity (mFlowControlCapacity fc')) =
            (if isFloodMessage msg
             then mFloodCapacity (mCapacity (mFlowControlCapacity fc)) -
                    getMsgResourceCount app (mFlowControlCapacity fc) msg
             else mFloodCapacity (mCapacity (mFlowControlCapacity fc))) \<and>
          map_option (\<lambda>b. mFloodCapacity (mCapacity b)) (mFlowControlBytesCapacity fc') =
            map_option (\<lambda>b. if isFloodMessage msg
                             then mFloodCapacity (mCapacity b) - getMsgResourceCount app b msg
                             else mFloodCapacity (mCapacity b))
              (mFlowControlBytesCapacity fc))"
proof -
  from lockLocalCapacity_returns [OF m] obtain c' where
    c: "lockLocalCapacity app msg (mFlowControlCapacity fc) =
           Inr (\<not> (isFloodMessage msg \<and> mFloodCapacity (mCapacity (mFlowControlCapacity fc)) <
                     getMsgResourceCount app (mFlowControlCapacity fc) msg), c')"
    and cf: "mFloodCapacity (mCapacity c') =
           (if isFloodMessage msg \<and> \<not> mFloodCapacity (mCapacity (mFlowControlCapacity fc)) <
                  getMsgResourceCount app (mFlowControlCapacity fc) msg
            then mFloodCapacity (mCapacity (mFlowControlCapacity fc)) -
                   getMsgResourceCount app (mFlowControlCapacity fc) msg
            else mFloodCapacity (mCapacity (mFlowControlCapacity fc)))"
    by blast
  show ?thesis
  proof (cases "mFlowControlBytesCapacity fc")
    case None
    with c cf show ?thesis
      by (auto simp: FlowControl_beginMessageProcessing_def Let_def)
  next
    case (Some b0)
    with b have "lockLocalCapacity_asserts app msg b0" by simp
    from lockLocalCapacity_returns [OF this] obtain b' where
      l: "lockLocalCapacity app msg b0 =
           Inr (\<not> (isFloodMessage msg \<and> mFloodCapacity (mCapacity b0) < getMsgResourceCount app b0 msg), b')"
      and lf: "mFloodCapacity (mCapacity b') =
           (if isFloodMessage msg \<and> \<not> mFloodCapacity (mCapacity b0) < getMsgResourceCount app b0 msg
            then mFloodCapacity (mCapacity b0) - getMsgResourceCount app b0 msg
            else mFloodCapacity (mCapacity b0))"
      by blast
    from Some c cf l lf show ?thesis
      by (auto simp: FlowControl_beginMessageProcessing_def Let_def)
  qed
qed

text \<open>
  C4. When the processing of a received message begins on a connection that is not CLOSING
  (and the assertions of \<^verbatim>\<open>lockLocalCapacity\<close> hold): if the message is a flood message and the
  flood capacity of the message axis, or of the byte axis when it is enabled, is smaller than
  the cost of the message on that axis, the connection is dropped with "unexpected flood
  message, peer at capacity" and IGNORE_WRITE_QUEUE; otherwise a flood message decrements the
  flood capacity of every enabled axis by its cost; and a message that is not a flood message
  never causes the drop and leaves the flood capacities as they are.
\<close>

theorem flood_message_at_capacity:
  assumes nc: "mState p \<noteq> CLOSING"
    and m: "lockLocalCapacity_asserts app msg (mFlowControlCapacity (mFlowControl p))"
    and b: "case mFlowControlBytesCapacity (mFlowControl p) of
              None \<Rightarrow> True | Some b \<Rightarrow> lockLocalCapacity_asserts app msg b"
  shows "\<exists>p'. beginMessageProcessing app p msg = Inr p' \<and>
      (if isFloodMessage msg \<and>
          (mFloodCapacity (mCapacity (mFlowControlCapacity (mFlowControl p))) <
             getMsgResourceCount app (mFlowControlCapacity (mFlowControl p)) msg \<or>
           (case mFlowControlBytesCapacity (mFlowControl p) of
              None \<Rightarrow> False
            | Some b \<Rightarrow> mFloodCapacity (mCapacity b) < getMsgResourceCount app b msg))
       then mState p' = CLOSING \<and>
            events p' = events p @
              [EvDrop ''unexpected flood message, peer at capacity'' WE_DROPPED_REMOTE IGNORE_WRITE_QUEUE]
       else mState p' = mState p \<and> events p' = events p \<and>
            mFloodCapacity (mCapacity (mFlowControlCapacity (mFlowControl p'))) =
              (if isFloodMessage msg
               then mFloodCapacity (mCapacity (mFlowControlCapacity (mFlowControl p))) -
                      getMsgResourceCount app (mFlowControlCapacity (mFlowControl p)) msg
               else mFloodCapacity (mCapacity (mFlowControlCapacity (mFlowControl p)))) \<and>
            map_option (\<lambda>b. mFloodCapacity (mCapacity b)) (mFlowControlBytesCapacity (mFlowControl p')) =
              map_option (\<lambda>b. if isFloodMessage msg
                               then mFloodCapacity (mCapacity b) - getMsgResourceCount app b msg
                               else mFloodCapacity (mCapacity b))
                (mFlowControlBytesCapacity (mFlowControl p)))"
proof -
  let ?short = "isFloodMessage msg \<and>
          (mFloodCapacity (mCapacity (mFlowControlCapacity (mFlowControl p))) <
             getMsgResourceCount app (mFlowControlCapacity (mFlowControl p)) msg \<or>
           (case mFlowControlBytesCapacity (mFlowControl p) of
              None \<Rightarrow> False
            | Some b \<Rightarrow> mFloodCapacity (mCapacity b) < getMsgResourceCount app b msg))"
  from FlowControl_begin_returns [OF m b] obtain fc' where
    r: "FlowControl_beginMessageProcessing app msg (mFlowControl p) = Inr (\<not> ?short, fc')"
    and k: "\<not> ?short \<longrightarrow>
          mFloodCapacity (mCapacity (mFlowControlCapacity fc')) =
            (if isFloodMessage msg
             then mFloodCapacity (mCapacity (mFlowControlCapacity (mFlowControl p))) -
                    getMsgResourceCount app (mFlowControlCapacity (mFlowControl p)) msg
             else mFloodCapacity (mCapacity (mFlowControlCapacity (mFlowControl p)))) \<and>
          map_option (\<lambda>b. mFloodCapacity (mCapacity b)) (mFlowControlBytesCapacity fc') =
            map_option (\<lambda>b. if isFloodMessage msg
                             then mFloodCapacity (mCapacity b) - getMsgResourceCount app b msg
                             else mFloodCapacity (mCapacity b))
              (mFlowControlBytesCapacity (mFlowControl p))"
    by blast
  show ?thesis
  proof (cases ?short)
    case True
    with r have "beginMessageProcessing app p msg =
        Inr (dropPeer (p\<lparr>mFlowControl := fc'\<rparr>) ''unexpected flood message, peer at capacity''
               WE_DROPPED_REMOTE IGNORE_WRITE_QUEUE)"
      by (simp add: beginMessageProcessing_def)
    with True nc show ?thesis by (simp add: dropPeer_events)
  next
    case False
    with r have "beginMessageProcessing app p msg = Inr (p\<lparr>mFlowControl := fc'\<rparr>)"
      by (simp add: beginMessageProcessing_def)
    with False k show ?thesis by simp
  qed
qed

theorem flood_message_at_capacity_witness:
  "mState exhaustedPeer \<noteq> CLOSING \<and>
   isFloodMessage (MTransaction [1, 2, 3]) \<and>
   (\<exists>p'. beginMessageProcessing exampleApp exhaustedPeer (MTransaction [1, 2, 3]) = Inr p' \<and>
         mState p' = CLOSING \<and>
         events p' = [EvDrop ''unexpected flood message, peer at capacity'' WE_DROPPED_REMOTE IGNORE_WRITE_QUEUE]) \<and>
   (\<exists>p'. beginMessageProcessing exampleApp bytesPeer (MTransaction [1, 2, 3]) = Inr p' \<and>
         mState p' = GOT_AUTH \<and> events p' = [] \<and>
         mFloodCapacity (mCapacity (mFlowControlCapacity (mFlowControl p'))) = 199 \<and>
         map_option (\<lambda>b. mFloodCapacity (mCapacity b)) (mFlowControlBytesCapacity (mFlowControl p')) =
           Some 299880) \<and>
   \<not> isFloodMessage MGetPeers \<and>
   (\<exists>p'. beginMessageProcessing exampleApp exhaustedPeer MGetPeers = Inr p' \<and>
         mState p' = GOT_AUTH \<and> events p' = [] \<and>
         mFloodCapacity (mCapacity (mFlowControlCapacity (mFlowControl p'))) = 0)"
proof -
  have app: "PEER_FLOOD_READING_CAPACITY exampleApp = 200" "PEER_READING_CAPACITY exampleApp = 201"
    "flowControlBytesTotal exampleApp = 300000" "xdr_size exampleApp = (\<lambda>m. 120)"
    by (simp_all add: exampleApp_def)
  have a: "mState authPeer = GOT_AUTH" "events authPeer = []"
    "mFlowControl authPeer = FlowControl_new exampleApp"
    by (simp_all add: authPeer_def examplePeer_def Peer_new_def)
  have e: "mState exhaustedPeer = GOT_AUTH" "events exhaustedPeer = []"
    "mFlowControlBytesCapacity (mFlowControl exhaustedPeer) = None"
    "mFlowControlCapacity (mFlowControl exhaustedPeer) =
       (FlowControlMessageCapacity exampleApp)\<lparr>mCapacity := \<lparr>mFloodCapacity = 0, mTotalCapacity = Some 1\<rparr>\<rparr>"
    by (simp_all add: exhaustedPeer_def a FlowControl_new_def)
  have b: "mState bytesPeer = GOT_AUTH" "events bytesPeer = []"
    "mFlowControlBytesCapacity (mFlowControl bytesPeer) = Some (FlowControlByteCapacity exampleApp)"
    "mFlowControlCapacity (mFlowControl bytesPeer) = FlowControlMessageCapacity exampleApp"
    by (simp_all add: bytesPeer_def a FlowControl_new_def)
  have fl: "isFloodMessage (MTransaction [1, 2, 3])" "\<not> isFloodMessage MGetPeers"
    by (simp_all add: isFloodMessage_def)
  have as: "lockLocalCapacity_asserts exampleApp msg (FlowControlMessageCapacity exampleApp)"
    "lockLocalCapacity_asserts exampleApp msg (FlowControlByteCapacity exampleApp)"
    "lockLocalCapacity_asserts exampleApp msg
       ((FlowControlMessageCapacity exampleApp)\<lparr>mCapacity := \<lparr>mFloodCapacity = 0, mTotalCapacity = Some 1\<rparr>\<rparr>)"
    for msg
    by (simp_all add: lockLocalCapacity_asserts_def checkCapacityInvariants_def getCapacityLimits_def
        getMsgResourceCount_def FlowControlMessageCapacity_def FlowControlByteCapacity_def app)
  have cost: "getMsgResourceCount exampleApp (FlowControlMessageCapacity exampleApp) msg = 1"
    "getMsgResourceCount exampleApp (FlowControlByteCapacity exampleApp) msg = 120"
    "getMsgResourceCount exampleApp
       ((FlowControlMessageCapacity exampleApp)\<lparr>mCapacity := \<lparr>mFloodCapacity = 0, mTotalCapacity = Some 1\<rparr>\<rparr>) msg = 1"
    "mFloodCapacity (mCapacity (FlowControlMessageCapacity exampleApp)) = 200"
    "mFloodCapacity (mCapacity (FlowControlByteCapacity exampleApp)) = 300000"
    for msg
    by (simp_all add: getMsgResourceCount_def FlowControlMessageCapacity_def FlowControlByteCapacity_def app)
  have nc: "mState exhaustedPeer \<noteq> CLOSING" "mState bytesPeer \<noteq> CLOSING"
    by (simp_all add: e b)
  note w1 = flood_message_at_capacity [OF nc(1), of exampleApp "MTransaction [1, 2, 3]"]
  note w2 = flood_message_at_capacity [OF nc(2), of exampleApp "MTransaction [1, 2, 3]"]
  note w3 = flood_message_at_capacity [OF nc(1), of exampleApp MGetPeers]
  show ?thesis
    using w1 w2 w3 by (simp add: e b fl as cost) blast
qed

subsection \<open>The capacity tracker\<close>

lemma lock_release_roundtrip:
  assumes a: "lockLocalCapacity_asserts app msg c"
    and l: "lockLocalCapacity app msg c = Inr (True, c1)"
  shows "releaseLocalCapacity app msg c1 =
           Inr (if isFloodMessage msg then getMsgResourceCount app c msg else 0, c)"
proof -
  from a have inv: "checkCapacityInvariants app c" by (simp add: lockLocalCapacity_asserts_def)
  have cost: "getMsgResourceCount app c1 msg = getMsgResourceCount app c msg"
    using l inv
    by (auto simp: lockLocalCapacity_def getMsgResourceCount_def Let_def
        split: option.splits if_splits sum.splits)
  show ?thesis
  proof (cases "mTotalCapacity (mCapacity c)")
    case None
    with l inv have c1: "c1 = (if isFloodMessage msg
        then c\<lparr>mCapacity := (mCapacity c)\<lparr>mFloodCapacity :=
               mFloodCapacity (mCapacity c) - getMsgResourceCount app c msg\<rparr>\<rparr> else c)"
      by (auto simp: lockLocalCapacity_def Let_def split: if_splits)
    show ?thesis
      using None inv cost unfolding c1
      by (simp add: releaseLocalCapacity_def Let_def)
  next
    case (Some t)
    with l inv a have c1: "c1 = (if isFloodMessage msg
        then c\<lparr>mCapacity := (mCapacity c)\<lparr>mTotalCapacity := Some (t - getMsgResourceCount app c msg),
               mFloodCapacity := mFloodCapacity (mCapacity c) - getMsgResourceCount app c msg\<rparr>\<rparr>
        else c\<lparr>mCapacity := (mCapacity c)\<lparr>mTotalCapacity := Some (t - getMsgResourceCount app c msg)\<rparr>\<rparr>)"
      by (auto simp: lockLocalCapacity_def lockLocalCapacity_asserts_def Let_def split: if_splits)
    have restore: "(mCapacity c)\<lparr>mTotalCapacity := Some t\<rparr> = mCapacity c"
      using Some by (cases "mCapacity c") simp
    show ?thesis
      using Some inv cost unfolding c1
      by (simp add: releaseLocalCapacity_def Let_def restore)
  qed
qed

lemma FlowControl_roundtrip:
  assumes m: "lockLocalCapacity_asserts app msg (mFlowControlCapacity fc)"
    and b: "case mFlowControlBytesCapacity fc of None \<Rightarrow> True | Some b \<Rightarrow> lockLocalCapacity_asserts app msg b"
    and l: "FlowControl_beginMessageProcessing app msg fc = Inr (True, fc1)"
  shows "FlowControl_endMessageProcessing app msg fc1 = Inr fc"
proof -
  from l obtain c1 where
    lm: "lockLocalCapacity app msg (mFlowControlCapacity fc) = Inr (True, c1)"
    by (auto simp: FlowControl_beginMessageProcessing_def Let_def split: sum.splits prod.splits if_splits)
  from lock_release_roundtrip [OF m lm] have
    rm: "releaseLocalCapacity app msg c1 =
           Inr (if isFloodMessage msg then getMsgResourceCount app (mFlowControlCapacity fc) msg else 0,
                mFlowControlCapacity fc)" .
  show ?thesis
  proof (cases "mFlowControlBytesCapacity fc")
    case None
    with l lm have "fc1 = fc\<lparr>mFlowControlCapacity := c1\<rparr>"
      by (simp add: FlowControl_beginMessageProcessing_def Let_def)
    with rm None show ?thesis
      by (simp add: FlowControl_endMessageProcessing_def Let_def)
  next
    case (Some b0)
    with b have ab: "lockLocalCapacity_asserts app msg b0" by simp
    from l lm Some obtain b1 where
      lb: "lockLocalCapacity app msg b0 = Inr (True, b1)" and
      f: "fc1 = fc\<lparr>mFlowControlCapacity := c1, mFlowControlBytesCapacity := Some b1\<rparr>"
      by (auto simp: FlowControl_beginMessageProcessing_def Let_def split: sum.splits prod.splits)
    from lock_release_roundtrip [OF ab lb] have
      rb: "releaseLocalCapacity app msg b1 =
             Inr (if isFloodMessage msg then getMsgResourceCount app b0 msg else 0, b0)" .
    have "fc\<lparr>mFlowControlCapacity := mFlowControlCapacity fc, mFlowControlBytesCapacity := Some b0\<rparr> = fc"
      using Some by (cases fc) simp
    with rm rb show ?thesis
      unfolding f by (simp add: FlowControl_endMessageProcessing_def Let_def)
  qed
qed

lemma word_ge_one_pos: "(1 :: 'a :: len word) \<le> t \<Longrightarrow> 0 < t"
  by (metis word_gt_0 word_le_0_iff zero_neq_one)

lemma FlowControl_canRead_asserts:
  assumes wf: "flowControl_wellformed fc"
    and m: "lockLocalCapacity_asserts app msg (mFlowControlCapacity fc)"
    and b: "case mFlowControlBytesCapacity fc of None \<Rightarrow> True | Some b \<Rightarrow> lockLocalCapacity_asserts app msg b"
  shows "FlowControl_canRead fc = Inr True"
proof -
  from wf have ax: "axis (mFlowControlCapacity fc) = MessageAxis"
    by (simp add: flowControl_wellformed_def)
  from m ax obtain t where t: "mTotalCapacity (mCapacity (mFlowControlCapacity fc)) = Some t" "1 \<le> t"
    by (auto simp: lockLocalCapacity_asserts_def checkCapacityInvariants_def getCapacityLimits_def
        getMsgResourceCount_def split: option.splits)
  then have rm: "capacity_canRead (mFlowControlCapacity fc) = Inr True"
    using ax by (simp add: capacity_canRead_def word_ge_one_pos)
  show ?thesis
  proof (cases "mFlowControlBytesCapacity fc")
    case None
    with rm show ?thesis by (simp add: FlowControl_canRead_def)
  next
    case (Some b0)
    with wf b have "axis b0 = ByteAxis" "mTotalCapacity (mCapacityLimits b0) = None"
      "checkCapacityInvariants app b0"
      by (simp_all add: flowControl_wellformed_def lockLocalCapacity_asserts_def)
    then have "capacity_canRead b0 = Inr True"
      by (simp add: capacity_canRead_def checkCapacityInvariants_def getCapacityLimits_def)
    with rm Some show ?thesis by (simp add: FlowControl_canRead_def)
  qed
qed

lemma endMessageProcessing_returns_capacity:
  assumes live: "\<not> shouldAbort app q"
    and e: "FlowControl_endMessageProcessing app msg (mFlowControl q) = Inr fc"
    and r: "FlowControl_canRead fc = Inr True"
  shows "\<exists>q2. endMessageProcessing app q msg = Inr q2 \<and> mFlowControl q2 = fc \<and> mState q2 = mState q"
  using live e r by (simp add: endMessageProcessing_def canRead_def)

lemma beginMessageProcessing_locks:
  assumes m: "lockLocalCapacity_asserts app msg (mFlowControlCapacity (mFlowControl p))"
    and b: "case mFlowControlBytesCapacity (mFlowControl p) of
              None \<Rightarrow> True | Some b \<Rightarrow> lockLocalCapacity_asserts app msg b"
    and enough: "\<not> (isFloodMessage msg \<and>
          (mFloodCapacity (mCapacity (mFlowControlCapacity (mFlowControl p))) <
             getMsgResourceCount app (mFlowControlCapacity (mFlowControl p)) msg \<or>
           (case mFlowControlBytesCapacity (mFlowControl p) of
              None \<Rightarrow> False
            | Some b \<Rightarrow> mFloodCapacity (mCapacity b) < getMsgResourceCount app b msg)))"
  shows "\<exists>fc1. FlowControl_beginMessageProcessing app msg (mFlowControl p) = Inr (True, fc1) \<and>
               beginMessageProcessing app p msg = Inr (p\<lparr>mFlowControl := fc1\<rparr>)"
proof -
  from FlowControl_begin_returns [OF m b] enough obtain fc1 where
    "FlowControl_beginMessageProcessing app msg (mFlowControl p) = Inr (True, fc1)"
    by auto
  then show ?thesis by (simp add: beginMessageProcessing_def)
qed

text \<open>
  C5 (as amended). For an inbound message that is neither HELLO nor AUTH, received while the
  session is not aborting and the local capacity suffices: the capacity tracker is created,
  and with it the capacity locked, before the message is dispatched (posted to the main
  thread) or discarded; when the tracker is destroyed while its peer exists and the session
  is not aborting, the flow control windows are again what they were before the message; in
  particular when the message is discarded at once because the ledger is not synced and the
  category is ignored out of sync.
\<close>

theorem capacity_returned_on_destruction:
  assumes live: "\<not> shouldAbort app p"
    and nh: "msg_type msg \<noteq> HELLO \<and> msg_type msg \<noteq> AUTH"
    and wf: "flowControl_wellformed (mFlowControl p)"
    and m: "lockLocalCapacity_asserts app msg (mFlowControlCapacity (mFlowControl p))"
    and b: "case mFlowControlBytesCapacity (mFlowControl p) of
              None \<Rightarrow> True | Some b \<Rightarrow> lockLocalCapacity_asserts app msg b"
    and enough: "\<not> (isFloodMessage msg \<and>
          (mFloodCapacity (mCapacity (mFlowControlCapacity (mFlowControl p))) <
             getMsgResourceCount app (mFlowControlCapacity (mFlowControl p)) msg \<or>
           (case mFlowControlBytesCapacity (mFlowControl p) of
              None \<Rightarrow> False
            | Some b \<Rightarrow> mFloodCapacity (mCapacity b) < getMsgResourceCount app b msg)))"
  shows "\<exists>p1. MsgCapacityTracker_ctor app (Some p) msg = Inr p1 \<and>
      mState p1 = mState p \<and> events p1 = events p \<and>
      recvMessage app p msg =
        (if \<not> isSynced app \<and> snd (snd (message_category (msg_type msg)))
         then endMessageProcessing app p1 msg
         else Inr (p1\<lparr>events := events p @
                 [EvPostRecv msg (fst (message_category (msg_type msg)) @ '' recvMessage'')
                    (fst (snd (message_category (msg_type msg))))]\<rparr>)) \<and>
      (\<forall>q. \<not> shouldAbort app q \<and> mFlowControl q = mFlowControl p1 \<longrightarrow>
         (\<exists>q2. MsgCapacityTracker_dtor app (Some q) msg = Inr (Some q2) \<and>
               mFlowControl q2 = mFlowControl p)) \<and>
      (\<not> isSynced app \<and> snd (snd (message_category (msg_type msg))) \<longrightarrow>
         (\<exists>p'. recvMessage app p msg = Inr p' \<and> mFlowControl p' = mFlowControl p))"
proof -
  from beginMessageProcessing_locks [OF m b enough] obtain fc1 where
    l: "FlowControl_beginMessageProcessing app msg (mFlowControl p) = Inr (True, fc1)" and
    bp: "beginMessageProcessing app p msg = Inr (p\<lparr>mFlowControl := fc1\<rparr>)"
    by blast
  let ?p1 = "p\<lparr>mFlowControl := fc1\<rparr>"
  have ctor: "MsgCapacityTracker_ctor app (Some p) msg = Inr ?p1"
    using bp by (simp add: MsgCapacityTracker_ctor_def)
  have e: "FlowControl_endMessageProcessing app msg fc1 = Inr (mFlowControl p)"
    using m b l by (rule FlowControl_roundtrip)
  have r: "FlowControl_canRead (mFlowControl p) = Inr True"
    using wf m b by (rule FlowControl_canRead_asserts)
  have ret: "\<exists>q2. endMessageProcessing app q msg = Inr q2 \<and> mFlowControl q2 = mFlowControl p \<and>
                  mState q2 = mState q"
    if "\<not> shouldAbort app q" and "mFlowControl q = fc1" for q
    using that e r endMessageProcessing_returns_capacity [of app q msg "mFlowControl p"] by simp
  have dtor: "\<forall>q. \<not> shouldAbort app q \<and> mFlowControl q = mFlowControl ?p1 \<longrightarrow>
         (\<exists>q2. MsgCapacityTracker_dtor app (Some q) msg = Inr (Some q2) \<and>
               mFlowControl q2 = mFlowControl p)"
  proof (intro allI impI)
    fix q assume q: "\<not> shouldAbort app q \<and> mFlowControl q = mFlowControl ?p1"
    then have "\<exists>q2. endMessageProcessing app q msg = Inr q2 \<and> mFlowControl q2 = mFlowControl p \<and>
                  mState q2 = mState q"
      using ret [of q] by simp
    then show "\<exists>q2. MsgCapacityTracker_dtor app (Some q) msg = Inr (Some q2) \<and>
               mFlowControl q2 = mFlowControl p"
      by (auto simp: MsgCapacityTracker_dtor_def)
  qed
  have rm: "recvMessage app p msg =
        (if \<not> isSynced app \<and> snd (snd (message_category (msg_type msg)))
         then endMessageProcessing app ?p1 msg
         else Inr (?p1\<lparr>events := events p @
                 [EvPostRecv msg (fst (message_category (msg_type msg)) @ '' recvMessage'')
                    (fst (snd (message_category (msg_type msg))))]\<rparr>))"
    using live nh ctor
    by (cases "message_category (msg_type msg)") (simp add: recvMessage_def)
  have live1: "\<not> shouldAbort app ?p1" using live by (simp add: shouldAbort_def)
  have disc: "\<not> isSynced app \<and> snd (snd (message_category (msg_type msg))) \<longrightarrow>
         (\<exists>p'. recvMessage app p msg = Inr p' \<and> mFlowControl p' = mFlowControl p)"
    using rm ret [OF live1] by auto
  from ctor rm dtor disc show ?thesis by auto
qed

text \<open>
  The claim as stated fails when the session is aborting as the tracker is destroyed: a flood
  message that finds no flood capacity has consumed one unit of the total capacity, the
  connection is dropped by the creation of the tracker, and \<^verbatim>\<open>endMessageProcessing\<close> returns
  at once for a CLOSING connection.
\<close>

theorem capacity_not_returned_counterexample:
  "\<not> shouldAbort (exampleApp\<lparr>isSynced := False\<rparr>) exhaustedPeer \<and>
   msg_type (MTransaction [1, 2, 3]) \<noteq> HELLO \<and> msg_type (MTransaction [1, 2, 3]) \<noteq> AUTH \<and>
   mCapacity (mFlowControlCapacity (mFlowControl exhaustedPeer)) =
     \<lparr>mFloodCapacity = 0, mTotalCapacity = Some 1\<rparr> \<and>
   (\<exists>p'. recvMessage (exampleApp\<lparr>isSynced := False\<rparr>) exhaustedPeer (MTransaction [1, 2, 3]) = Inr p' \<and>
         mState p' = CLOSING \<and>
         mCapacity (mFlowControlCapacity (mFlowControl p')) =
           \<lparr>mFloodCapacity = 0, mTotalCapacity = Some 0\<rparr>)"
proof -
  have app: "PEER_FLOOD_READING_CAPACITY (exampleApp\<lparr>isSynced := False\<rparr>) = 200"
    "PEER_READING_CAPACITY (exampleApp\<lparr>isSynced := False\<rparr>) = 201"
    "isShuttingDown (exampleApp\<lparr>isSynced := False\<rparr>) = False"
    by (simp_all add: exampleApp_def)
  have a: "mState authPeer = GOT_AUTH" "mFlowControl authPeer = FlowControl_new exampleApp"
    by (simp_all add: authPeer_def examplePeer_def Peer_new_def)
  have e: "mState exhaustedPeer = GOT_AUTH"
    "mFlowControl exhaustedPeer =
       \<lparr>mFlowControlCapacity =
          \<lparr>axis = MessageAxis, mCapacity = \<lparr>mFloodCapacity = 0, mTotalCapacity = Some 1\<rparr>,
           mCapacityLimits = \<lparr>mFloodCapacity = 200, mTotalCapacity = Some 201\<rparr>,
           mOutboundCapacity = 0\<rparr>,
        mFlowControlBytesCapacity = None, mNoOutboundCapacity = None\<rparr>"
    by (simp_all add: exhaustedPeer_def a FlowControl_new_def FlowControlMessageCapacity_def exampleApp_def)
  have fl: "isFloodMessage (MTransaction [1, 2, 3])" by (simp add: isFloodMessage_def)
  have lk: "FlowControl_beginMessageProcessing (exampleApp\<lparr>isSynced := False\<rparr>) (MTransaction [1, 2, 3])
        (mFlowControl exhaustedPeer) =
      Inr (False, (mFlowControl exhaustedPeer)\<lparr>mFlowControlCapacity :=
        \<lparr>axis = MessageAxis, mCapacity = \<lparr>mFloodCapacity = 0, mTotalCapacity = Some 0\<rparr>,
           mCapacityLimits = \<lparr>mFloodCapacity = 200, mTotalCapacity = Some 201\<rparr>,
           mOutboundCapacity = 0\<rparr>\<rparr>)"
    by (simp add: e FlowControl_beginMessageProcessing_def lockLocalCapacity_def
        checkCapacityInvariants_def getCapacityLimits_def getMsgResourceCount_def fl app Let_def)
  have cat: "message_category TRANSACTION = (''TX'', DROPPABLE_ACTION, True)"
    by (simp add: message_category_def)
  show ?thesis
    by (simp add: recvMessage_def MsgCapacityTracker_ctor_def beginMessageProcessing_def lk
        shouldAbort_def app cat endMessageProcessing_def e(1))
       (simp add: e)
qed

theorem capacity_returned_on_destruction_witness:
  "\<not> shouldAbort exampleApp authPeer \<and>
   msg_type (MTransaction [1, 2, 3]) \<noteq> HELLO \<and> msg_type (MTransaction [1, 2, 3]) \<noteq> AUTH \<and>
   (\<exists>p'. recvMessage (exampleApp\<lparr>isSynced := False\<rparr>) authPeer (MTransaction [1, 2, 3]) = Inr p' \<and>
         mFlowControl p' = mFlowControl authPeer) \<and>
   (\<exists>p1. MsgCapacityTracker_ctor exampleApp (Some authPeer) (MTransaction [1, 2, 3]) = Inr p1 \<and>
         recvMessage exampleApp authPeer (MTransaction [1, 2, 3]) =
           Inr (p1\<lparr>events := [EvPostRecv (MTransaction [1, 2, 3]) ''TX recvMessage'' DROPPABLE_ACTION]\<rparr>) \<and>
         (\<exists>q2. MsgCapacityTracker_dtor exampleApp (Some p1) (MTransaction [1, 2, 3]) = Inr (Some q2) \<and>
               mFlowControl q2 = mFlowControl authPeer))"
proof -
  let ?tx = "MTransaction [1, 2, 3]"
  let ?off = "exampleApp\<lparr>isSynced := False\<rparr>"
  have app: "PEER_FLOOD_READING_CAPACITY exampleApp = 200" "PEER_READING_CAPACITY exampleApp = 201"
    "isShuttingDown exampleApp = False" "isSynced exampleApp = True"
    "PEER_FLOOD_READING_CAPACITY ?off = 200" "PEER_READING_CAPACITY ?off = 201"
    "isShuttingDown ?off = False" "isSynced ?off = False"
    by (simp_all add: exampleApp_def)
  have a: "mState authPeer = GOT_AUTH" "events authPeer = []"
    "mFlowControl authPeer =
       \<lparr>mFlowControlCapacity =
          \<lparr>axis = MessageAxis, mCapacity = \<lparr>mFloodCapacity = 200, mTotalCapacity = Some 201\<rparr>,
           mCapacityLimits = \<lparr>mFloodCapacity = 200, mTotalCapacity = Some 201\<rparr>,
           mOutboundCapacity = 0\<rparr>,
        mFlowControlBytesCapacity = None, mNoOutboundCapacity = None\<rparr>"
    by (simp_all add: authPeer_def examplePeer_def Peer_new_def FlowControl_new_def
        FlowControlMessageCapacity_def exampleApp_def)
  have live: "\<not> shouldAbort exampleApp authPeer" "\<not> shouldAbort ?off authPeer"
    by (simp_all add: shouldAbort_def a app)
  have nh: "msg_type ?tx \<noteq> HELLO \<and> msg_type ?tx \<noteq> AUTH" by simp
  have wf: "flowControl_wellformed (mFlowControl authPeer)"
    by (simp add: flowControl_wellformed_def a)
  have m: "lockLocalCapacity_asserts exampleApp ?tx (mFlowControlCapacity (mFlowControl authPeer))"
    "lockLocalCapacity_asserts ?off ?tx (mFlowControlCapacity (mFlowControl authPeer))"
    by (simp_all add: lockLocalCapacity_asserts_def checkCapacityInvariants_def getCapacityLimits_def
        getMsgResourceCount_def a app)
  have b: "case mFlowControlBytesCapacity (mFlowControl authPeer) of
              None \<Rightarrow> True | Some b \<Rightarrow> lockLocalCapacity_asserts ap ?tx b" for ap
    by (simp add: a)
  have enough: "\<not> (isFloodMessage ?tx \<and>
          (mFloodCapacity (mCapacity (mFlowControlCapacity (mFlowControl authPeer))) <
             getMsgResourceCount ap (mFlowControlCapacity (mFlowControl authPeer)) ?tx \<or>
           (case mFlowControlBytesCapacity (mFlowControl authPeer) of
              None \<Rightarrow> False
            | Some b \<Rightarrow> mFloodCapacity (mCapacity b) < getMsgResourceCount ap b ?tx)))" for ap
    by (simp add: a getMsgResourceCount_def)
  have cat: "message_category (msg_type ?tx) = (''TX'', DROPPABLE_ACTION, True)"
    by (simp add: message_category_def)
  from capacity_returned_on_destruction [OF live(2) nh wf m(2) b enough]
  have w1: "\<exists>p'. recvMessage ?off authPeer ?tx = Inr p' \<and> mFlowControl p' = mFlowControl authPeer"
    unfolding cat by (auto simp: app)
  from capacity_returned_on_destruction [OF live(1) nh wf m(1) b enough]
  obtain p1 where
    c: "MsgCapacityTracker_ctor exampleApp (Some authPeer) ?tx = Inr p1" and
    s1: "mState p1 = mState authPeer" and
    rm: "recvMessage exampleApp authPeer ?tx =
           Inr (p1\<lparr>events := [EvPostRecv ?tx ''TX recvMessage'' DROPPABLE_ACTION]\<rparr>)" and
    d: "\<forall>q. \<not> shouldAbort exampleApp q \<and> mFlowControl q = mFlowControl p1 \<longrightarrow>
         (\<exists>q2. MsgCapacityTracker_dtor exampleApp (Some q) ?tx = Inr (Some q2) \<and>
               mFlowControl q2 = mFlowControl authPeer)"
    unfolding cat by (auto simp: app a)
  have "\<not> shouldAbort exampleApp p1" using s1 by (simp add: shouldAbort_def a app)
  with d have "\<exists>q2. MsgCapacityTracker_dtor exampleApp (Some p1) ?tx = Inr (Some q2) \<and>
               mFlowControl q2 = mFlowControl authPeer"
    by blast
  with live nh w1 c rm show ?thesis by blast
qed

subsection \<open>Byte-axis flow control is negotiated in AUTH\<close>

lemma sendMessage_address [simp]:
  "mAddress (sendMessage app p msg) = mAddress p"
  by (simp add: sendMessage_def sendAuthenticatedMessage_def Let_def)

lemma sendAuth_frame2 [simp]:
  "mAddress (sendAuth app p) = mAddress p"
  "mFlowControl (sendAuth app p) = mFlowControl p"
  "mRemoteOverlayVersion (sendAuth app p) = mRemoteOverlayVersion p"
  "mRole (sendAuth app p) = mRole p"
  by (simp_all add: sendAuth_def)

lemma sendGetScpState_flow [simp]:
  "mFlowControl (sendGetScpState app p n) = mFlowControl p"
  by (simp add: sendGetScpState_def)

lemma recvAuth_startFlowControl_flow:
  "mFlowControl (recvAuth_startFlowControl app p flags) =
     snd (FlowControl_start app
       (OVERLAY_PROTOCOL_VERSION app \<ge> FIRST_VERSION_SUPPORTING_FLOW_CONTROL_IN_BYTES \<and>
        mRemoteOverlayVersion p \<ge> FIRST_VERSION_SUPPORTING_FLOW_CONTROL_IN_BYTES \<and>
        flags = AUTH_MSG_FLAG_FLOW_CONTROL_BYTES_REQUESTED app \<and> ENABLE_FLOW_CONTROL_BYTES app)
       (mFlowControl p))"
  by (simp add: recvAuth_startFlowControl_def Let_def conj_assoc)

lemma FlowControl_start_axes:
  "mFlowControlCapacity (snd (FlowControl_start app en fc)) = FlowControlMessageCapacity app"
  "mFlowControlBytesCapacity (snd (FlowControl_start app en fc)) =
     (if en then Some (FlowControlByteCapacity app) else mFlowControlBytesCapacity fc)"
  by (simp_all add: FlowControl_start_def)

text \<open>The state in which \<^verbatim>\<open>recvAuth\<close> asks the overlay manager to accept the peer.\<close>

lemma recvAuth_before_accept:
  assumes st: "mState p = GOT_HELLO"
    and addr: "mAddress p \<noteq> EmptyAddress"
    and peers: "length (getPeersToSend app (min 50 (peers_max_size app)) (mAddress p))
                 \<le> min 50 (peers_max_size app)"
  shows "\<exists>p3. mFlowControl p3 = mFlowControl p \<and> mRemoteOverlayVersion p3 = mRemoteOverlayVersion p \<and>
      mState p3 = GOT_AUTH \<and>
      recvAuth app p flags =
        (if \<not> acceptAuthenticatedPeer app
         then Inr (sendErrorAndDrop app p3 ERR_LOAD ''peer rejected'' FLUSH_WRITE_QUEUE)
         else Inr (recvAuth_startFlowControl app p3 flags))"
proof -
  let ?p1 = "p\<lparr>mState := GOT_AUTH\<rparr>"
  have na: "\<not> isAuthenticated p" using st by (simp add: isAuthenticated_def)
  show ?thesis
  proof (cases "mRole p = REMOTE_CALLED_US")
    case True
    let ?pa = "sendAuth app ?p1"
    have sp: "sendPeers app ?pa =
        Inr (if getPeersToSend app (min 50 (peers_max_size app)) (mAddress p) \<noteq> []
             then sendMessage app ?pa (MPeers (getPeersToSend app (min 50 (peers_max_size app)) (mAddress p)))
             else ?pa)"
      using peers by (simp add: sendPeers_def Let_def)
    let ?p2 = "if getPeersToSend app (min 50 (peers_max_size app)) (mAddress p) \<noteq> []
             then sendMessage app ?pa (MPeers (getPeersToSend app (min 50 (peers_max_size app)) (mAddress p)))
             else ?pa"
    have p2: "mAddress ?p2 = mAddress p" "mFlowControl ?p2 = mFlowControl p"
      "mRemoteOverlayVersion ?p2 = mRemoteOverlayVersion p" "mState ?p2 = GOT_AUTH" "mRole ?p2 = mRole p"
      by simp_all
    have up: "updatePeerRecordAfterAuthentication ?p2 = Inr ?p2"
      using addr True p2 by (simp add: updatePeerRecordAfterAuthentication_def del: sendMessage_address)
    have "recvAuth app p flags =
        (if \<not> acceptAuthenticatedPeer app
         then Inr (sendErrorAndDrop app ?p2 ERR_LOAD ''peer rejected'' FLUSH_WRITE_QUEUE)
         else Inr (recvAuth_startFlowControl app ?p2 flags))"
      using st na True sp up unfolding recvAuth_def by (simp split del: if_split)
    with p2 show ?thesis by blast
  next
    case False
    let ?p3 = "if mRole p = WE_CALLED_REMOTE
               then ?p1\<lparr>events := events p @ [EvBackOffReset (mAddress p)]\<rparr> else ?p1"
    have up: "updatePeerRecordAfterAuthentication ?p1 = Inr ?p3"
      using addr by (simp add: updatePeerRecordAfterAuthentication_def)
    have p3: "mFlowControl ?p3 = mFlowControl p" "mRemoteOverlayVersion ?p3 = mRemoteOverlayVersion p"
      "mState ?p3 = GOT_AUTH"
      by simp_all
    have "recvAuth app p flags =
        (if \<not> acceptAuthenticatedPeer app
         then Inr (sendErrorAndDrop app ?p3 ERR_LOAD ''peer rejected'' FLUSH_WRITE_QUEUE)
         else Inr (recvAuth_startFlowControl app ?p3 flags))"
      using st na False up unfolding recvAuth_def by (simp split del: if_split)
    with p3 show ?thesis by blast
  qed
qed

text \<open>
  C6. When AUTH is received in state GOT_HELLO and the overlay manager accepts the peer (on a
  connection with a known address, whose byte axis is not yet enabled), the connection becomes
  GOT_AUTH with the message axis active, and the byte axis is enabled if and only if the local
  overlay protocol version is at least FIRST_VERSION_SUPPORTING_FLOW_CONTROL_IN_BYTES (28), the
  remote overlay version is at least that constant, the AUTH flags equal
  AUTH_MSG_FLAG_FLOW_CONTROL_BYTES_REQUESTED and the local configuration sets
  ENABLE_FLOW_CONTROL_BYTES; otherwise only the message axis is active. An AUTH in any other
  state, or from a peer the overlay manager rejects, closes the connection and leaves flow
  control as it was.
\<close>

theorem byte_flow_control_gate:
  assumes addr: "mAddress p \<noteq> EmptyAddress"
    and peers: "length (getPeersToSend app (min 50 (peers_max_size app)) (mAddress p))
                 \<le> min 50 (peers_max_size app)"
    and off: "mFlowControlBytesCapacity (mFlowControl p) = None"
  shows
    "FIRST_VERSION_SUPPORTING_FLOW_CONTROL_IN_BYTES = 28 \<and>
     (mState p = GOT_HELLO \<and> acceptAuthenticatedPeer app \<longrightarrow>
        (\<exists>p'. recvAuth app p flags = Inr p' \<and> mState p' = GOT_AUTH \<and>
              mFlowControlCapacity (mFlowControl p') = FlowControlMessageCapacity app \<and>
              mFlowControlBytesCapacity (mFlowControl p') =
                (if OVERLAY_PROTOCOL_VERSION app \<ge> 28 \<and> mRemoteOverlayVersion p \<ge> 28 \<and>
                    flags = AUTH_MSG_FLAG_FLOW_CONTROL_BYTES_REQUESTED app \<and>
                    ENABLE_FLOW_CONTROL_BYTES app
                 then Some (FlowControlByteCapacity app) else None))) \<and>
     (mState p \<noteq> GOT_HELLO \<or> \<not> acceptAuthenticatedPeer app \<longrightarrow>
        (\<exists>p'. recvAuth app p flags = Inr p' \<and> mState p' = CLOSING \<and>
              mFlowControl p' = mFlowControl p))"
proof (intro conjI impI)
  show "FIRST_VERSION_SUPPORTING_FLOW_CONTROL_IN_BYTES = 28"
    by (simp add: FIRST_VERSION_SUPPORTING_FLOW_CONTROL_IN_BYTES_def)
next
  assume a: "mState p = GOT_HELLO \<and> acceptAuthenticatedPeer app"
  then have st: "mState p = GOT_HELLO" by simp
  from recvAuth_before_accept [OF st addr peers, of flags] a obtain p3 where
    p3: "mFlowControl p3 = mFlowControl p" "mRemoteOverlayVersion p3 = mRemoteOverlayVersion p"
      "mState p3 = GOT_AUTH" and
    r: "recvAuth app p flags = Inr (recvAuth_startFlowControl app p3 flags)"
    by auto
  show "\<exists>p'. recvAuth app p flags = Inr p' \<and> mState p' = GOT_AUTH \<and>
              mFlowControlCapacity (mFlowControl p') = FlowControlMessageCapacity app \<and>
              mFlowControlBytesCapacity (mFlowControl p') =
                (if OVERLAY_PROTOCOL_VERSION app \<ge> 28 \<and> mRemoteOverlayVersion p \<ge> 28 \<and>
                    flags = AUTH_MSG_FLAG_FLOW_CONTROL_BYTES_REQUESTED app \<and>
                    ENABLE_FLOW_CONTROL_BYTES app
                 then Some (FlowControlByteCapacity app) else None)"
    using r p3 off
    by (simp add: recvAuth_startFlowControl_flow FlowControl_start_axes
        FIRST_VERSION_SUPPORTING_FLOW_CONTROL_IN_BYTES_def)
next
  assume a: "mState p \<noteq> GOT_HELLO \<or> \<not> acceptAuthenticatedPeer app"
  show "\<exists>p'. recvAuth app p flags = Inr p' \<and> mState p' = CLOSING \<and> mFlowControl p' = mFlowControl p"
  proof (cases "mState p = GOT_HELLO")
    case True
    from recvAuth_before_accept [OF True addr peers, of flags] a True obtain p3 where
      "mFlowControl p3 = mFlowControl p" and
      "recvAuth app p flags = Inr (sendErrorAndDrop app p3 ERR_LOAD ''peer rejected'' FLUSH_WRITE_QUEUE)"
      by auto
    then show ?thesis by simp
  next
    case False
    then have "recvAuth app p flags =
        Inr (sendErrorAndDrop app p ERR_MISC ''out-of-order AUTH message'' IGNORE_WRITE_QUEUE)"
      by (simp add: recvAuth_def)
    then show ?thesis by simp
  qed
qed


theorem byte_flow_control_gate_witness:
  "mState helloPeer = GOT_HELLO \<and> acceptAuthenticatedPeer exampleApp \<and>
   (\<exists>p'. recvAuth exampleApp helloPeer 200 = Inr p' \<and> mState p' = GOT_AUTH \<and>
         mFlowControlBytesCapacity (mFlowControl p') = Some (FlowControlByteCapacity exampleApp)) \<and>
   (\<exists>p'. recvAuth exampleApp helloPeer 0 = Inr p' \<and> mState p' = GOT_AUTH \<and>
         mFlowControlBytesCapacity (mFlowControl p') = None) \<and>
   (\<exists>p'. recvAuth exampleApp (helloPeer\<lparr>mRemoteOverlayVersion := 27\<rparr>) 200 = Inr p' \<and>
         mState p' = GOT_AUTH \<and> mFlowControlBytesCapacity (mFlowControl p') = None) \<and>
   mState authPeer \<noteq> GOT_HELLO \<and>
   (\<exists>p'. recvAuth exampleApp authPeer 200 = Inr p' \<and> mState p' = CLOSING \<and>
         mFlowControl p' = mFlowControl authPeer)"
proof -
  have app: "acceptAuthenticatedPeer exampleApp" "getPeersToSend exampleApp = (\<lambda>n a. [])"
    "OVERLAY_PROTOCOL_VERSION exampleApp = 30" "ENABLE_FLOW_CONTROL_BYTES exampleApp"
    "AUTH_MSG_FLAG_FLOW_CONTROL_BYTES_REQUESTED exampleApp = 200"
    by (simp_all add: exampleApp_def)
  have a: "mState authPeer = GOT_AUTH" "mAddress authPeer = IPv4Address ''10.0.0.7'' 11625"
    "mRemoteOverlayVersion authPeer = 30"
    "mFlowControlBytesCapacity (mFlowControl authPeer) = None"
    by (simp_all add: authPeer_def examplePeer_def Peer_new_def FlowControl_new_def)
  have h: "mState helloPeer = GOT_HELLO" "mAddress helloPeer = IPv4Address ''10.0.0.7'' 11625"
    "mRemoteOverlayVersion helloPeer = 30"
    "mFlowControlBytesCapacity (mFlowControl helloPeer) = None"
    by (simp_all add: helloPeer_def a)
  have w1: "mAddress helloPeer \<noteq> EmptyAddress" "mAddress authPeer \<noteq> EmptyAddress"
    "mAddress (helloPeer\<lparr>mRemoteOverlayVersion := 27\<rparr>) \<noteq> EmptyAddress"
    by (simp_all add: h a)
  have w2: "length (getPeersToSend exampleApp (min 50 (peers_max_size exampleApp)) x)
                 \<le> min 50 (peers_max_size exampleApp)" for x
    by (simp add: app)
  have w3: "mFlowControlBytesCapacity (mFlowControl (helloPeer\<lparr>mRemoteOverlayVersion := 27\<rparr>)) = None"
    by (simp add: h)
  note t1 = byte_flow_control_gate [OF w1(1) w2 h(4), of 200]
  note t2 = byte_flow_control_gate [OF w1(1) w2 h(4), of 0]
  note t3 = byte_flow_control_gate [OF w1(3) w2 w3, of 200]
  note t4 = byte_flow_control_gate [OF w1(2) w2 a(4), of 200]
  have c1: "\<exists>p'. recvAuth exampleApp helloPeer 200 = Inr p' \<and> mState p' = GOT_AUTH \<and>
         mFlowControlBytesCapacity (mFlowControl p') = Some (FlowControlByteCapacity exampleApp)"
    using t1 by (auto simp add: app h FIRST_VERSION_SUPPORTING_FLOW_CONTROL_IN_BYTES_def)
  have c2: "\<exists>p'. recvAuth exampleApp helloPeer 0 = Inr p' \<and> mState p' = GOT_AUTH \<and>
         mFlowControlBytesCapacity (mFlowControl p') = None"
    using t2 by (auto simp add: app h FIRST_VERSION_SUPPORTING_FLOW_CONTROL_IN_BYTES_def)
  have c3: "\<exists>p'. recvAuth exampleApp (helloPeer\<lparr>mRemoteOverlayVersion := 27\<rparr>) 200 = Inr p' \<and>
         mState p' = GOT_AUTH \<and> mFlowControlBytesCapacity (mFlowControl p') = None"
    using t3 by (auto simp add: app h FIRST_VERSION_SUPPORTING_FLOW_CONTROL_IN_BYTES_def)
  have c4: "\<exists>p'. recvAuth exampleApp authPeer 200 = Inr p' \<and> mState p' = CLOSING \<and>
         mFlowControl p' = mFlowControl authPeer"
    using t4 by (auto simp add: app a FIRST_VERSION_SUPPORTING_FLOW_CONTROL_IN_BYTES_def)
  show ?thesis
    using c1 c2 c3 c4 by (simp add: app a h)
qed

subsection \<open>The recurring timer\<close>

lemma pingPeer_frame [simp]:
  "mState (pingPeer app p) = mState p"
  "mFlowControl (pingPeer app p) = mFlowControl p"
  "mTxHashesToAdvertise (pingPeer app p) = mTxHashesToAdvertise p"
  by (simp_all add: pingPeer_def sendGetQuorumSet_def)

lemma pingPeer_sent:
  "sent_messages (events (pingPeer app p)) =
     sent_messages (events p) @
       (if mState p = GOT_AUTH \<and> mPingSentTime p = None
        then [MGetSCPQuorumSet (pingIDfromTimePoint app (clock_now app))] else [])"
  by (simp add: pingPeer_def sendGetQuorumSet_def sendMessage_sent isAuthenticated_def)

text \<open>
  C7. When the recurring timer fires on a session that is not aborting, the checks are made in
  this order: if both (now - last read) and (now - last write) are at least the IO timeout the
  connection is dropped with "idle timeout"; else if flow control reports an outbound capacity
  timestamp that is at least 60 seconds old it is dropped with "idle timeout (no new flood
  requests)"; else if (now - last enqueue) is at least the straggler timeout it is dropped with
  "straggling (cannot keep up)"; every drop is WE_DROPPED_REMOTE with IGNORE_WRITE_QUEUE.
  Otherwise the peer is pinged if it is authenticated and no ping is outstanding, and the
  timer is armed again, 5 seconds from now. The IO timeout is PEER_AUTHENTICATION_TIMEOUT
  before GOT_AUTH and PEER_TIMEOUT in GOT_AUTH.
\<close>

theorem recurrent_timer_checks:
  fixes app :: App and p :: Peer
  defines "now \<equiv> clock_now app"
    and "r \<equiv> recurrentTimerExpired app p False"
  defines "idle \<equiv> now - mLastRead p \<ge> getIOTimeout app p \<and> now - mLastWrite p \<ge> getIOTimeout app p"
    and "flowIdle \<equiv> \<exists>ts. getOutboundCapacityTimestamp (mFlowControl p) = Some ts \<and>
                         now - ts \<ge> seconds 60"
    and "straggling \<equiv> now - mEnqueueTimeOfLastWrite p \<ge> seconds (PEER_STRAGGLER_TIMEOUT app)"
  assumes live: "\<not> shouldAbort app p"
  shows
    "getIOTimeout app p =
       (if state_rank (mState p) < state_rank GOT_AUTH then seconds (PEER_AUTHENTICATION_TIMEOUT app)
        else seconds (PEER_TIMEOUT app)) \<and>
     (idle \<longrightarrow> r = dropPeer p ''idle timeout'' WE_DROPPED_REMOTE IGNORE_WRITE_QUEUE \<and>
        mState r = CLOSING \<and>
        events r = events p @ [EvDrop ''idle timeout'' WE_DROPPED_REMOTE IGNORE_WRITE_QUEUE]) \<and>
     (\<not> idle \<and> flowIdle \<longrightarrow>
        r = dropPeer p ''idle timeout (no new flood requests)'' WE_DROPPED_REMOTE IGNORE_WRITE_QUEUE \<and>
        mState r = CLOSING \<and>
        events r = events p @
          [EvDrop ''idle timeout (no new flood requests)'' WE_DROPPED_REMOTE IGNORE_WRITE_QUEUE]) \<and>
     (\<not> idle \<and> \<not> flowIdle \<and> straggling \<longrightarrow>
        r = dropPeer p ''straggling (cannot keep up)'' WE_DROPPED_REMOTE IGNORE_WRITE_QUEUE \<and>
        mState r = CLOSING \<and>
        events r = events p @
          [EvDrop ''straggling (cannot keep up)'' WE_DROPPED_REMOTE IGNORE_WRITE_QUEUE]) \<and>
     (\<not> idle \<and> \<not> flowIdle \<and> \<not> straggling \<longrightarrow>
        mRecurringTimer r = Some (now + seconds 5) \<and> mState r = mState p \<and>
        sent_messages (events r) = sent_messages (events p) @
          (if mState p = GOT_AUTH \<and> mPingSentTime p = None
           then [MGetSCPQuorumSet (pingIDfromTimePoint app now)] else []))"
proof -
  have nc: "mState p \<noteq> CLOSING" using live by (simp add: shouldAbort_def)
  have fi: "flowIdle = (case getOutboundCapacityTimestamp (mFlowControl p) of
                   None \<Rightarrow> False
                 | Some ts \<Rightarrow> now - ts \<ge> PEER_SEND_MODE_IDLE_TIMEOUT)"
    by (simp add: flowIdle_def PEER_SEND_MODE_IDLE_TIMEOUT_def split: option.split)
  have r: "r = (if idle then dropPeer p ''idle timeout'' WE_DROPPED_REMOTE IGNORE_WRITE_QUEUE
                else if flowIdle then
                  dropPeer p ''idle timeout (no new flood requests)'' WE_DROPPED_REMOTE IGNORE_WRITE_QUEUE
                else if straggling then
                  dropPeer p ''straggling (cannot keep up)'' WE_DROPPED_REMOTE IGNORE_WRITE_QUEUE
                else startRecurrentTimer app p)"
    unfolding r_def recurrentTimerExpired_def fi idle_def straggling_def now_def Let_def
    by simp
  have io: "getIOTimeout app p =
       (if state_rank (mState p) < state_rank GOT_AUTH then seconds (PEER_AUTHENTICATION_TIMEOUT app)
        else seconds (PEER_TIMEOUT app))"
    using nc by (cases "mState p") (simp_all add: getIOTimeout_def isAuthenticated_def)
  have c1: "idle \<Longrightarrow> r = dropPeer p ''idle timeout'' WE_DROPPED_REMOTE IGNORE_WRITE_QUEUE \<and>
        mState r = CLOSING \<and>
        events r = events p @ [EvDrop ''idle timeout'' WE_DROPPED_REMOTE IGNORE_WRITE_QUEUE]"
    using nc by (simp add: r dropPeer_events)
  have c2: "\<not> idle \<and> flowIdle \<Longrightarrow>
        r = dropPeer p ''idle timeout (no new flood requests)'' WE_DROPPED_REMOTE IGNORE_WRITE_QUEUE \<and>
        mState r = CLOSING \<and>
        events r = events p @
          [EvDrop ''idle timeout (no new flood requests)'' WE_DROPPED_REMOTE IGNORE_WRITE_QUEUE]"
    using nc by (simp add: r dropPeer_events)
  have c3: "\<not> idle \<and> \<not> flowIdle \<and> straggling \<Longrightarrow>
        r = dropPeer p ''straggling (cannot keep up)'' WE_DROPPED_REMOTE IGNORE_WRITE_QUEUE \<and>
        mState r = CLOSING \<and>
        events r = events p @
          [EvDrop ''straggling (cannot keep up)'' WE_DROPPED_REMOTE IGNORE_WRITE_QUEUE]"
    using nc by (simp add: r dropPeer_events)
  have c4: "\<not> idle \<and> \<not> flowIdle \<and> \<not> straggling \<Longrightarrow>
        mRecurringTimer r = Some (now + seconds 5) \<and> mState r = mState p \<and>
        sent_messages (events r) = sent_messages (events p) @
          (if mState p = GOT_AUTH \<and> mPingSentTime p = None
           then [MGetSCPQuorumSet (pingIDfromTimePoint app now)] else [])"
    using live
    by (simp add: r startRecurrentTimer_def RECURRENT_TIMER_PERIOD_def pingPeer_sent now_def)
  from io c1 c2 c3 c4 show ?thesis by blast
qed

text \<open>
  The claim as stated fails while the overlay manager shuts down: none of the three conditions
  holds, and \<^verbatim>\<open>startRecurrentTimer\<close> returns without arming the timer.
\<close>

theorem recurrent_timer_counterexample:
  "mState authPeer = GOT_AUTH \<and>
   \<not> (clock_now exampleApp - mLastRead authPeer \<ge> seconds (PEER_TIMEOUT exampleApp)) \<and>
   getOutboundCapacityTimestamp (mFlowControl authPeer) = None \<and>
   \<not> (clock_now exampleApp - mEnqueueTimeOfLastWrite authPeer
        \<ge> seconds (PEER_STRAGGLER_TIMEOUT exampleApp)) \<and>
   recurrentTimerExpired (exampleApp\<lparr>isShuttingDown := True\<rparr>) authPeer False = authPeer \<and>
   mRecurringTimer authPeer = None"
  by (simp add: recurrentTimerExpired_def startRecurrentTimer_def shouldAbort_def getIOTimeout_def
      isAuthenticated_def getOutboundCapacityTimestamp_def authPeer_def examplePeer_def Peer_new_def
      FlowControl_new_def exampleApp_def seconds_def Let_def)

theorem recurrent_timer_checks_witness:
  "\<not> shouldAbort (exampleApp\<lparr>clock_now := 1000000000000\<rparr>) authPeer \<and>
   events (recurrentTimerExpired (exampleApp\<lparr>clock_now := 1000000000000\<rparr>) authPeer False) =
     [EvDrop ''idle timeout'' WE_DROPPED_REMOTE IGNORE_WRITE_QUEUE] \<and>
   events (recurrentTimerExpired (exampleApp\<lparr>clock_now := 1000000000000\<rparr>)
      (authPeer\<lparr>mLastRead := 995000000000,
         mFlowControl := (mFlowControl authPeer)\<lparr>mNoOutboundCapacity := Some 940000000000\<rparr>\<rparr>) False) =
     [EvDrop ''idle timeout (no new flood requests)'' WE_DROPPED_REMOTE IGNORE_WRITE_QUEUE] \<and>
   events (recurrentTimerExpired (exampleApp\<lparr>clock_now := 1000000000000\<rparr>)
      (authPeer\<lparr>mLastRead := 995000000000\<rparr>) False) =
     [EvDrop ''straggling (cannot keep up)'' WE_DROPPED_REMOTE IGNORE_WRITE_QUEUE] \<and>
   mRecurringTimer (recurrentTimerExpired (exampleApp\<lparr>clock_now := 1000000000000\<rparr>)
      (authPeer\<lparr>mLastRead := 995000000000, mEnqueueTimeOfLastWrite := 990000000000\<rparr>) False) =
     Some (seconds 1005) \<and>
   getIOTimeout (exampleApp\<lparr>clock_now := 1000000000000\<rparr>) authPeer = seconds 30 \<and>
   getIOTimeout (exampleApp\<lparr>clock_now := 1000000000000\<rparr>) helloPeer = seconds 2"
proof -
  let ?app = "exampleApp\<lparr>clock_now := 1000000000000\<rparr>"
  let ?flow = "authPeer\<lparr>mLastRead := 995000000000,
         mFlowControl := (mFlowControl authPeer)\<lparr>mNoOutboundCapacity := Some 940000000000\<rparr>\<rparr>"
  let ?strag = "authPeer\<lparr>mLastRead := 995000000000\<rparr>"
  let ?ok = "authPeer\<lparr>mLastRead := 995000000000, mEnqueueTimeOfLastWrite := 990000000000\<rparr>"
  have app: "clock_now ?app = 1000000000000" "isShuttingDown ?app = False"
    "PEER_TIMEOUT ?app = 30" "PEER_AUTHENTICATION_TIMEOUT ?app = 2" "PEER_STRAGGLER_TIMEOUT ?app = 120"
    by (simp_all add: exampleApp_def)
  have a: "mState authPeer = GOT_AUTH" "events authPeer = []"
    "mLastRead authPeer = seconds 100" "mLastWrite authPeer = seconds 100"
    "mEnqueueTimeOfLastWrite authPeer = seconds 100"
    "mNoOutboundCapacity (mFlowControl authPeer) = None"
    by (simp_all add: authPeer_def examplePeer_def Peer_new_def FlowControl_new_def exampleApp_def
        seconds_def)
  have h: "mState helloPeer = GOT_HELLO" by (simp add: helloPeer_def)
  have live: "\<not> shouldAbort ?app authPeer" "\<not> shouldAbort ?app ?flow" "\<not> shouldAbort ?app ?strag"
    "\<not> shouldAbort ?app ?ok" "\<not> shouldAbort ?app helloPeer"
    by (simp_all add: shouldAbort_def app a h)
  note t1 = recurrent_timer_checks [OF live(1)]
  note t2 = recurrent_timer_checks [OF live(2)]
  note t3 = recurrent_timer_checks [OF live(3)]
  note t4 = recurrent_timer_checks [OF live(4)]
  note t5 = recurrent_timer_checks [OF live(5)]
  have io: "getIOTimeout ?app authPeer = seconds 30" "getIOTimeout ?app ?flow = seconds 30"
    "getIOTimeout ?app ?strag = seconds 30" "getIOTimeout ?app ?ok = seconds 30"
    by (simp_all add: getIOTimeout_def isAuthenticated_def a app)
  have i1: "getIOTimeout ?app authPeer \<le> clock_now ?app - mLastRead authPeer \<and>
            getIOTimeout ?app authPeer \<le> clock_now ?app - mLastWrite authPeer"
    by (simp add: io app a seconds_def)
  from t1 i1 have "events (recurrentTimerExpired ?app authPeer False) =
     events authPeer @ [EvDrop ''idle timeout'' WE_DROPPED_REMOTE IGNORE_WRITE_QUEUE]"
    by blast
  then have c1: "events (recurrentTimerExpired ?app authPeer False) =
     [EvDrop ''idle timeout'' WE_DROPPED_REMOTE IGNORE_WRITE_QUEUE]"
    by (simp add: a)
  have i2: "\<not> (getIOTimeout ?app ?flow \<le> clock_now ?app - mLastRead ?flow \<and>
               getIOTimeout ?app ?flow \<le> clock_now ?app - mLastWrite ?flow)"
    by (simp add: io app a seconds_def)
  have f2: "\<exists>ts. getOutboundCapacityTimestamp (mFlowControl ?flow) = Some ts \<and>
              seconds 60 \<le> clock_now ?app - ts"
    by (simp add: app getOutboundCapacityTimestamp_def seconds_def)
  from t2 i2 f2 have "events (recurrentTimerExpired ?app ?flow False) =
     events ?flow @ [EvDrop ''idle timeout (no new flood requests)'' WE_DROPPED_REMOTE IGNORE_WRITE_QUEUE]"
    by blast
  then have c2: "events (recurrentTimerExpired ?app ?flow False) =
     [EvDrop ''idle timeout (no new flood requests)'' WE_DROPPED_REMOTE IGNORE_WRITE_QUEUE]"
    by (simp add: a)
  have i3: "\<not> (getIOTimeout ?app ?strag \<le> clock_now ?app - mLastRead ?strag \<and>
               getIOTimeout ?app ?strag \<le> clock_now ?app - mLastWrite ?strag)"
    by (simp add: io app a seconds_def)
  have f3: "\<not> (\<exists>ts. getOutboundCapacityTimestamp (mFlowControl ?strag) = Some ts \<and>
              seconds 60 \<le> clock_now ?app - ts)"
    by (simp add: a getOutboundCapacityTimestamp_def)
  have s3: "seconds (PEER_STRAGGLER_TIMEOUT ?app) \<le> clock_now ?app - mEnqueueTimeOfLastWrite ?strag"
    by (simp add: app a seconds_def)
  from t3 i3 f3 s3 have "events (recurrentTimerExpired ?app ?strag False) =
     events ?strag @ [EvDrop ''straggling (cannot keep up)'' WE_DROPPED_REMOTE IGNORE_WRITE_QUEUE]"
    by blast
  then have c3: "events (recurrentTimerExpired ?app ?strag False) =
     [EvDrop ''straggling (cannot keep up)'' WE_DROPPED_REMOTE IGNORE_WRITE_QUEUE]"
    by (simp add: a)
  have i4: "\<not> (getIOTimeout ?app ?ok \<le> clock_now ?app - mLastRead ?ok \<and>
               getIOTimeout ?app ?ok \<le> clock_now ?app - mLastWrite ?ok)"
    by (simp add: io app a seconds_def)
  have f4: "\<not> (\<exists>ts. getOutboundCapacityTimestamp (mFlowControl ?ok) = Some ts \<and>
              seconds 60 \<le> clock_now ?app - ts)"
    by (simp add: a getOutboundCapacityTimestamp_def)
  have s4: "\<not> seconds (PEER_STRAGGLER_TIMEOUT ?app) \<le> clock_now ?app - mEnqueueTimeOfLastWrite ?ok"
    by (simp add: app seconds_def)
  from t4 i4 f4 s4 have "mRecurringTimer (recurrentTimerExpired ?app ?ok False) =
      Some (clock_now ?app + seconds 5)"
    by blast
  then have c4: "mRecurringTimer (recurrentTimerExpired ?app ?ok False) = Some (seconds 1005)"
    by (simp add: seconds_def)
  from t5 have "getIOTimeout ?app helloPeer =
       (if state_rank (mState helloPeer) < state_rank GOT_AUTH
        then seconds (PEER_AUTHENTICATION_TIMEOUT ?app) else seconds (PEER_TIMEOUT ?app))"
    by blast
  then have c5: "getIOTimeout ?app helloPeer = seconds 2"
    by (simp add: app h)
  from live(1) c1 c2 c3 c4 io(1) c5 show ?thesis by simp
qed

subsection \<open>The batch of hashes to advertise\<close>

lemma startAdvertTimer_frame [simp]:
  "mTxHashesToAdvertise (startAdvertTimer app p) = mTxHashesToAdvertise p"
  "events (startAdvertTimer app p) = events p"
  "mState (startAdvertTimer app p) = mState p"
  by (simp_all add: startAdvertTimer_def)

lemma flushAdvert_timer [simp]:
  "mAdvertTimer (flushAdvert p) = mAdvertTimer p"
  by (simp add: flushAdvert_def)

lemma queueTxHashToAdvertise_timer:
  "mAdvertTimer (queueTxHashToAdvertise app p h) =
     (if mTxHashesToAdvertise p = [] then mAdvertTimer (startAdvertTimer app p) else mAdvertTimer p)"
  by (simp add: queueTxHashToAdvertise_def Let_def)

text \<open>
  C9. On a session that is not aborting, queueing a transaction hash arms the flush timer
  (FLOOD_ADVERT_PERIOD_MS from now) exactly when the pending batch was empty, and leaves the
  timer as it is otherwise. If the batch already holds TX_ADVERT_VECTOR_MAX_SIZE hashes the new
  hash is discarded and nothing else happens; otherwise the hash is appended, and as soon as
  the batch holds at least the maximum advert size it is flushed. The timer, when it fires,
  flushes. A flush of a batch that is not empty posts one send of a FLOOD_ADVERT with exactly
  the queued hashes, in order, and leaves the batch empty; a flush of an empty batch does
  nothing. The posted send hands the message to the send path if the peer still exists.
\<close>

theorem advert_batch_queue_and_flush:
  fixes app :: App and p :: Peer and h :: Hash
  defines "batch \<equiv> mTxHashesToAdvertise p"
    and "q \<equiv> queueTxHashToAdvertise app p h"
  assumes live: "\<not> shouldAbort app p"
  shows
    "mAdvertTimer q =
       (if batch = [] then Some (clock_now app + milliseconds (FLOOD_ADVERT_PERIOD_MS app))
        else mAdvertTimer p) \<and>
     (length batch = TX_ADVERT_VECTOR_MAX_SIZE app \<longrightarrow>
        mTxHashesToAdvertise q = batch \<and> events q = events p) \<and>
     (length batch \<noteq> TX_ADVERT_VECTOR_MAX_SIZE app \<and> length batch + 1 < getMaxAdvertSize app \<longrightarrow>
        mTxHashesToAdvertise q = batch @ [h] \<and> events q = events p) \<and>
     (length batch \<noteq> TX_ADVERT_VECTOR_MAX_SIZE app \<and> length batch + 1 \<ge> getMaxAdvertSize app \<longrightarrow>
        mTxHashesToAdvertise q = [] \<and>
        events q = events p @ [EvPostSend (MFloodAdvert (batch @ [h])) ''flushAdvert'']) \<and>
     advertTimerExpired p False = flushAdvert p \<and>
     (batch \<noteq> [] \<longrightarrow>
        mTxHashesToAdvertise (flushAdvert p) = [] \<and>
        events (flushAdvert p) = events p @ [EvPostSend (MFloodAdvert batch) ''flushAdvert'']) \<and>
     (batch = [] \<longrightarrow> flushAdvert p = p) \<and>
     postedSend app None (MFloodAdvert batch) = None \<and>
     (\<exists>p'. postedSend app (Some p) (MFloodAdvert batch) = Some p' \<and>
           sent_messages (events p') = sent_messages (events p) @ [MFloodAdvert batch])"
proof -
  have t: "mAdvertTimer q =
       (if batch = [] then Some (clock_now app + milliseconds (FLOOD_ADVERT_PERIOD_MS app))
        else mAdvertTimer p)"
    using live by (simp add: q_def batch_def queueTxHashToAdvertise_timer startAdvertTimer_def)
  have full: "length batch = TX_ADVERT_VECTOR_MAX_SIZE app \<Longrightarrow>
        mTxHashesToAdvertise q = batch \<and> events q = events p"
    by (cases "mTxHashesToAdvertise p = []")
       (simp_all add: q_def batch_def queueTxHashToAdvertise_def Let_def)
  have add: "length batch \<noteq> TX_ADVERT_VECTOR_MAX_SIZE app \<and> length batch + 1 < getMaxAdvertSize app \<Longrightarrow>
        mTxHashesToAdvertise q = batch @ [h] \<and> events q = events p"
    by (cases "mTxHashesToAdvertise p = []")
       (auto simp add: q_def batch_def queueTxHashToAdvertise_def Let_def)
  have fl: "length batch \<noteq> TX_ADVERT_VECTOR_MAX_SIZE app \<and> length batch + 1 \<ge> getMaxAdvertSize app \<Longrightarrow>
        mTxHashesToAdvertise q = [] \<and>
        events q = events p @ [EvPostSend (MFloodAdvert (batch @ [h])) ''flushAdvert'']"
    by (cases "mTxHashesToAdvertise p = []")
       (auto simp add: q_def batch_def queueTxHashToAdvertise_def Let_def flushAdvert_def)
  have ex: "advertTimerExpired p False = flushAdvert p"
    by (simp add: advertTimerExpired_def)
  have f1: "batch \<noteq> [] \<Longrightarrow>
        mTxHashesToAdvertise (flushAdvert p) = [] \<and>
        events (flushAdvert p) = events p @ [EvPostSend (MFloodAdvert batch) ''flushAdvert'']"
    by (simp add: batch_def flushAdvert_def)
  have f0: "batch = [] \<Longrightarrow> flushAdvert p = p"
    by (simp add: batch_def flushAdvert_def)
  have p0: "postedSend app None (MFloodAdvert batch) = None"
    by (simp add: postedSend_def)
  have p1: "\<exists>p'. postedSend app (Some p) (MFloodAdvert batch) = Some p' \<and>
           sent_messages (events p') = sent_messages (events p) @ [MFloodAdvert batch]"
    by (simp add: postedSend_def sendMessage_sent)
  from t full add fl ex f1 f0 p0 p1 show ?thesis by blast
qed

text \<open>
  The claim as stated fails on a session that is aborting: while the overlay manager shuts
  down, a hash queued into an empty batch is kept and the flush timer is not started.
\<close>

theorem advert_timer_counterexample:
  "mTxHashesToAdvertise authPeer = [] \<and> mAdvertTimer authPeer = None \<and>
   mTxHashesToAdvertise (queueTxHashToAdvertise (exampleApp\<lparr>isShuttingDown := True\<rparr>) authPeer 5) = [5] \<and>
   mAdvertTimer (queueTxHashToAdvertise (exampleApp\<lparr>isShuttingDown := True\<rparr>) authPeer 5) = None"
  by (simp add: queueTxHashToAdvertise_def startAdvertTimer_def shouldAbort_def flushAdvert_def
      authPeer_def examplePeer_def Peer_new_def exampleApp_def Let_def)

theorem advert_batch_queue_and_flush_witness:
  "\<not> shouldAbort exampleApp authPeer \<and>
   mAdvertTimer (queueTxHashToAdvertise exampleApp authPeer 5) = Some 100100000000 \<and>
   mTxHashesToAdvertise (queueTxHashToAdvertise exampleApp authPeer 5) = [5] \<and>
   mTxHashesToAdvertise
     (queueTxHashToAdvertise exampleApp (authPeer\<lparr>mTxHashesToAdvertise := [1, 2]\<rparr>) 5) = [] \<and>
   events (queueTxHashToAdvertise exampleApp (authPeer\<lparr>mTxHashesToAdvertise := [1, 2]\<rparr>) 5) =
     [EvPostSend (MFloodAdvert [1, 2, 5]) ''flushAdvert''] \<and>
   mAdvertTimer (queueTxHashToAdvertise exampleApp (authPeer\<lparr>mTxHashesToAdvertise := [1, 2]\<rparr>) 5) = None \<and>
   mTxHashesToAdvertise
     (queueTxHashToAdvertise (exampleApp\<lparr>TX_ADVERT_VECTOR_MAX_SIZE := 2\<rparr>)
        (authPeer\<lparr>mTxHashesToAdvertise := [1, 2]\<rparr>) 5) = [1, 2] \<and>
   events (queueTxHashToAdvertise (exampleApp\<lparr>TX_ADVERT_VECTOR_MAX_SIZE := 2\<rparr>)
        (authPeer\<lparr>mTxHashesToAdvertise := [1, 2]\<rparr>) 5) = [] \<and>
   flushAdvert authPeer = authPeer"
proof -
  let ?two = "authPeer\<lparr>mTxHashesToAdvertise := [1, 2]\<rparr>"
  let ?small = "exampleApp\<lparr>TX_ADVERT_VECTOR_MAX_SIZE := 2\<rparr>"
  have app: "isShuttingDown exampleApp = False" "clock_now exampleApp = 100000000000"
    "FLOOD_ADVERT_PERIOD_MS exampleApp = 100" "getMaxAdvertSize exampleApp = 3"
    "TX_ADVERT_VECTOR_MAX_SIZE exampleApp = 1000"
    by (simp_all add: exampleApp_def)
  have a: "mState authPeer = GOT_AUTH" "events authPeer = []" "mTxHashesToAdvertise authPeer = []"
    "mAdvertTimer authPeer = None"
    by (simp_all add: authPeer_def examplePeer_def Peer_new_def)
  have live: "\<not> shouldAbort exampleApp authPeer" "\<not> shouldAbort exampleApp ?two"
    "\<not> shouldAbort ?small ?two"
    by (simp_all add: shouldAbort_def app a)
  note t1 = advert_batch_queue_and_flush [OF live(1), of 5]
  note t2 = advert_batch_queue_and_flush [OF live(2), of 5]
  note t3 = advert_batch_queue_and_flush [OF live(3), of 5]
  have c1: "mAdvertTimer (queueTxHashToAdvertise exampleApp authPeer 5) = Some 100100000000 \<and>
   mTxHashesToAdvertise (queueTxHashToAdvertise exampleApp authPeer 5) = [5] \<and>
   flushAdvert authPeer = authPeer"
    using t1 by (simp add: app a milliseconds_def)
  have c2: "mTxHashesToAdvertise (queueTxHashToAdvertise exampleApp ?two 5) = [] \<and>
   events (queueTxHashToAdvertise exampleApp ?two 5) =
     [EvPostSend (MFloodAdvert [1, 2, 5]) ''flushAdvert''] \<and>
   mAdvertTimer (queueTxHashToAdvertise exampleApp ?two 5) = None"
    using t2 by (simp add: app a)
  have c3: "mTxHashesToAdvertise (queueTxHashToAdvertise ?small ?two 5) = [1, 2] \<and>
   events (queueTxHashToAdvertise ?small ?two 5) = []"
    using t3 by (simp add: a)
  from live(1) c1 c2 c3 show ?thesis by simp
qed

subsection \<open>Fulfilling a demand\<close>

lemma sendMessage_metrics [simp]:
  "mMessagesFulfilled (mPeerMetrics (sendMessage app p msg)) = mMessagesFulfilled (mPeerMetrics p)"
  "mBannedMessageUnfulfilled (mPeerMetrics (sendMessage app p msg)) = mBannedMessageUnfulfilled (mPeerMetrics p)"
  "mUnknownMessageUnfulfilled (mPeerMetrics (sendMessage app p msg)) = mUnknownMessageUnfulfilled (mPeerMetrics p)"
  by (simp_all add: sendMessage_def sendAuthenticatedMessage_def Let_def)

lemma fulfillOne_metrics:
  "mMessagesFulfilled (mPeerMetrics (fulfillOne app p h)) =
     mMessagesFulfilled (mPeerMetrics p) + (if getTx app h \<noteq> None then 1 else 0)"
  "mBannedMessageUnfulfilled (mPeerMetrics (fulfillOne app p h)) =
     mBannedMessageUnfulfilled (mPeerMetrics p) + (if getTx app h = None \<and> isBannedTx app h then 1 else 0)"
  "mUnknownMessageUnfulfilled (mPeerMetrics (fulfillOne app p h)) =
     mUnknownMessageUnfulfilled (mPeerMetrics p) + (if getTx app h = None \<and> \<not> isBannedTx app h then 1 else 0)"
  by (simp_all add: fulfillOne_def split: option.split)

lemma fulfillOne_overloaded [simp]:
  "virt_sendQueueIsOverloaded (fulfillOne app p h) = virt_sendQueueIsOverloaded p"
  by (simp add: fulfillOne_def split: option.split)

text \<open>What \<^verbatim>\<open>sendMessage\<close> does with a TRANSACTION: it drops it under load, and hands it to
  flow control otherwise.\<close>

lemma sendMessage_transaction:
  "events (sendMessage app p (MTransaction tx)) = events p @
     [if currentSchedulerActionType app = DROPPABLE_ACTION \<and> virt_sendQueueIsOverloaded p
      then EvShed (MTransaction tx) else EvFlow (MTransaction tx)]"
  "mMessageDrop (mPeerMetrics (sendMessage app p (MTransaction tx))) =
     mMessageDrop (mPeerMetrics p) +
       (if currentSchedulerActionType app = DROPPABLE_ACTION \<and> virt_sendQueueIsOverloaded p
        then 1 else 0)"
  by (simp_all add: sendMessage_def FlowControl_maybeSendMessage_def isFloodMessage_def)

lemma fulfillOne_events:
  "events (fulfillOne app p h) = events p @
     (case getTx app h of
        None \<Rightarrow> []
      | Some tx \<Rightarrow>
          [if currentSchedulerActionType app = DROPPABLE_ACTION \<and> virt_sendQueueIsOverloaded p
           then EvShed (MTransaction tx) else EvFlow (MTransaction tx)])"
  by (simp add: fulfillOne_def sendMessage_transaction split: option.split)

lemma fulfillOne_dropped:
  "mMessageDrop (mPeerMetrics (fulfillOne app p h)) =
     mMessageDrop (mPeerMetrics p) +
       (if getTx app h \<noteq> None \<and> currentSchedulerActionType app = DROPPABLE_ACTION \<and>
           virt_sendQueueIsOverloaded p
        then 1 else 0)"
  by (simp add: fulfillOne_def sendMessage_transaction split: option.split)

lemma fulfillDemand_overloaded [simp]:
  "virt_sendQueueIsOverloaded (fulfillDemand app p hs) = virt_sendQueueIsOverloaded p"
  by (induction hs arbitrary: p) simp_all

lemma fulfillDemand_fulfilled:
  "mMessagesFulfilled (mPeerMetrics (fulfillDemand app p hs)) =
     mMessagesFulfilled (mPeerMetrics p) + of_nat (length (filter (\<lambda>h. getTx app h \<noteq> None) hs))"
  by (induction hs arbitrary: p) (simp_all add: fulfillOne_metrics)

lemma fulfillDemand_banned:
  "mBannedMessageUnfulfilled (mPeerMetrics (fulfillDemand app p hs)) =
     mBannedMessageUnfulfilled (mPeerMetrics p) +
       of_nat (length (filter (\<lambda>h. getTx app h = None \<and> isBannedTx app h) hs))"
  by (induction hs arbitrary: p) (simp_all add: fulfillOne_metrics)

lemma fulfillDemand_unknown:
  "mUnknownMessageUnfulfilled (mPeerMetrics (fulfillDemand app p hs)) =
     mUnknownMessageUnfulfilled (mPeerMetrics p) +
       of_nat (length (filter (\<lambda>h. getTx app h = None \<and> \<not> isBannedTx app h) hs))"
  by (induction hs arbitrary: p) (simp_all add: fulfillOne_metrics)

lemma fulfillDemand_events:
  "events (fulfillDemand app p hs) = events p @
     map (\<lambda>tx. if currentSchedulerActionType app = DROPPABLE_ACTION \<and> virt_sendQueueIsOverloaded p
               then EvShed (MTransaction tx) else EvFlow (MTransaction tx))
         (List.map_filter (getTx app) hs)"
  by (induction hs arbitrary: p) (simp_all add: fulfillOne_events split: option.split)

lemma fulfillDemand_dropped:
  "mMessageDrop (mPeerMetrics (fulfillDemand app p hs)) =
     mMessageDrop (mPeerMetrics p) +
       (if currentSchedulerActionType app = DROPPABLE_ACTION \<and> virt_sendQueueIsOverloaded p
        then of_nat (length (filter (\<lambda>h. getTx app h \<noteq> None) hs)) else 0)"
  by (induction hs arbitrary: p) (simp_all add: fulfillOne_dropped)

lemma fulfillDemand_silent:
  "\<forall>h \<in> set hs. getTx app h = None \<Longrightarrow> events (fulfillDemand app p hs) = events p"
  by (induction hs arbitrary: p) (simp_all add: fulfillOne_events)

text \<open>
  C10. Fulfilling a demand goes through the demanded hashes in order. The fulfilled counter
  grows by the number of hashes whose transaction the herder has, the banned-unfulfilled
  counter by the number of hashes it does not have and reports banned, the unknown-unfulfilled
  counter by the number of the remaining hashes. For every hash whose transaction the herder
  has, in the order of the demand, one TRANSACTION carrying it is passed to \<^verbatim>\<open>sendMessage\<close>,
  which hands it to flow control, unless the action is droppable and the send queue is
  overloaded: then the message is dropped and counted in the dropped counter, and is not
  sent. No other effect is recorded: nothing is sent or dropped for a hash that is not
  fulfilled.
\<close>

theorem fulfill_demand_counts_and_replies:
  fixes app :: App and p :: Peer and hs :: "Hash list"
  defines "r \<equiv> fulfillDemand app p hs"
    and "shed \<equiv> currentSchedulerActionType app = DROPPABLE_ACTION \<and> virt_sendQueueIsOverloaded p"
  shows
  "mMessagesFulfilled (mPeerMetrics r) =
     mMessagesFulfilled (mPeerMetrics p) + of_nat (length (filter (\<lambda>h. getTx app h \<noteq> None) hs)) \<and>
   mBannedMessageUnfulfilled (mPeerMetrics r) =
     mBannedMessageUnfulfilled (mPeerMetrics p) +
       of_nat (length (filter (\<lambda>h. getTx app h = None \<and> isBannedTx app h) hs)) \<and>
   mUnknownMessageUnfulfilled (mPeerMetrics r) =
     mUnknownMessageUnfulfilled (mPeerMetrics p) +
       of_nat (length (filter (\<lambda>h. getTx app h = None \<and> \<not> isBannedTx app h) hs)) \<and>
   events r = events p @
     map (\<lambda>tx. if shed then EvShed (MTransaction tx) else EvFlow (MTransaction tx))
         (List.map_filter (getTx app) hs) \<and>
   mMessageDrop (mPeerMetrics r) =
     mMessageDrop (mPeerMetrics p) +
       (if shed then of_nat (length (filter (\<lambda>h. getTx app h \<noteq> None) hs)) else 0) \<and>
   ((\<forall>h \<in> set hs. getTx app h = None) \<longrightarrow> events r = events p)"
  unfolding r_def shed_def
  using fulfillDemand_fulfilled [of app p hs] fulfillDemand_banned [of app p hs]
    fulfillDemand_unknown [of app p hs] fulfillDemand_events [of app p hs]
    fulfillDemand_dropped [of app p hs] fulfillDemand_silent [of hs app p]
  by blast

text \<open>
  The claim as stated fails under load: in a droppable action on a peer whose send queue is
  overloaded the herder has the transaction and the fulfilled counter is incremented, but
  \<^verbatim>\<open>sendMessage\<close> drops the TRANSACTION, and nothing is sent.
\<close>

theorem fulfill_demand_shed_counterexample:
  "getTx exampleApp 2 = Some [1, 2, 3] \<and>
   mMessagesFulfilled (mPeerMetrics authPeer) = 0 \<and> events authPeer = [] \<and>
   mMessagesFulfilled (mPeerMetrics
     (fulfillDemand (exampleApp\<lparr>currentSchedulerActionType := DROPPABLE_ACTION\<rparr>)
        (authPeer\<lparr>virt_sendQueueIsOverloaded := True\<rparr>) [2])) = 1 \<and>
   mMessageDrop (mPeerMetrics
     (fulfillDemand (exampleApp\<lparr>currentSchedulerActionType := DROPPABLE_ACTION\<rparr>)
        (authPeer\<lparr>virt_sendQueueIsOverloaded := True\<rparr>) [2])) = 1 \<and>
   events (fulfillDemand (exampleApp\<lparr>currentSchedulerActionType := DROPPABLE_ACTION\<rparr>)
        (authPeer\<lparr>virt_sendQueueIsOverloaded := True\<rparr>) [2]) = [EvShed (MTransaction [1, 2, 3])]"
  by (simp add: fulfillOne_def sendMessage_def authPeer_def examplePeer_def Peer_new_def
      exampleApp_def)

theorem fulfill_demand_counts_and_replies_witness:
  "mMessagesFulfilled (mPeerMetrics (fulfillDemand exampleApp authPeer [1, 2, 3])) = 1 \<and>
   mBannedMessageUnfulfilled (mPeerMetrics (fulfillDemand exampleApp authPeer [1, 2, 3])) = 1 \<and>
   mUnknownMessageUnfulfilled (mPeerMetrics (fulfillDemand exampleApp authPeer [1, 2, 3])) = 1 \<and>
   mMessageDrop (mPeerMetrics (fulfillDemand exampleApp authPeer [1, 2, 3])) = 0 \<and>
   events (fulfillDemand exampleApp authPeer [1, 2, 3]) = [EvFlow (MTransaction [1, 2, 3])] \<and>
   getTx exampleApp 1 = None \<and> getTx exampleApp 3 = None \<and>
   events (fulfillDemand exampleApp authPeer [1, 3]) = [] \<and>
   events (fulfillDemand (exampleApp\<lparr>currentSchedulerActionType := DROPPABLE_ACTION\<rparr>)
        (authPeer\<lparr>virt_sendQueueIsOverloaded := True\<rparr>) [1, 2, 3]) = [EvShed (MTransaction [1, 2, 3])]"
proof -
  let ?load = "exampleApp\<lparr>currentSchedulerActionType := DROPPABLE_ACTION\<rparr>"
  let ?over = "authPeer\<lparr>virt_sendQueueIsOverloaded := True\<rparr>"
  have app: "getTx exampleApp = (\<lambda>h. if h = 2 then Some [1, 2, 3] else None)"
    "isBannedTx exampleApp = (\<lambda>h. h = 3)"
    "currentSchedulerActionType exampleApp = NORMAL_ACTION"
    "getTx ?load = (\<lambda>h. if h = 2 then Some [1, 2, 3] else None)"
    "currentSchedulerActionType ?load = DROPPABLE_ACTION"
    by (simp_all add: exampleApp_def)
  have a: "events authPeer = []"
    "mPeerMetrics authPeer = \<lparr>mMessageDrop = 0, mMessagesFulfilled = 0,
                      mBannedMessageUnfulfilled = 0, mUnknownMessageUnfulfilled = 0\<rparr>"
    by (simp_all add: authPeer_def examplePeer_def Peer_new_def)
  note t1 = fulfill_demand_counts_and_replies [of exampleApp authPeer "[1, 2, 3]"]
  note t2 = fulfill_demand_counts_and_replies [of exampleApp authPeer "[1, 3]"]
  note t3 = fulfill_demand_counts_and_replies [of ?load ?over "[1, 2, 3]"]
  have c1: "mMessagesFulfilled (mPeerMetrics (fulfillDemand exampleApp authPeer [1, 2, 3])) = 1 \<and>
   mBannedMessageUnfulfilled (mPeerMetrics (fulfillDemand exampleApp authPeer [1, 2, 3])) = 1 \<and>
   mUnknownMessageUnfulfilled (mPeerMetrics (fulfillDemand exampleApp authPeer [1, 2, 3])) = 1 \<and>
   mMessageDrop (mPeerMetrics (fulfillDemand exampleApp authPeer [1, 2, 3])) = 0 \<and>
   events (fulfillDemand exampleApp authPeer [1, 2, 3]) = [EvFlow (MTransaction [1, 2, 3])]"
    using t1 by (simp add: app a)
  have c2: "getTx exampleApp 1 = None \<and> getTx exampleApp 3 = None \<and>
   events (fulfillDemand exampleApp authPeer [1, 3]) = []"
    using t2 by (simp add: app a)
  have c3: "events (fulfillDemand ?load ?over [1, 2, 3]) = [EvShed (MTransaction [1, 2, 3])]"
    using t3 by (simp add: app a)
  from c1 c2 c3 show ?thesis by simp
qed

end
